(* ===== verification/Prelude.thy ===== *)
theory Prelude
  imports Main "HOL-Library.Multiset"
begin

text \<open>
  The Python library functions that \<^verbatim>\<open>src/scan_deposits.py\<close> relies on, as HOL
  functions: character classes of \<^verbatim>\<open>str\<close>, \<^verbatim>\<open>str.upper\<close>, \<^verbatim>\<open>str.title\<close>,
  \<^verbatim>\<open>str.strip\<close>, \<^verbatim>\<open>str.replace\<close> of one character, \<^verbatim>\<open>int()\<close> on a digit string and
  \<^verbatim>\<open>str()\<close> on an integer, and insertion-ordered dictionaries.
  A character is an Isabelle \<open>char\<close>, read as a code point below 256 (Latin-1); the
  case mappings are those of ASCII, which is exact for every string they are applied to
  in the regular-expression part and is assumed of the ore names of the dataset.
\<close>

named_theorems py_simps "evaluation rules of the Python library model"

section \<open>Character classes\<close>

definition is_digit :: "char \<Rightarrow> bool" where
  \<comment> \<open>\<^verbatim>\<open>\d\<close> and \<^verbatim>\<open>str.isdecimal\<close> below code point 256\<close>
  "is_digit c \<longleftrightarrow> (let n = (of_char c :: nat) in 48 \<le> n \<and> n \<le> 57)"

definition is_upper_ascii :: "char \<Rightarrow> bool" where
  "is_upper_ascii c \<longleftrightarrow> (let n = (of_char c :: nat) in 65 \<le> n \<and> n \<le> 90)"

definition is_lower_ascii :: "char \<Rightarrow> bool" where
  "is_lower_ascii c \<longleftrightarrow> (let n = (of_char c :: nat) in 97 \<le> n \<and> n \<le> 122)"

definition is_letter :: "char \<Rightarrow> bool" where
  \<comment> \<open>the class \<^verbatim>\<open>[A-Za-z]\<close>\<close>
  "is_letter c \<longleftrightarrow> is_upper_ascii c \<or> is_lower_ascii c"

definition py_isdigit :: "char \<Rightarrow> bool" where
  \<comment> \<open>\<^verbatim>\<open>str.isdigit\<close> below code point 256: the decimal digits and the superscripts
      two, three and one\<close>
  "py_isdigit c \<longleftrightarrow> is_digit c \<or> (of_char c :: nat) \<in> {178, 179, 185}"

definition py_isspace :: "char \<Rightarrow> bool" where
  \<comment> \<open>\<^verbatim>\<open>str.isspace\<close> below code point 256\<close>
  "py_isspace c \<longleftrightarrow> (let n = (of_char c :: nat) in
     (9 \<le> n \<and> n \<le> 13) \<or> (28 \<le> n \<and> n \<le> 32) \<or> n = 133 \<or> n = 160)"

definition to_upper :: "char \<Rightarrow> char" where
  "to_upper c = (if is_lower_ascii c then char_of ((of_char c :: nat) - 32) else c)"

definition to_lower :: "char \<Rightarrow> char" where
  "to_lower c = (if is_upper_ascii c then char_of ((of_char c :: nat) + 32) else c)"

section \<open>String operations\<close>

definition py_upper :: "string \<Rightarrow> string" where
  "py_upper s = map to_upper s"

text \<open>\<^verbatim>\<open>str.title\<close>: a cased character is upper-cased when the character before it is
  not cased, lower-cased otherwise.\<close>

fun py_title_from :: "bool \<Rightarrow> string \<Rightarrow> string" where
  "py_title_from prev_cased [] = []"
| "py_title_from prev_cased (c # cs) =
     (if is_letter c then (if prev_cased then to_lower c else to_upper c) # py_title_from True cs
      else c # py_title_from False cs)"

definition py_title :: "string \<Rightarrow> string" where
  "py_title s = py_title_from False s"

definition py_strip :: "string \<Rightarrow> string" where
  "py_strip s = rev (dropWhile py_isspace (rev (dropWhile py_isspace s)))"

definition py_remove :: "char \<Rightarrow> string \<Rightarrow> string" where
  \<comment> \<open>\<^verbatim>\<open>s.replace(c, "")\<close> for a one-character string \<open>c\<close>\<close>
  "py_remove c s = filter (\<lambda>x. x \<noteq> c) s"

definition digit_val :: "char \<Rightarrow> int" where
  "digit_val c = int (of_char c) - 48"

definition digits_value :: "string \<Rightarrow> int" where
  \<comment> \<open>\<^verbatim>\<open>int(s)\<close> on a string of decimal digits\<close>
  "digits_value s = foldl (\<lambda>acc c. 10 * acc + digit_val c) 0 s"

definition int_max_str_digits :: nat where
  \<comment> \<open>CPython's \<^verbatim>\<open>sys.int_info.default_max_str_digits\<close>: \<^verbatim>\<open>int()\<close> raises
      \<^verbatim>\<open>ValueError\<close> on a decimal string with more digits\<close>
  "int_max_str_digits = 4300"

definition digit_char :: "nat \<Rightarrow> char" where
  "digit_char d = char_of (48 + d)"

fun nat_digits :: "nat \<Rightarrow> string" where
  "nat_digits n = (if n < 10 then [digit_char n] else nat_digits (n div 10) @ [digit_char (n mod 10)])"

declare nat_digits.simps [simp del]

definition py_str_int :: "int \<Rightarrow> string" where
  \<comment> \<open>\<^verbatim>\<open>str(n)\<close> and \<^verbatim>\<open>f"{n}"\<close> for an integer\<close>
  "py_str_int n = (if n < 0 then CHR ''-'' # nat_digits (nat (- n)) else nat_digits (nat n))"

section \<open>Insertion-ordered dictionaries\<close>

text \<open>
  A Python \<^verbatim>\<open>dict\<close> iterates in insertion order, and assigning to a present key keeps
  its position. It is an association list with distinct keys: \<open>dict_set\<close> updates in
  place or appends.
\<close>

type_synonym ('k, 'v) pydict = "('k \<times> 'v) list"

fun dict_get :: "('k, 'v) pydict \<Rightarrow> 'k \<Rightarrow> 'v option" where
  "dict_get [] k = None"
| "dict_get ((k', v) # d) k = (if k' = k then Some v else dict_get d k)"

fun dict_set :: "('k, 'v) pydict \<Rightarrow> 'k \<Rightarrow> 'v \<Rightarrow> ('k, 'v) pydict" where
  "dict_set [] k v = [(k, v)]"
| "dict_set ((k', v') # d) k v = (if k' = k then (k, v) # d else (k', v') # dict_set d k v)"

definition dict_keys :: "('k, 'v) pydict \<Rightarrow> 'k list" where
  "dict_keys d = map fst d"

definition dict_get_default :: "('k, 'v) pydict \<Rightarrow> 'k \<Rightarrow> 'v \<Rightarrow> 'v" where
  \<comment> \<open>\<^verbatim>\<open>d.get(k, default)\<close>\<close>
  "dict_get_default d k dflt = (case dict_get d k of Some v \<Rightarrow> v | None \<Rightarrow> dflt)"

section \<open>Raising computations\<close>

text \<open>
  A computation that may raise returns \<open>Inl\<close> of the exception or \<open>Inr\<close> of its
  value. \<open>py_map_all\<close> is a \<^verbatim>\<open>for\<close> loop that appends one result per element: the
  first element whose computation raises ends the loop with that exception.
\<close>

fun py_map_all :: "('a \<Rightarrow> 'e + 'b) \<Rightarrow> 'a list \<Rightarrow> 'e + 'b list" where
  "py_map_all f [] = Inr []"
| "py_map_all f (x # xs) =
     (case f x of
        Inl e \<Rightarrow> Inl e
      | Inr y \<Rightarrow> (case py_map_all f xs of Inl e \<Rightarrow> Inl e | Inr ys \<Rightarrow> Inr (y # ys)))"

declare is_digit_def [py_simps] is_upper_ascii_def [py_simps] is_lower_ascii_def [py_simps]
  is_letter_def [py_simps] py_isdigit_def [py_simps] py_isspace_def [py_simps]
  to_upper_def [py_simps] to_lower_def [py_simps] py_upper_def [py_simps]
  py_title_def [py_simps] py_strip_def [py_simps] py_remove_def [py_simps]
  digits_value_def [py_simps] digit_val_def [py_simps] int_max_str_digits_def [py_simps]
  digit_char_def [py_simps] py_str_int_def [py_simps] dict_get_default_def [py_simps]
  dict_keys_def [py_simps]

section \<open>Lemmas on characters\<close>

lemma char_of_nat_eq_iff [py_simps]: "char_of (n::nat) = c \<longleftrightarrow> n mod 256 = of_char c"
  by (metis char_of_char of_char_of)

lemma char_of_nat_eq_iff' [py_simps]: "c = char_of (n::nat) \<longleftrightarrow> n mod 256 = of_char c"
  by (metis char_of_char of_char_of)

section \<open>Lemmas on lists\<close>

lemma takeWhile_stop: "list_all P xs \<Longrightarrow> \<not> P y \<Longrightarrow> takeWhile P (xs @ y # ys) = xs"
  by (induction xs) auto


lemma find_Some_in: "find P xs = Some x \<Longrightarrow> x \<in> set xs \<and> P x"
  by (induction xs) (auto split: if_splits)

lemma find_append: "find P (xs @ ys) = (case find P xs of None \<Rightarrow> find P ys | Some x \<Rightarrow> Some x)"
  by (induction xs) auto

lemma find_first_index:
  "find P xs = Some x \<Longrightarrow> \<exists>i < length xs. xs ! i = x \<and> P x \<and> (\<forall>j < i. \<not> P (xs ! j))"
  by (auto simp: find_Some_iff)

section \<open>Decimal strings\<close>

text \<open>\<^verbatim>\<open>int()\<close> on digits and \<^verbatim>\<open>str()\<close> on a natural number: the value is
  non-negative, its last digit is the value modulo ten, and printing then reading back
  gives the number.\<close>

lemma digit_val_range: "is_digit c \<Longrightarrow> 0 \<le> digit_val c \<and> digit_val c \<le> 9"
  by (auto simp: is_digit_def digit_val_def Let_def)

lemma digit_val_zero_iff: "is_digit c \<Longrightarrow> digit_val c = 0 \<longleftrightarrow> c = CHR ''0''"
proof -
  have "digit_val c = 0 \<longleftrightarrow> (of_char c :: nat) = of_char CHR ''0''" by (simp add: digit_val_def)
  then show ?thesis by (simp only: of_char_eq_iff)
qed

lemma digits_value_snoc: "digits_value (xs @ [x]) = 10 * digits_value xs + digit_val x"
  by (simp add: digits_value_def)

lemma digits_value_nonneg: "list_all is_digit xs \<Longrightarrow> 0 \<le> digits_value xs"
  by (induction xs rule: rev_induct) (auto simp: digits_value_snoc digit_val_range, simp add: digits_value_def)

lemma digits_value_mod_10:
  "list_all is_digit (xs @ [x]) \<Longrightarrow> digits_value (xs @ [x]) mod 10 = digit_val x"
  using digit_val_range [of x] by (simp add: digits_value_snoc)

lemma digit_char_is_digit: "d < 10 \<Longrightarrow> is_digit (digit_char d)"
  by (auto simp: is_digit_def digit_char_def Let_def)

lemma digit_val_digit_char: "d < 10 \<Longrightarrow> digit_val (digit_char d) = int d"
  by (simp add: digit_val_def digit_char_def)

lemma nat_digits_digits: "list_all is_digit (nat_digits n) \<and> nat_digits n \<noteq> []"
proof (induction n rule: nat_digits.induct)
  case (1 n)
  then show ?case by (auto simp: nat_digits.simps [of n] digit_char_is_digit)
qed

lemma digits_value_nat_digits: "digits_value (nat_digits n) = int n"
proof (induction n rule: nat_digits.induct)
  case (1 n)
  show ?case
  proof (cases "n < 10")
    case True
    then show ?thesis by (subst nat_digits.simps) (simp add: digits_value_def digit_val_digit_char)
  next
    case False
    then have "digits_value (nat_digits n) = 10 * int (n div 10) + int (n mod 10)"
      using "1.IH" by (subst nat_digits.simps) (simp add: digits_value_snoc digit_val_digit_char)
    also have "\<dots> = int n" by (metis div_mult_mod_eq mult.commute of_nat_add of_nat_mult of_nat_numeral)
    finally show ?thesis .
  qed
qed

section \<open>Lemmas on dictionaries\<close>

lemma dict_get_Some_in: "dict_get d k = Some v \<Longrightarrow> (k, v) \<in> set d"
  by (induction d k rule: dict_get.induct) (auto split: if_splits)

lemma dict_get_set: "dict_get (dict_set d k v) k' = (if k = k' then Some v else dict_get d k')"
  by (induction d k v rule: dict_set.induct) auto

section \<open>Lemmas on raising loops\<close>

lemma list_all2_in_set2: "list_all2 P xs ys \<Longrightarrow> y \<in> set ys \<Longrightarrow> \<exists>x \<in> set xs. P x y"
  by (induction xs ys rule: list_all2_induct) auto

lemma sum_case_Inl_iff:
  "(\<exists>e. (case a of Inl e \<Rightarrow> Inl e | Inr x \<Rightarrow> f x) = Inl e) \<longleftrightarrow>
   (\<exists>e. a = Inl e) \<or> (\<exists>x. a = Inr x \<and> (\<exists>e. f x = Inl e))"
  by (cases a) auto

lemma sum_Inr_iff_not_Inl: "(\<exists>x. a = Inr x) \<longleftrightarrow> \<not> (\<exists>e. a = Inl e)"
  by (cases a) auto

lemma py_map_all_Inr_iff: "py_map_all f xs = Inr ys \<longleftrightarrow> list_all2 (\<lambda>x y. f x = Inr y) xs ys"
proof (induction xs arbitrary: ys)
  case (Cons x xs)
  then show ?case by (cases ys) (auto split: sum.splits simp flip: Cons.IH)
qed auto

lemma py_map_all_Inl_iff: "(\<exists>e. py_map_all f xs = Inl e) \<longleftrightarrow> (\<exists>x \<in> set xs. \<exists>e. f x = Inl e)"
  by (induction xs) (auto split: sum.splits)

lemma py_map_all_filter:
  assumes "py_map_all f xs = Inr ys" and "\<And>x y. f x = Inr y \<Longrightarrow> P x \<longleftrightarrow> Q y"
  shows "py_map_all f (filter P xs) = Inr (filter Q ys)"
  using assms(1)
proof (induction xs arbitrary: ys)
  case (Cons x xs)
  then obtain y ys' where "f x = Inr y" "py_map_all f xs = Inr ys'" "ys = y # ys'"
    by (auto split: sum.splits)
  with Cons.IH show ?case using assms(2) [of x y] by simp
qed simp

end
