(* ===== verification/PyRegex.thy ===== *)
theory PyRegex
  imports Prelude
begin

text \<open>
  The fragment of Python's \<^verbatim>\<open>re\<close> module that \<^verbatim>\<open>src/scan_deposits.py\<close> uses:
  character classes, greedy bounded and unbounded repetition of a character class
  (\<^verbatim>\<open>?\<close>, \<^verbatim>\<open>{m,n}\<close>, \<^verbatim>\<open>+\<close>), concatenation, alternation and the anchor
  \<^verbatim>\<open>$\<close>. \<open>lm r s\<close> lists the ways \<open>r\<close> matches a prefix of \<open>s\<close> in the order in which
  the backtracking engine tries them, so that its head is the match Python reports.
  On top of it: \<^verbatim>\<open>re.match\<close> (anchored at the start), \<^verbatim>\<open>re.search\<close> (leftmost
  start position) and \<^verbatim>\<open>re.findall\<close> (successive non-overlapping matches).
\<close>

datatype rx =
    Cls "char \<Rightarrow> bool"                 \<comment> \<open>one character of a class\<close>
  | Rep nat "nat option" "char \<Rightarrow> bool" \<comment> \<open>greedy \<open>{m,n}\<close> of a class; \<open>None\<close>: no upper bound\<close>
  | Seq rx rx
  | Alt rx rx                         \<comment> \<open>\<^verbatim>\<open>|\<close>: the left branch is tried first\<close>
  | EndA                              \<comment> \<open>\<^verbatim>\<open>$\<close>: end of string, or before a final newline\<close>

fun rep_cap :: "nat option \<Rightarrow> nat \<Rightarrow> nat" where
  "rep_cap None k = k"
| "rep_cap (Some n) k = min n k"

fun lm :: "rx \<Rightarrow> string \<Rightarrow> (string \<times> string) list" where
  "lm (Cls P) [] = []"
| "lm (Cls P) (c # cs) = (if P c then [([c], cs)] else [])"
| "lm (Rep m n P) s =
     (let k = rep_cap n (length (takeWhile P s))
      in map (\<lambda>j. (take j s, drop j s)) (rev [m..<Suc k]))"
| "lm (Seq r1 r2) s = concat (map (\<lambda>(u, t). map (\<lambda>(v, w). (u @ v, w)) (lm r2 t)) (lm r1 s))"
| "lm (Alt r1 r2) s = lm r1 s @ lm r2 s"
| "lm EndA s = (if s = [] \<or> s = [CHR ''\<newline>''] then [([], s)] else [])"

text \<open>Two capturing groups in sequence, \<^verbatim>\<open>(r1)(r2)\<close>: the same order, the split kept.\<close>

definition lm2 :: "rx \<Rightarrow> rx \<Rightarrow> string \<Rightarrow> ((string \<times> string) \<times> string) list" where
  "lm2 r1 r2 s = concat (map (\<lambda>(u, t). map (\<lambda>(v, w). ((u, v), w)) (lm r2 t)) (lm r1 s))"

definition re_match :: "rx \<Rightarrow> string \<Rightarrow> string option" where
  "re_match r s = (case lm r s of [] \<Rightarrow> None | (u, _) # _ \<Rightarrow> Some u)"

definition re_match_groups2 :: "rx \<Rightarrow> rx \<Rightarrow> string \<Rightarrow> (string \<times> string) option" where
  \<comment> \<open>\<^verbatim>\<open>re.match("(r1)(r2)", s).groups()\<close>\<close>
  "re_match_groups2 r1 r2 s = (case lm2 r1 r2 s of [] \<Rightarrow> None | (g, _) # _ \<Rightarrow> Some g)"

fun search_from :: "rx \<Rightarrow> nat \<Rightarrow> string \<Rightarrow> (nat \<times> string) option" where
  "search_from r i [] = (case lm r [] of [] \<Rightarrow> None | (u, _) # _ \<Rightarrow> Some (i, u))"
| "search_from r i (c # cs) =
     (case lm r (c # cs) of [] \<Rightarrow> search_from r (Suc i) cs | (u, _) # _ \<Rightarrow> Some (i, u))"

definition re_search :: "rx \<Rightarrow> string \<Rightarrow> (nat \<times> string) option" where
  \<comment> \<open>\<^verbatim>\<open>re.search\<close>: the start position and the text of the leftmost match\<close>
  "re_search r s = search_from r 0 s"

text \<open>
  \<^verbatim>\<open>re.findall\<close> (for patterns without groups): after a match the scan resumes
  where it ended; after an empty match it resumes one character further on.
\<close>

function findall :: "rx \<Rightarrow> string \<Rightarrow> string list" where
  "findall r s =
     (case re_search r s of
        None \<Rightarrow> []
      | Some (p, u) \<Rightarrow> u # (if s = [] then [] else findall r (drop (p + max 1 (length u)) s)))"
  by pat_completeness auto
termination
  by (relation "measure (\<lambda>(r, s). length s)") (auto intro!: diff_less)

declare findall.simps [simp del]

section \<open>The language of a pattern\<close>

text \<open>The strings a pattern matches, as an executable predicate; \<open>EndA\<close> matches the
  empty string where its condition on the rest holds.\<close>

fun rx_lang :: "rx \<Rightarrow> string \<Rightarrow> bool" where
  "rx_lang (Cls P) u \<longleftrightarrow> (case u of [c] \<Rightarrow> P c | _ \<Rightarrow> False)"
| "rx_lang (Rep m n P) u \<longleftrightarrow> list_all P u \<and> m \<le> length u \<and> (case n of None \<Rightarrow> True | Some k \<Rightarrow> length u \<le> k)"
| "rx_lang (Seq r1 r2) u \<longleftrightarrow> (\<exists>i \<in> {0..length u}. rx_lang r1 (take i u) \<and> rx_lang r2 (drop i u))"
| "rx_lang (Alt r1 r2) u \<longleftrightarrow> rx_lang r1 u \<or> rx_lang r2 u"
| "rx_lang EndA u \<longleftrightarrow> u = []"

fun anchor_free :: "rx \<Rightarrow> bool" where
  "anchor_free (Seq r1 r2) \<longleftrightarrow> anchor_free r1 \<and> anchor_free r2"
| "anchor_free (Alt r1 r2) \<longleftrightarrow> anchor_free r1 \<and> anchor_free r2"
| "anchor_free EndA \<longleftrightarrow> False"
| "anchor_free _ \<longleftrightarrow> True"

section \<open>The matcher lists exactly the matches of the pattern\<close>

text \<open>Each entry of \<open>lm r s\<close> splits \<open>s\<close> into a matched prefix in the language of
  \<open>r\<close> and the rest (\<open>lm_split\<close>, \<open>lm_sound\<close>), and for a pattern without anchor
  every such split is listed (\<open>lm_complete\<close>).\<close>

lemma take_in_takeWhile: "j \<le> length (takeWhile P s) \<Longrightarrow> list_all P (take j s)"
proof -
  assume j: "j \<le> length (takeWhile P s)"
  have "take j s = take j (takeWhile P s @ dropWhile P s)" by simp
  also have "\<dots> = take j (takeWhile P s)" using j by (simp del: takeWhile_dropWhile_id)
  finally show ?thesis by (auto simp: list_all_iff dest: in_set_takeD set_takeWhileD)
qed

lemma list_all_takeWhile_length: "list_all P u \<Longrightarrow> length u \<le> length (takeWhile P (u @ w))"
  by (induction u) auto

lemma lm_Rep_iff: "(u, w) \<in> set (lm (Rep m n P) s) \<longleftrightarrow>
  (\<exists>j. m \<le> j \<and> j \<le> rep_cap n (length (takeWhile P s)) \<and> u = take j s \<and> w = drop j s)"
  by (auto simp: Let_def image_iff less_Suc_eq_le simp del: upt_Suc)

lemma lm_split: "(u, w) \<in> set (lm r s) \<Longrightarrow> s = u @ w"
proof (induction r s arbitrary: u w rule: lm.induct)
  case (3 m n P s)
  then show ?case unfolding lm_Rep_iff by auto
next
  case (4 r1 r2 s)
  then show ?case by fastforce
qed (auto split: if_splits)


lemma lm_Seq_iff: "(u, w) \<in> set (lm (Seq r1 r2) s) \<longleftrightarrow>
  (\<exists>u1 t u2. (u1, t) \<in> set (lm r1 s) \<and> (u2, w) \<in> set (lm r2 t) \<and> u = u1 @ u2)"
  by force

lemma lm_sound: "(u, w) \<in> set (lm r s) \<Longrightarrow> rx_lang r u"
proof (induction r s arbitrary: u w rule: lm.induct)
  case (3 m n P s)
  then obtain j where j: "m \<le> j" "j \<le> rep_cap n (length (takeWhile P s))" "u = take j s"
    unfolding lm_Rep_iff by blast
  then have jt: "j \<le> length (takeWhile P s)" by (cases n) auto
  then have "list_all P u" using j(3) by (simp add: take_in_takeWhile)
  moreover have "j \<le> length s" using jt length_takeWhile_le le_trans by blast
  ultimately show ?case using j by (cases n) auto
next
  case (4 r1 r2 s)
  then obtain u1 t u2 where "(u1, t) \<in> set (lm r1 s)" "(u2, w) \<in> set (lm r2 t)" "u = u1 @ u2"
    by auto
  with "4.IH" have "rx_lang r1 u1" "rx_lang r2 u2" by blast+
  then show ?case using \<open>u = u1 @ u2\<close>
    by (auto intro!: bexI [where x = "length u1"])
qed (auto split: if_splits)

lemma lm_complete: "anchor_free r \<Longrightarrow> rx_lang r u \<Longrightarrow> (u, w) \<in> set (lm r (u @ w))"
proof (induction r arbitrary: u w)
  case (Rep m n P)
  then have "list_all P u" and cap: "m \<le> length u" "case n of None \<Rightarrow> True | Some k \<Rightarrow> length u \<le> k" by auto
  then have "length u \<le> length (takeWhile P (u @ w))" by (simp add: list_all_takeWhile_length)
  with cap have "length u \<le> rep_cap n (length (takeWhile P (u @ w)))" by (cases n) auto
  with cap show ?case unfolding lm_Rep_iff by (auto intro!: exI [where x = "length u"])
next
  case (Seq r1 r2)
  then obtain i where i: "rx_lang r1 (take i u)" "rx_lang r2 (drop i u)" by auto
  with Seq have "(take i u, drop i u @ w) \<in> set (lm r1 (take i u @ drop i u @ w))"
    by simp
  then have "(take i u, drop i u @ w) \<in> set (lm r1 (u @ w))"
    by (metis append_take_drop_id append.assoc)
  moreover from i Seq have "(drop i u, w) \<in> set (lm r2 (drop i u @ w))" by auto
  ultimately show ?case unfolding lm_Seq_iff by (metis append_take_drop_id)
next
  case (Cls P)
  then obtain c where "u = [c]" "P c" by (auto split: list.splits)
  then show ?case by simp
next
  case (Alt r1 r2)
  then show ?case by auto
next
  case EndA
  then show ?case by simp
qed

section \<open>Search and findall\<close>

text \<open>\<open>search_from\<close> reports the leftmost start position at which the pattern matches,
  with the first match the engine finds there; \<open>findall\<close> starts with that match.\<close>

lemma search_from_Some:
  "search_from r i s = Some (p, u) \<Longrightarrow>
   i \<le> p \<and> p \<le> i + length s \<and> (\<exists>w rest. lm r (drop (p - i) s) = (u, w) # rest) \<and>
   (\<forall>q < p - i. lm r (drop q s) = [])"
proof (induction s arbitrary: i)
  case Nil
  then show ?case by (auto split: list.splits)
next
  case (Cons c cs)
  show ?case
  proof (cases "lm r (c # cs)")
    case Nil
    with Cons.prems have "search_from r (Suc i) cs = Some (p, u)" by simp
    from Cons.IH [OF this] obtain w rest where
      ih: "Suc i \<le> p" "p \<le> Suc i + length cs" "lm r (drop (p - Suc i) cs) = (u, w) # rest"
        "\<forall>q < p - Suc i. lm r (drop q cs) = []" by blast
    have pi: "p - i = Suc (p - Suc i)" using ih(1) by arith
    have d: "drop (p - i) (c # cs) = drop (p - Suc i) cs" by (simp only: pi drop_Suc_Cons)
    have "lm r (drop q (c # cs)) = []" if "q < p - i" for q
    proof (cases q)
      case 0
      with Nil show ?thesis by simp
    next
      case (Suc q')
      with that ih(4) pi show ?thesis by simp
    qed
    with ih d show ?thesis by auto
  next
    case (Cons x xs)
    with Cons.prems show ?thesis by (cases x) auto
  qed
qed

lemma search_from_None: "search_from r i s = None \<Longrightarrow> \<forall>q \<le> length s. lm r (drop q s) = []"
proof (induction s arbitrary: i)
  case Nil
  then show ?case by (auto split: list.splits)
next
  case (Cons c cs)
  then have hd: "lm r (c # cs) = []" and "search_from r (Suc i) cs = None"
    by (auto split: list.splits)
  with Cons.IH have tl: "\<forall>q \<le> length cs. lm r (drop q cs) = []" by blast
  show ?case
  proof (intro allI impI)
    fix q assume "q \<le> length (c # cs)"
    with hd tl show "lm r (drop q (c # cs)) = []" by (cases q) auto
  qed
qed

lemma findall_Cons_search: "findall r s = u # us \<Longrightarrow> \<exists>p. re_search r s = Some (p, u)"
  by (subst (asm) findall.simps) (auto split: option.splits)

lemma findall_Nil_iff: "findall r s = [] \<longleftrightarrow> re_search r s = None"
  by (subst findall.simps) (auto split: option.splits)

section \<open>The first match\<close>

text \<open>The head of \<open>lm\<close> for a repetition takes as many characters as allowed, and the
  head of a sequence joins the heads of its parts: the rules that compute the match Python
  reports.\<close>

lemma lm_Rep_first:
  "k = rep_cap n (length (takeWhile P s)) \<Longrightarrow> m \<le> k \<Longrightarrow>
   lm (Rep m n P) s = (take k s, drop k s) # map (\<lambda>j. (take j s, drop j s)) (rev [m..<k])"
  by (simp add: Let_def)

lemma lm_Seq_Cons:
  "lm r1 s = (u, t) # xs \<Longrightarrow> lm r2 t = (v, w) # ys \<Longrightarrow> \<exists>zs. lm (Seq r1 r2) s = (u @ v, w) # zs"
  by simp

lemma lm2_Cons:
  "lm r1 s = (u, t) # xs \<Longrightarrow> lm r2 t = (v, w) # ys \<Longrightarrow> \<exists>zs. lm2 r1 r2 s = ((u, v), w) # zs"
  by (simp add: lm2_def)

lemma rx_lang_Seq_split:
  "rx_lang (Seq r1 r2) u \<Longrightarrow> \<exists>u1 u2. u = u1 @ u2 \<and> rx_lang r1 u1 \<and> rx_lang r2 u2"
  by (auto intro: append_take_drop_id [symmetric])

lemma rx_lang_Cls: "rx_lang (Cls P) u \<longleftrightarrow> (\<exists>c. u = [c] \<and> P c)"
  by (auto split: list.splits)

lemma findall_first_match:
  assumes "findall r s = m # ms"
  shows "\<exists>p w. p \<le> length s \<and> (m, w) \<in> set (lm r (drop p s)) \<and> rx_lang r m"
proof -
  obtain p where "re_search r s = Some (p, m)" using findall_Cons_search [OF assms] by blast
  then obtain w rest where "p \<le> length s" "lm r (drop p s) = (m, w) # rest"
    unfolding re_search_def by (auto dest!: search_from_Some)
  then show ?thesis by (metis list.set_intros(1) lm_sound)
qed

end
