(* ===== verification/Normalizer.thy ===== *)
theory Normalizer
  imports PyRegex
begin

text \<open>
  The code normalizer of \<^verbatim>\<open>src/scan_deposits.py\<close>: the pattern \<^verbatim>\<open>CODE_RE\<close>
  (lines 86--89) and \<^verbatim>\<open>extract_code_from_text\<close> (lines 215--232), which takes the
  first match of \<^verbatim>\<open>CODE_RE\<close> in the recognised text, upper-cases it, splits it into a
  letter/dash prefix and a run of digits, commas and periods, and drops the commas and
  periods. The result is the pair \<open>(code, code_raw)\<close>; Python's \<^verbatim>\<open>None\<close> is \<open>None\<close>.
\<close>

definition is_dash :: "char \<Rightarrow> bool" where
  "is_dash c \<longleftrightarrow> c = CHR ''-''"

definition is_digit_sep :: "char \<Rightarrow> bool" where
  \<comment> \<open>the class \<^verbatim>\<open>[\d,\.]\<close>\<close>
  "is_digit_sep c \<longleftrightarrow> is_digit c \<or> c = CHR '','' \<or> c = CHR ''.''"

definition CODE_RE :: rx where
  \<comment> \<open>\<^verbatim>\<open>(?:[A-Za-z]?-?\d[\d,\.]{1,10}|\d{2,10})\<close>\<close>
  "CODE_RE =
     Alt (Seq (Rep 0 (Some 1) is_letter)
           (Seq (Rep 0 (Some 1) is_dash)
             (Seq (Cls is_digit) (Rep 1 (Some 10) is_digit_sep))))
         (Rep 2 (Some 10) is_digit)"

definition PREFIX_RE :: rx where
  \<comment> \<open>group 1 of \<^verbatim>\<open>([A-Za-z]?-?)([\d,\.]+)\<close>\<close>
  "PREFIX_RE = Seq (Rep 0 (Some 1) is_letter) (Rep 0 (Some 1) is_dash)"

definition DIGITS_RE :: rx where
  \<comment> \<open>group 2 of \<^verbatim>\<open>([A-Za-z]?-?)([\d,\.]+)\<close>\<close>
  "DIGITS_RE = Rep 1 None is_digit_sep"

definition strip_seps :: "string \<Rightarrow> string" where
  \<comment> \<open>\<^verbatim>\<open>s.replace(",", "").replace(".", "")\<close>\<close>
  "strip_seps s = py_remove CHR ''.'' (py_remove CHR '','' s)"

definition extract_code_from_text :: "string \<Rightarrow> string option \<times> string option" where
  "extract_code_from_text raw_text =
     (if raw_text = [] then (None, None)
      else (case findall CODE_RE raw_text of
              [] \<Rightarrow> (None, Some raw_text)
            | m # _ \<Rightarrow>
                (let raw = py_upper m in
                 if list_ex py_isdigit raw then
                   (case re_match_groups2 PREFIX_RE DIGITS_RE raw of
                      Some (prefix, digits) \<Rightarrow> (Some (prefix @ strip_seps digits), Some raw)
                    | None \<Rightarrow> (Some (strip_seps raw), Some raw))
                 else (Some raw, Some raw))))"

text \<open>The shape of a normalised code: an optional upper-case letter, an optional dash,
  then one to eleven decimal digits.\<close>

fun valid_prefix :: "string \<Rightarrow> bool" where
  "valid_prefix [] \<longleftrightarrow> True"
| "valid_prefix [c] \<longleftrightarrow> is_upper_ascii c \<or> is_dash c"
| "valid_prefix [c, d] \<longleftrightarrow> is_upper_ascii c \<and> is_dash d"
| "valid_prefix _ \<longleftrightarrow> False"

definition normalized_code :: "string \<Rightarrow> bool" where
  "normalized_code c \<longleftrightarrow>
     (\<exists>i \<in> {0..2}. valid_prefix (take i c) \<and> drop i c \<noteq> [] \<and>
        list_all is_digit (drop i c) \<and> length (drop i c) \<le> 11)"

text \<open>The shape the specification states (section 8): \<^verbatim>\<open>[A-Z-]?[0-9]+\<close>.\<close>

definition SPEC_CODE_RE :: rx where
  "SPEC_CODE_RE = Seq (Rep 0 (Some 1) (\<lambda>c. is_upper_ascii c \<or> is_dash c)) (Rep 1 None is_digit)"

lemmas extract_eval = extract_code_from_text_def CODE_RE_def PREFIX_RE_def DIGITS_RE_def
  strip_seps_def re_match_groups2_def lm2_def re_search_def is_dash_def is_digit_sep_def
  py_simps Let_def

section \<open>Characters of the pattern\<close>

lemma digit_char_facts:
  assumes "is_digit c" shows "\<not> is_letter c" "\<not> is_lower_ascii c" "\<not> is_dash c" "is_digit_sep c" "py_isdigit c"
  using assms by (auto simp: is_digit_def is_letter_def is_lower_ascii_def is_upper_ascii_def
    is_dash_def is_digit_sep_def py_isdigit_def Let_def)

lemma sep_char_facts:
  assumes "is_digit_sep c" shows "\<not> is_letter c" "\<not> is_lower_ascii c" "\<not> is_dash c"
  using assms by (auto simp: is_digit_def is_letter_def is_lower_ascii_def is_upper_ascii_def
    is_dash_def is_digit_sep_def Let_def)

lemma dash_char_facts:
  assumes "is_dash c" shows "\<not> is_letter c" "\<not> is_lower_ascii c" "\<not> is_digit c" "\<not> is_digit_sep c"
  using assms by (auto simp: is_digit_def is_letter_def is_lower_ascii_def is_upper_ascii_def
    is_dash_def is_digit_sep_def Let_def)

lemma to_upper_letter: "is_letter c \<Longrightarrow> is_upper_ascii (to_upper c) \<and> is_letter (to_upper c)"
  by (auto simp: to_upper_def is_letter_def is_lower_ascii_def is_upper_ascii_def Let_def)

lemma to_upper_id: "\<not> is_lower_ascii c \<Longrightarrow> to_upper c = c"
  by (simp add: to_upper_def)

section \<open>The first match, upper-cased and split\<close>

text \<open>A match of \<^verbatim>\<open>CODE_RE\<close> is an optional letter, an optional dash, a digit and one
  to ten digits, commas or periods (the second alternative is a special case of the
  first). Upper-casing leaves all but the letter alone, and the group match splits it
  right after the dash.\<close>

lemma CODE_RE_lang:
  assumes "rx_lang CODE_RE m"
  shows "\<exists>a b d cs. m = a @ b @ d # cs \<and> list_all is_letter a \<and> length a \<le> 1 \<and>
    list_all is_dash b \<and> length b \<le> 1 \<and> is_digit d \<and> list_all is_digit_sep cs \<and>
    cs \<noteq> [] \<and> length cs \<le> 10"
proof -
  from assms consider
    (pre) "rx_lang (Seq (Rep 0 (Some 1) is_letter) (Seq (Rep 0 (Some 1) is_dash)
             (Seq (Cls is_digit) (Rep 1 (Some 10) is_digit_sep)))) m"
  | (digits) "rx_lang (Rep 2 (Some 10) is_digit) m"
    unfolding CODE_RE_def by auto
  then show ?thesis
  proof cases
    case pre
    then obtain a r1 where m: "m = a @ r1" and a: "rx_lang (Rep 0 (Some 1) is_letter) a" and
      r1: "rx_lang (Seq (Rep 0 (Some 1) is_dash) (Seq (Cls is_digit) (Rep 1 (Some 10) is_digit_sep))) r1"
      by (blast dest: rx_lang_Seq_split)
    from r1 obtain b r2 where r1eq: "r1 = b @ r2" and b: "rx_lang (Rep 0 (Some 1) is_dash) b" and
      r2: "rx_lang (Seq (Cls is_digit) (Rep 1 (Some 10) is_digit_sep)) r2"
      by (blast dest: rx_lang_Seq_split)
    from r2 obtain dd cs where r2eq: "r2 = dd @ cs" and dd: "rx_lang (Cls is_digit) dd" and
      cs: "rx_lang (Rep 1 (Some 10) is_digit_sep) cs"
      by (blast dest: rx_lang_Seq_split)
    from dd obtain d where "dd = [d]" "is_digit d" by (metis rx_lang_Cls)
    moreover have "list_all is_letter a \<and> length a \<le> 1" using a by simp
    moreover have "list_all is_dash b \<and> length b \<le> 1" using b by simp
    moreover have "list_all is_digit_sep cs \<and> cs \<noteq> [] \<and> length cs \<le> 10" using cs by auto
    moreover have "m = a @ b @ d # cs" using m r1eq r2eq \<open>dd = [d]\<close> by simp
    ultimately show ?thesis
      by (intro exI [where x = a] exI [where x = b] exI [where x = d] exI [where x = cs]) simp
  next
    case digits
    then obtain d cs where "m = d # cs" by (cases m) auto
    moreover have "is_digit d \<and> list_all is_digit_sep cs \<and> cs \<noteq> [] \<and> length cs \<le> 10"
      using digits \<open>m = d # cs\<close> by (auto simp: list_all_iff digit_char_facts)
    ultimately show ?thesis
      by (intro exI [where x = "[]"] exI [where x = "[]"] exI [where x = d] exI [where x = cs]) simp
  qed
qed

lemma py_upper_token:
  assumes "list_all is_dash b" "is_digit d" "list_all is_digit_sep cs"
  shows "py_upper (a @ b @ d # cs) = py_upper a @ b @ d # cs"
proof -
  have "map to_upper b = b" using assms(1)
    by (induction b) (auto simp: to_upper_id dash_char_facts)
  moreover have "map to_upper cs = cs" using assms(3)
    by (induction cs) (auto simp: to_upper_id sep_char_facts)
  ultimately show ?thesis using assms(2) by (simp add: py_upper_def to_upper_id digit_char_facts)
qed

lemma prefix_digits_match:
  assumes "list_all is_upper_ascii A" "length A \<le> 1" "list_all is_dash b" "length b \<le> 1"
    "is_digit d" "list_all is_digit_sep cs"
  shows "\<exists>zs. lm2 PREFIX_RE DIGITS_RE (A @ b @ d # cs) = ((A @ b, d # cs), []) # zs"
proof -
  have lettersA: "list_all is_letter A" using assms(1) by (auto simp: list_all_iff is_letter_def)
  have "\<not> is_letter (hd (b @ [d]))" using assms(3,4,5)
    by (cases b) (auto simp: dash_char_facts digit_char_facts)
  then have tA: "takeWhile is_letter (A @ b @ d # cs) = A"
    using lettersA by (cases b) (auto simp: takeWhile_stop)
  have tb: "takeWhile is_dash (b @ d # cs) = b"
    using assms(3,5) by (simp add: takeWhile_stop digit_char_facts)
  have tc: "takeWhile is_digit_sep (d # cs) = d # cs"
    using assms(5,6) by (simp add: digit_char_facts list_all_iff)
  have l1: "lm (Rep 0 (Some 1) is_letter) (A @ b @ d # cs) = (A, b @ d # cs) # map (\<lambda>j. (take j (A @ b @ d # cs), drop j (A @ b @ d # cs))) (rev [0..<length A])"
    using lm_Rep_first [of "length A" "Some 1" is_letter "A @ b @ d # cs" 0] tA assms(2) by simp
  have l2: "lm (Rep 0 (Some 1) is_dash) (b @ d # cs) = (b, d # cs) # map (\<lambda>j. (take j (b @ d # cs), drop j (b @ d # cs))) (rev [0..<length b])"
    using lm_Rep_first [of "length b" "Some 1" is_dash "b @ d # cs" 0] tb assms(4) by simp
  obtain ys where l12: "lm PREFIX_RE (A @ b @ d # cs) = (A @ b, d # cs) # ys"
    using lm_Seq_Cons [OF l1 l2] unfolding PREFIX_RE_def by blast
  have l3: "lm DIGITS_RE (d # cs) = (d # cs, []) # map (\<lambda>j. (take j (d # cs), drop j (d # cs))) (rev [1..<Suc (length cs)])"
    using lm_Rep_first [of "Suc (length cs)" None is_digit_sep "d # cs" 1] tc unfolding DIGITS_RE_def
    by simp
  show ?thesis using lm2_Cons [OF l12 l3] .
qed

lemma upper_letters: "list_all is_letter a \<Longrightarrow> list_all is_upper_ascii (py_upper a)"
  by (induction a) (auto simp: py_upper_def to_upper_letter)

lemma extract_code_from_text_found:
  assumes "raw_text \<noteq> []" "findall CODE_RE raw_text = m # ms"
  shows "\<exists>a b d cs. m = a @ b @ d # cs \<and> list_all is_letter a \<and> length a \<le> 1 \<and>
    list_all is_dash b \<and> length b \<le> 1 \<and> is_digit d \<and> list_all is_digit_sep cs \<and>
    cs \<noteq> [] \<and> length cs \<le> 10 \<and>
    extract_code_from_text raw_text = (Some (py_upper a @ b @ d # strip_seps cs), Some (py_upper m))"
proof -
  from findall_first_match [OF assms(2)] have "rx_lang CODE_RE m" by blast
  then obtain a b d cs where tok: "m = a @ b @ d # cs" "list_all is_letter a" "length a \<le> 1"
    "list_all is_dash b" "length b \<le> 1" "is_digit d" "list_all is_digit_sep cs"
    "cs \<noteq> []" "length cs \<le> 10"
    using CODE_RE_lang by blast
  let ?A = "py_upper a"
  have up: "py_upper m = ?A @ b @ d # cs" using tok by (simp add: py_upper_token)
  have A: "list_all is_upper_ascii ?A" "length ?A \<le> 1"
    using tok(2,3) upper_letters by (auto simp: py_upper_def)
  obtain zs where g: "lm2 PREFIX_RE DIGITS_RE (py_upper m) = ((?A @ b, d # cs), []) # zs"
    using prefix_digits_match [OF A tok(4,5,6,7)] up by auto
  have dig: "list_ex py_isdigit (py_upper m)" using up tok(6) by (simp add: digit_char_facts)
  have "strip_seps (d # cs) = d # strip_seps cs"
    using tok(6) by (simp add: strip_seps_def py_remove_def digit_char_facts is_digit_sep_def)
      (auto simp: is_digit_def Let_def)
  then have "extract_code_from_text raw_text = (Some (?A @ b @ d # strip_seps cs), Some (py_upper m))"
    using assms g dig by (simp add: extract_code_from_text_def re_match_groups2_def Let_def)
  with tok show ?thesis by blast
qed

lemma strip_seps_digits:
  "list_all is_digit_sep cs \<Longrightarrow> list_all is_digit (strip_seps cs) \<and> length (strip_seps cs) \<le> length cs"
  by (induction cs) (auto simp: strip_seps_def py_remove_def is_digit_sep_def le_SucI)

lemma valid_prefix_upper_dash:
  "list_all is_upper_ascii A \<Longrightarrow> length A \<le> 1 \<Longrightarrow> list_all is_dash b \<Longrightarrow> length b \<le> 1 \<Longrightarrow>
   valid_prefix (A @ b)"
  by (cases A; cases b) auto

lemma CODE_RE_anchor_free: "anchor_free CODE_RE"
  by (simp add: CODE_RE_def)

lemma CODE_RE_nonempty: "rx_lang CODE_RE u \<Longrightarrow> u \<noteq> []"
  using CODE_RE_lang by fastforce

section \<open>Properties of extract_code_from_text\<close>

lemma extract_code_shape:
  assumes "fst (extract_code_from_text raw_text) = Some c"
  shows "normalized_code c"
proof -
  have ne: "raw_text \<noteq> []" using assms by (auto simp: extract_code_from_text_def)
  obtain m ms where fa: "findall CODE_RE raw_text = m # ms"
    using assms ne by (cases "findall CODE_RE raw_text") (auto simp: extract_code_from_text_def)
  from extract_code_from_text_found [OF ne fa] obtain a b d cs where tok:
    "list_all is_letter a" "length a \<le> 1" "list_all is_dash b" "length b \<le> 1" "is_digit d"
    "list_all is_digit_sep cs" "length cs \<le> 10"
    "extract_code_from_text raw_text = (Some (py_upper a @ b @ d # strip_seps cs), Some (py_upper m))"
    by blast
  let ?P = "py_upper a @ b"
  have c: "c = ?P @ d # strip_seps cs" using tok(8) assms by simp
  have vp: "valid_prefix ?P"
    using valid_prefix_upper_dash [of "py_upper a" b] upper_letters [OF tok(1)] tok(2-4)
    by (simp add: py_upper_def)
  have len: "length ?P \<in> {0..2}" using tok(2,4) by (simp add: py_upper_def)
  have "list_all is_digit (d # strip_seps cs) \<and> length (d # strip_seps cs) \<le> 11"
    using strip_seps_digits [OF tok(6)] tok(5,7) by simp
  then show ?thesis unfolding normalized_code_def c using vp len
    by (intro bexI [where x = "length ?P"]) simp_all
qed

text \<open>C1: every code the normalizer produces is an optional upper-case letter, an
  optional dash and one to eleven decimal digits.\<close>

theorem extract_code_normalized:
  assumes "fst (extract_code_from_text raw_text) = Some c"
  shows "normalized_code c"
  using assms by (rule extract_code_shape)

text \<open>C3: the normalizer finds no code exactly when no substring of the text matches
  \<^verbatim>\<open>CODE_RE\<close>.\<close>

theorem extract_code_none_iff:
  assumes "raw_text \<noteq> []"
  shows "extract_code_from_text raw_text = (None, Some raw_text) \<longleftrightarrow>
         (\<forall>i j. \<not> rx_lang CODE_RE (take j (drop i raw_text)))"
proof
  assume none: "extract_code_from_text raw_text = (None, Some raw_text)"
  have "findall CODE_RE raw_text = []"
  proof (rule ccontr)
    assume "findall CODE_RE raw_text \<noteq> []"
    then obtain m ms where "findall CODE_RE raw_text = m # ms" by (cases "findall CODE_RE raw_text") auto
    from extract_code_from_text_found [OF assms this] none show False by auto
  qed
  then have "\<forall>q \<le> length raw_text. lm CODE_RE (drop q raw_text) = []"
    by (auto simp: findall_Nil_iff re_search_def dest: search_from_None)
  show "\<forall>i j. \<not> rx_lang CODE_RE (take j (drop i raw_text))"
  proof (intro allI notI)
    fix i j assume l: "rx_lang CODE_RE (take j (drop i raw_text))"
    then have "i \<le> length raw_text" using CODE_RE_nonempty by fastforce
    moreover have "(take j (drop i raw_text), drop j (drop i raw_text)) \<in> set (lm CODE_RE (drop i raw_text))"
      using lm_complete [OF CODE_RE_anchor_free l, of "drop j (drop i raw_text)"]
      by (simp only: append_take_drop_id)
    ultimately show False using \<open>\<forall>q \<le> length raw_text. lm CODE_RE (drop q raw_text) = []\<close> by auto
  qed
next
  assume nolang: "\<forall>i j. \<not> rx_lang CODE_RE (take j (drop i raw_text))"
  have "findall CODE_RE raw_text = []"
  proof (rule ccontr)
    assume "findall CODE_RE raw_text \<noteq> []"
    then obtain m ms where "findall CODE_RE raw_text = m # ms" by (cases "findall CODE_RE raw_text") auto
    from findall_first_match [OF this] obtain p w where
      "(m, w) \<in> set (lm CODE_RE (drop p raw_text))" "rx_lang CODE_RE m" by blast
    then have "take (length m) (drop p raw_text) = m" by (metis append_eq_conv_conj lm_split)
    with nolang \<open>rx_lang CODE_RE m\<close> show False by metis
  qed
  with assms show "extract_code_from_text raw_text = (None, Some raw_text)"
    by (simp add: extract_code_from_text_def)
qed

theorem extract_code_normalized_witness:
  "fst (extract_code_from_text ''e-3,800'') = Some ''E-3800'' \<and> normalized_code ''E-3800''"
proof -
  have h: "fst (extract_code_from_text ''e-3,800'') = Some ''E-3800''"
    by (simp add: extract_eval findall.simps)
  show ?thesis using h extract_code_normalized [OF h] by simp
qed

theorem extract_code_none_iff_witness:
  "\<forall>i j. \<not> rx_lang CODE_RE (take j (drop i ''Code: 5''))"
proof -
  have h: "extract_code_from_text ''Code: 5'' = (None, Some ''Code: 5'')"
    by (simp add: extract_eval findall.simps)
  show ?thesis using extract_code_none_iff [of "''Code: 5''"] h by simp
qed

end
