(* ===== verification/Resolver.thy ===== *)
theory Resolver
  imports Normalizer
begin

text \<open>
  The deposit resolver of \<^verbatim>\<open>src/scan_deposits.py\<close>: the table
  \<^verbatim>\<open>MULTIPLIER_CODES\<close> (lines 134--152), a dictionary from base code to entry kept in
  its insertion order, and \<^verbatim>\<open>lookup_deposit\<close> (lines 236--257), which reads the
  trailing digit run of a code with \<^verbatim>\<open>re.search(r"(\d+)$", code)\<close> and returns the
  first entry, in table order, whose base code divides it. The abstract specification
  \<open>resolve_spec\<close> states the lookup on numbers (section 4.2 of the specification);
  \<open>lookup_deposit_refines\<close> shows the code implements it on every code.
\<close>

record mult_entry =
  me_key :: string
  me_display_name :: string
  me_rarity :: string
  me_category :: "string option"

definition mk_entry :: "string \<Rightarrow> string \<Rightarrow> string \<Rightarrow> string \<Rightarrow> mult_entry" where
  \<comment> \<open>one dictionary literal \<^verbatim>\<open>{"key": k, "display_name": n, "rarity": r, "category": c}\<close>\<close>
  "mk_entry k n r c = \<lparr>me_key = k, me_display_name = n, me_rarity = r, me_category = Some c\<rparr>"

definition MULTIPLIER_CODES :: "(int, mult_entry) pydict" where
  "MULTIPLIER_CODES = [
    (1700, mk_entry ''CTYPE'' ''C-Type'' ''common'' ''Rock Deposits''),
    (1900, mk_entry ''ETYPE'' ''E-Type'' ''common'' ''Rock Deposits''),
    (1660, mk_entry ''ITYPE'' ''I-Type'' ''common'' ''Rock Deposits''),
    (1850, mk_entry ''MTYPE'' ''M-Type'' ''common'' ''Rock Deposits''),
    (1750, mk_entry ''PTYPE'' ''P-Type'' ''common'' ''Rock Deposits''),
    (1870, mk_entry ''QTYPE'' ''Q-Type'' ''common'' ''Rock Deposits''),
    (1720, mk_entry ''STYPE'' ''S-Type'' ''common'' ''Rock Deposits''),
    (1800, mk_entry ''ATACAMITE'' ''Atacamite'' ''common'' ''Rock Deposits''),
    (1770, mk_entry ''FELSIC'' ''Felsic'' ''common'' ''Rock Deposits''),
    (1840, mk_entry ''GNEISS'' ''Gneiss'' ''common'' ''Rock Deposits''),
    (1920, mk_entry ''GRANITE'' ''Granite'' ''common'' ''Rock Deposits''),
    (1950, mk_entry ''IGNEOUS'' ''Igneous'' ''common'' ''Rock Deposits''),
    (1790, mk_entry ''OBSIDIAN'' ''Obsidian'' ''common'' ''Rock Deposits''),
    (1820, mk_entry ''QUARTZITE'' ''Quartzite'' ''common'' ''Rock Deposits''),
    (1730, mk_entry ''SHALE'' ''Shale'' ''common'' ''Rock Deposits''),
    (620, mk_entry ''GEMS'' ''Gems'' ''common'' ''Gems''),
    (2000, mk_entry ''SALVAGE'' ''Metal Pannals'' ''common'' ''Savlage'')]"

text \<open>The dictionary \<^verbatim>\<open>lookup_deposit\<close> returns.\<close>

record deposit_info =
  di_name :: string
  di_key :: string
  di_rarity :: string
  di_base_code :: int
  di_deposits :: int
  di_category :: string

definition make_info :: "int \<Rightarrow> mult_entry \<Rightarrow> int \<Rightarrow> deposit_info" where
  "make_info base info num_code =
     \<lparr>di_name = me_display_name info, di_key = me_key info, di_rarity = me_rarity info,
      di_base_code = base, di_deposits = num_code div base,
      di_category = (case me_category info of Some c \<Rightarrow> c | None \<Rightarrow> ''Ore'')\<rparr>"

fun first_divisor :: "int \<Rightarrow> (int, mult_entry) pydict \<Rightarrow> deposit_info option" where
  \<comment> \<open>the \<^verbatim>\<open>for base_code, info in MULTIPLIER_CODES.items()\<close> loop\<close>
  "first_divisor num_code [] = None"
| "first_divisor num_code ((base_code, info) # rest) =
     (if num_code mod base_code = 0 then Some (make_info base_code info num_code)
      else first_divisor num_code rest)"

definition DIGITS_END_RE :: rx where
  \<comment> \<open>\<^verbatim>\<open>(\d+)$\<close>\<close>
  "DIGITS_END_RE = Seq (Rep 1 None is_digit) EndA"

definition lookup_deposit :: "string option \<Rightarrow> deposit_info option" where
  "lookup_deposit code =
     (case code of
        None \<Rightarrow> None
      | Some c \<Rightarrow>
          if c = [] then None
          else (case re_search DIGITS_END_RE c of
                  None \<Rightarrow> None
                | Some (_, m) \<Rightarrow>
                    \<comment> \<open>\<^verbatim>\<open>int(m.group(1))\<close> raises \<^verbatim>\<open>ValueError\<close> past the digit limit;
                        the handler returns \<^verbatim>\<open>None\<close>\<close>
                    if int_max_str_digits < length m then None
                    else first_divisor (digits_value m) MULTIPLIER_CODES))"

text \<open>The abstract specification: the first base code of the table, in its order, that
  divides the number.\<close>

definition resolve_spec :: "int \<Rightarrow> deposit_info option" where
  "resolve_spec n =
     (case find (\<lambda>(b, _). b dvd n) MULTIPLIER_CODES of
        None \<Rightarrow> None
      | Some (b, e) \<Rightarrow> Some (make_info b e n))"

definition trailing_digits :: "string \<Rightarrow> string" where
  "trailing_digits c = rev (takeWhile is_digit (rev c))"

section \<open>The loop over the table is a search for the first divisor\<close>

lemma first_divisor_find:
  "first_divisor n tbl =
     (case find (\<lambda>(b, _). b dvd n) tbl of None \<Rightarrow> None | Some (b, e) \<Rightarrow> Some (make_info b e n))"
  by (induction n tbl rule: first_divisor.induct) (auto simp: dvd_eq_mod_eq_0)

section \<open>The trailing digit run\<close>

text \<open>On a code without a newline, \<^verbatim>\<open>re.search(r"(\d+)$", code)\<close> finds exactly the
  maximal run of digits that ends the code, and nothing when the code does not end in
  a digit.\<close>

lemma lm_EndA_iff: "(u, w) \<in> set (lm EndA s) \<longleftrightarrow> u = [] \<and> w = s \<and> (s = [] \<or> s = [CHR ''\<newline>''])"
  by auto

lemma digits_end_lm_iff:
  assumes "CHR ''\<newline>'' \<notin> set s"
  shows "(u, w) \<in> set (lm DIGITS_END_RE s) \<longleftrightarrow> u = s \<and> w = [] \<and> s \<noteq> [] \<and> list_all is_digit s"
proof
  assume l: "(u, w) \<in> set (lm DIGITS_END_RE s)"
  then obtain u1 t where u1: "(u1, t) \<in> set (lm (Rep 1 None is_digit) s)" and e: "(u, w) \<in> set (map (\<lambda>(v, w). (u1 @ v, w)) (lm EndA t))"
    unfolding DIGITS_END_RE_def by auto
  from e have "w = t" "u = u1" "t = [] \<or> t = [CHR ''\<newline>'']" by (auto split: if_splits)
  moreover have "s = u1 @ t" using u1 by (rule lm_split)
  moreover have "rx_lang (Rep 1 None is_digit) u1" using u1 by (rule lm_sound)
  ultimately show "u = s \<and> w = [] \<and> s \<noteq> [] \<and> list_all is_digit s" using assms by auto
next
  assume r: "u = s \<and> w = [] \<and> s \<noteq> [] \<and> list_all is_digit s"
  then have "takeWhile is_digit s = s" by (simp add: list_all_iff)
  then have "(s, []) \<in> set (lm (Rep 1 None is_digit) s)"
    unfolding lm_Rep_iff using r by (auto intro!: exI [where x = "length s"] simp: Suc_le_eq \<open>takeWhile is_digit s = s\<close>)
  moreover have "([], []) \<in> set (lm EndA [])" by simp
  ultimately have m: "(s @ [], []) \<in> set (lm (Seq (Rep 1 None is_digit) EndA) s)"
    by (simp only: lm_Seq_iff) blast
  have eq: "(u, w) = (s @ [], [])" using r by simp
  show "(u, w) \<in> set (lm DIGITS_END_RE s)" unfolding DIGITS_END_RE_def eq by (rule m)
qed

lemma trailing_digits_split:
  "c = rev (dropWhile is_digit (rev c)) @ trailing_digits c \<and>
   list_all is_digit (trailing_digits c) \<and>
   (rev (dropWhile is_digit (rev c)) = [] \<or> \<not> is_digit (last (rev (dropWhile is_digit (rev c)))))"
proof -
  let ?T = "takeWhile is_digit (rev c)" and ?D = "dropWhile is_digit (rev c)"
  have "c = rev (?T @ ?D)" by simp
  then have c: "c = rev ?D @ trailing_digits c" unfolding trailing_digits_def by (simp only: rev_append)
  have t: "list_all is_digit (trailing_digits c)"
    unfolding trailing_digits_def list_all_iff by (auto dest: set_takeWhileD)
  have "?D = [] \<or> \<not> is_digit (hd ?D)" using hd_dropWhile by blast
  then have "rev ?D = [] \<or> \<not> is_digit (last (rev ?D))" by (simp add: last_rev)
  with c t show ?thesis by blast
qed

lemma drop_all_digits_iff:
  assumes "c = pre @ td" "list_all is_digit td" "pre = [] \<or> \<not> is_digit (last pre)"
  shows "list_all is_digit (drop q c) \<longleftrightarrow> length pre \<le> q"
proof
  assume a: "list_all is_digit (drop q c)"
  show "length pre \<le> q"
  proof (rule ccontr)
    assume "\<not> length pre \<le> q"
    then have lt: "q < length pre" by simp
    then have ne: "pre \<noteq> []" "drop q pre \<noteq> []" by auto
    have "last (drop q pre) \<in> set (drop q pre)" using ne(2) by (rule last_in_set)
    then have "last pre \<in> set (drop q pre)" using lt by simp
    then have "last pre \<in> set (drop q c)" using assms(1) by simp
    with a have "is_digit (last pre)" by (simp add: list_all_iff)
    with assms(3) ne show False by blast
  qed
next
  assume "length pre \<le> q"
  then have "drop q c = drop (q - length pre) td" using assms(1) by simp
  then show "list_all is_digit (drop q c)" using assms(2)
    unfolding list_all_iff by (auto dest: in_set_dropD)
qed

lemma digits_end_at:
  assumes "CHR ''\<newline>'' \<notin> set c"
  shows "lm DIGITS_END_RE (drop q c) \<noteq> [] \<longleftrightarrow>
         q < length c \<and> length (rev (dropWhile is_digit (rev c))) \<le> q"
proof -
  let ?pre = "rev (dropWhile is_digit (rev c))"
  have nl: "CHR ''\<newline>'' \<notin> set (drop q c)" using assms by (auto dest: in_set_dropD)
  have "lm DIGITS_END_RE (drop q c) \<noteq> [] \<longleftrightarrow> (\<exists>u w. (u, w) \<in> set (lm DIGITS_END_RE (drop q c)))"
    by (metis list.set_intros(1) surj_pair empty_iff list.set(1) neq_Nil_conv)
  also have "\<dots> \<longleftrightarrow> drop q c \<noteq> [] \<and> list_all is_digit (drop q c)"
    by (simp add: digits_end_lm_iff [OF nl])
  also have "\<dots> \<longleftrightarrow> q < length c \<and> length ?pre \<le> q"
    using drop_all_digits_iff [of c ?pre "trailing_digits c" q] trailing_digits_split [of c] by auto
  finally show ?thesis .
qed

lemma search_digits_end:
  assumes "CHR ''\<newline>'' \<notin> set c"
  shows "re_search DIGITS_END_RE c =
    (if trailing_digits c = [] then None
     else Some (length c - length (trailing_digits c), trailing_digits c))"
proof -
  let ?pre = "rev (dropWhile is_digit (rev c))" and ?td = "trailing_digits c"
  have c: "c = ?pre @ ?td" using trailing_digits_split [of c] by blast
  then have len: "length c = length ?pre + length ?td" by (metis length_append)
  note at = digits_end_at [OF assms]
  show ?thesis
  proof (cases "re_search DIGITS_END_RE c")
    case None
    then have "\<forall>q \<le> length c. lm DIGITS_END_RE (drop q c) = []"
      unfolding re_search_def by (rule search_from_None)
    then have "lm DIGITS_END_RE (drop (length ?pre) c) = []" using len by simp
    then have "?td = []" using at [of "length ?pre"] len by auto
    with None show ?thesis by simp
  next
    case (Some r)
    then obtain p u where pu: "re_search DIGITS_END_RE c = Some (p, u)" by (cases r) auto
    then obtain w rest where p: "p \<le> length c" "lm DIGITS_END_RE (drop p c) = (u, w) # rest"
        "\<forall>q < p. lm DIGITS_END_RE (drop q c) = []"
      unfolding re_search_def by (auto dest!: search_from_Some)
    from p(2) at [of p] have pl: "p < length c" "length ?pre \<le> p" by auto
    have "\<not> length ?pre < p"
    proof
      assume "length ?pre < p"
      with p(3) have "lm DIGITS_END_RE (drop (length ?pre) c) = []" by blast
      with at [of "length ?pre"] pl show False by auto
    qed
    with pl have peq: "p = length ?pre" by simp
    have "(u, w) \<in> set (lm DIGITS_END_RE (drop p c))" using p(2) by simp
    then have "u = drop p c" using digits_end_lm_iff assms by (meson in_set_dropD)
    moreover have "drop (length ?pre) (?pre @ ?td) = ?td" by simp
    ultimately have "u = ?td" using c peq by metis
    with pu pl peq len show ?thesis by auto
  qed
qed

lemma lookup_deposit_trailing:
  assumes "CHR ''\<newline>'' \<notin> set c"
  shows "lookup_deposit (Some c) =
    (let ds = trailing_digits c in
     if ds = [] \<or> int_max_str_digits < length ds then None else resolve_spec (digits_value ds))"
proof (cases "c = []")
  case True
  then show ?thesis by (simp add: lookup_deposit_def trailing_digits_def)
next
  case False
  then show ?thesis using search_digits_end [OF assms]
    by (simp add: lookup_deposit_def resolve_spec_def first_divisor_find Let_def)
qed

section \<open>The table and the abstract lookup\<close>

lemma MULTIPLIER_CODES_base: "(b, e) \<in> set MULTIPLIER_CODES \<Longrightarrow> 0 < b \<and> 10 dvd b"
  by (auto simp: MULTIPLIER_CODES_def)

lemma MULTIPLIER_CODES_distinct: "distinct (map fst MULTIPLIER_CODES)"
  by (simp add: MULTIPLIER_CODES_def)

lemma resolve_spec_SomeE:
  assumes "resolve_spec n = Some d"
  obtains b e where "find (\<lambda>(b, _). b dvd n) MULTIPLIER_CODES = Some (b, e)" "d = make_info b e n"
    "(b, e) \<in> set MULTIPLIER_CODES" "b dvd n" "0 < b" "10 dvd b"
proof -
  obtain b e where f: "find (\<lambda>(b, _). b dvd n) MULTIPLIER_CODES = Some (b, e)" and d: "d = make_info b e n"
    using assms by (auto simp: resolve_spec_def split: option.splits)
  from find_Some_in [OF f] have "(b, e) \<in> set MULTIPLIER_CODES" "b dvd n" by auto
  with MULTIPLIER_CODES_base f d that show ?thesis by blast
qed

lemma resolve_spec_Some:
  assumes "resolve_spec n = Some d"
  shows "\<exists>i < length MULTIPLIER_CODES. fst (MULTIPLIER_CODES ! i) = di_base_code d \<and>
    di_deposits d * di_base_code d = n \<and> (\<forall>j < i. \<not> fst (MULTIPLIER_CODES ! j) dvd n)"
proof -
  obtain b e where f: "find (\<lambda>(b, _). b dvd n) MULTIPLIER_CODES = Some (b, e)" and d: "d = make_info b e n"
    and dv: "b dvd n"
    using assms by (rule resolve_spec_SomeE)
  from find_first_index [OF f] obtain i where i: "i < length MULTIPLIER_CODES"
    "MULTIPLIER_CODES ! i = (b, e)" "\<forall>j < i. \<not> (case MULTIPLIER_CODES ! j of (b, _) \<Rightarrow> b dvd n)"
    by blast
  have before: "\<forall>j < i. \<not> fst (MULTIPLIER_CODES ! j) dvd n" using i(3) by (simp add: split_beta)
  have dd: "di_base_code d = b" "di_deposits d = n div b" by (simp_all add: d make_info_def)
  have "n div b * b = n" using dv by simp
  then show ?thesis using i(1,2) before dd by (intro exI [where x = i]) simp
qed

lemma resolve_spec_None_iff: "resolve_spec n = None \<longleftrightarrow> (\<forall>(b, e) \<in> set MULTIPLIER_CODES. \<not> b dvd n)"
proof
  assume "resolve_spec n = None"
  then have "find (\<lambda>(b, _). b dvd n) MULTIPLIER_CODES = None"
    by (auto simp: resolve_spec_def split: option.splits)
  then show "\<forall>(b, e) \<in> set MULTIPLIER_CODES. \<not> b dvd n" by (auto simp: find_None_iff)
next
  assume "\<forall>(b, e) \<in> set MULTIPLIER_CODES. \<not> b dvd n"
  then have "find (\<lambda>(b, _). b dvd n) MULTIPLIER_CODES = None" by (force simp: find_None_iff)
  then show "resolve_spec n = None" by (simp add: resolve_spec_def)
qed

lemma resolve_spec_mult_10: "resolve_spec n = Some d \<Longrightarrow> 10 dvd n"
  by (erule resolve_spec_SomeE) (meson dvd_trans)

lemma resolve_spec_deposits_pos: "resolve_spec n = Some d \<Longrightarrow> 0 < n \<Longrightarrow> 0 < di_deposits d"
proof (erule resolve_spec_SomeE)
  fix b e assume d: "d = make_info b e n" and dv: "b dvd n" and b: "0 < b" and n: "0 < n"
  then have "b \<le> n" by (simp add: zdvd_imp_le)
  then show "0 < di_deposits d" using d b by (simp add: make_info_def pos_imp_zdiv_pos_iff)
qed

section \<open>Properties of lookup_deposit\<close>

text \<open>C2: on a code without a newline, \<^verbatim>\<open>lookup_deposit\<close> reads the maximal
  trailing digit run and returns the first table entry, in table order, whose base code
  divides its value; no trailing digits, or more digits than \<^verbatim>\<open>int()\<close> accepts,
  give \<^verbatim>\<open>None\<close>.\<close>

theorem lookup_deposit_refines:
  assumes "CHR ''\<newline>'' \<notin> set c"
  shows "lookup_deposit (Some c) =
    (let ds = trailing_digits c in
     if ds = [] \<or> int_max_str_digits < length ds then None else resolve_spec (digits_value ds))"
  using assms by (rule lookup_deposit_trailing)

lemma lookup_deposit_SomeE:
  assumes "CHR ''\<newline>'' \<notin> set c" "lookup_deposit (Some c) = Some d"
  obtains "trailing_digits c \<noteq> []" "length (trailing_digits c) \<le> int_max_str_digits"
    "resolve_spec (digits_value (trailing_digits c)) = Some d"
  using assms lookup_deposit_trailing [OF assms(1)] by (auto simp: Let_def split: if_splits)

lemma valid_prefix_no_digit: "valid_prefix p \<Longrightarrow> x \<in> set p \<Longrightarrow> \<not> is_digit x \<and> x \<noteq> CHR ''\<newline>''"
  by (cases p rule: valid_prefix.cases) (auto simp: is_digit_def is_upper_ascii_def is_dash_def Let_def)

lemma trailing_digits_append:
  assumes "list_all is_digit d" "p = [] \<or> \<not> is_digit (last p)"
  shows "trailing_digits (p @ d) = d"
proof -
  have "takeWhile is_digit (rev p) = []" using assms(2) by (cases "rev p") (auto simp flip: last_rev)
  moreover have "takeWhile is_digit (rev d @ rev p) = rev d @ takeWhile is_digit (rev p)"
    using assms(1) by (intro takeWhile_append2) (simp add: list_all_iff)
  ultimately show ?thesis by (simp add: trailing_digits_def)
qed

lemma normalized_code_lookup:
  assumes "normalized_code c"
  shows "lookup_deposit (Some c) = resolve_spec (digits_value (trailing_digits c))"
proof -
  from assms obtain i where vp: "valid_prefix (take i c)" and ne: "drop i c \<noteq> []"
    and dg: "list_all is_digit (drop i c)" and len: "length (drop i c) \<le> 11"
    unfolding normalized_code_def by blast
  have nd: "take i c = [] \<or> \<not> is_digit (last (take i c))"
    using valid_prefix_no_digit [OF vp, of "last (take i c)"] by (cases "take i c = []") simp_all
  have td: "trailing_digits c = drop i c"
    using trailing_digits_append [OF dg nd] by simp
  have nl: "CHR ''\<newline>'' \<notin> set c"
  proof
    assume "CHR ''\<newline>'' \<in> set c"
    then have "CHR ''\<newline>'' \<in> set (take i c) \<or> CHR ''\<newline>'' \<in> set (drop i c)"
      by (metis Un_iff append_take_drop_id set_append)
    then show False using valid_prefix_no_digit [OF vp] dg by (auto simp: list_all_iff is_digit_def)
  qed
  have "int_max_str_digits \<ge> 11" by (simp add: int_max_str_digits_def)
  then show ?thesis using lookup_deposit_trailing [OF nl] td ne len by (simp add: Let_def)
qed

text \<open>C4: a resolved code names the first base code of \<^verbatim>\<open>MULTIPLIER_CODES\<close>, in
  table order, that divides the value of its trailing digits, and its deposit count
  times that base code is the value.\<close>

theorem lookup_deposit_first_match:
  assumes "CHR ''\<newline>'' \<notin> set c" "lookup_deposit (Some c) = Some d"
  shows "\<exists>i < length MULTIPLIER_CODES. fst (MULTIPLIER_CODES ! i) = di_base_code d \<and>
    di_deposits d * di_base_code d = digits_value (trailing_digits c) \<and>
    (\<forall>j < i. \<not> fst (MULTIPLIER_CODES ! j) dvd digits_value (trailing_digits c))"
proof -
  from assms obtain r: "resolve_spec (digits_value (trailing_digits c)) = Some d"
    by (elim lookup_deposit_SomeE)
  then show ?thesis by (rule resolve_spec_Some)
qed

text \<open>C5: \<^verbatim>\<open>lookup_deposit\<close> returns \<^verbatim>\<open>None\<close> exactly when the code has no
  trailing digits, has more digits than \<^verbatim>\<open>int()\<close> accepts, or no base code
  divides its value.\<close>

theorem lookup_deposit_none_iff:
  assumes "CHR ''\<newline>'' \<notin> set c"
  shows "lookup_deposit (Some c) = None \<longleftrightarrow>
    trailing_digits c = [] \<or> int_max_str_digits < length (trailing_digits c) \<or>
    (\<forall>(b, e) \<in> set MULTIPLIER_CODES. \<not> b dvd digits_value (trailing_digits c))"
  using lookup_deposit_trailing [OF assms] resolve_spec_None_iff by (auto simp: Let_def)

text \<open>C6: every base code is a multiple of ten, so only a code whose last character is
  the digit 0 ever resolves.\<close>

theorem lookup_deposit_ends_in_zero:
  assumes "CHR ''\<newline>'' \<notin> set c" "lookup_deposit (Some c) = Some d"
  shows "c \<noteq> [] \<and> last c = CHR ''0''"
proof -
  let ?ds = "trailing_digits c"
  from assms obtain ne: "?ds \<noteq> []" and r: "resolve_spec (digits_value ?ds) = Some d"
    by (elim lookup_deposit_SomeE)
  have split: "c = rev (dropWhile is_digit (rev c)) @ ?ds" "list_all is_digit ?ds"
    using trailing_digits_split [of c] by blast+
  obtain xs x where ds: "?ds = xs @ [x]" using ne by (metis rev_exhaust)
  have "10 dvd digits_value ?ds" using r by (rule resolve_spec_mult_10)
  then have "digit_val x = 0" using digits_value_mod_10 [of xs x] split(2) ds by simp
  moreover have "is_digit x" using split(2) ds by simp
  ultimately have "x = CHR ''0''" by (simp add: digit_val_zero_iff)
  moreover have "last c = x" using split(1) ds by (metis last_appendR last_snoc snoc_eq_iff_butlast)
  ultimately show ?thesis using split(1) ds by auto
qed

section \<open>Examples\<close>

text \<open>Base codes do not determine a deposit uniquely: 14000 is a multiple of both 1750
  and 2000, and the lookup answers with the earlier entry, P-Type.\<close>

lemma ambiguous_code:
  "(1750::int) dvd 14000 \<and> (2000::int) dvd 14000 \<and>
   lookup_deposit (Some ''14000'') =
     Some (make_info 1750 (mk_entry ''PTYPE'' ''P-Type'' ''common'' ''Rock Deposits'') 14000)"
  by (simp add: lookup_deposit_def DIGITS_END_RE_def re_search_def MULTIPLIER_CODES_def py_simps Let_def)

text \<open>A code whose digits are all zeros resolves, with zero deposits, against the first
  base code; the specification says a resolution has a positive count.\<close>

lemma zero_code_zero_deposits:
  "lookup_deposit (Some ''00'') = Some (make_info 1700 (mk_entry ''CTYPE'' ''C-Type'' ''common'' ''Rock Deposits'') 0) \<and>
   di_deposits (make_info 1700 (mk_entry ''CTYPE'' ''C-Type'' ''common'' ''Rock Deposits'') 0) = 0"
  by (simp add: lookup_deposit_def DIGITS_END_RE_def re_search_def MULTIPLIER_CODES_def py_simps Let_def
      make_info_def)

section \<open>Witnesses\<close>

theorem lookup_deposit_refines_witness:
  "lookup_deposit (Some ''E-3800'') = resolve_spec 3800 \<and>
   resolve_spec 3800 = Some (make_info 1900 (mk_entry ''ETYPE'' ''E-Type'' ''common'' ''Rock Deposits'') 3800)"
proof -
  have nl: "CHR ''\<newline>'' \<notin> set ''E-3800''" by simp
  have td: "trailing_digits ''E-3800'' = ''3800''" by (simp add: trailing_digits_def py_simps Let_def)
  have "lookup_deposit (Some ''E-3800'') = resolve_spec 3800"
    using lookup_deposit_refines [OF nl] td by (simp add: py_simps Let_def)
  moreover have "resolve_spec 3800 = Some (make_info 1900 (mk_entry ''ETYPE'' ''E-Type'' ''common'' ''Rock Deposits'') 3800)"
    by (simp add: resolve_spec_def MULTIPLIER_CODES_def)
  ultimately show ?thesis by simp
qed

theorem lookup_deposit_first_match_witness:
  "lookup_deposit (Some ''3400'') = Some (make_info 1700 (mk_entry ''CTYPE'' ''C-Type'' ''common'' ''Rock Deposits'') 3400) \<and>
   di_deposits (make_info 1700 (mk_entry ''CTYPE'' ''C-Type'' ''common'' ''Rock Deposits'') 3400) = 2 \<and>
   (\<exists>i < length MULTIPLIER_CODES. fst (MULTIPLIER_CODES ! i) = 1700 \<and>
      (\<forall>j < i. \<not> fst (MULTIPLIER_CODES ! j) dvd 3400))"
proof -
  have nl: "CHR ''\<newline>'' \<notin> set ''3400''" by simp
  have h: "lookup_deposit (Some ''3400'') = Some (make_info 1700 (mk_entry ''CTYPE'' ''C-Type'' ''common'' ''Rock Deposits'') 3400)"
    by (simp add: lookup_deposit_def DIGITS_END_RE_def re_search_def MULTIPLIER_CODES_def py_simps Let_def)
  have td: "digits_value (trailing_digits ''3400'') = 3400" by (simp add: trailing_digits_def py_simps Let_def)
  show ?thesis using lookup_deposit_first_match [OF nl h] h td by (simp add: make_info_def)
qed

theorem lookup_deposit_none_iff_witness:
  "lookup_deposit (Some ''9999999'') = None \<and>
   list_all (\<lambda>(b, e). \<not> b dvd 9999999) MULTIPLIER_CODES"
proof -
  have nl: "CHR ''\<newline>'' \<notin> set ''9999999''" by simp
  have h: "lookup_deposit (Some ''9999999'') = None"
    by (simp add: lookup_deposit_def DIGITS_END_RE_def re_search_def MULTIPLIER_CODES_def py_simps Let_def)
  have td: "trailing_digits ''9999999'' = ''9999999''" by (simp add: trailing_digits_def py_simps Let_def)
  have v: "digits_value ''9999999'' = 9999999" by (simp add: py_simps)
  have "\<forall>(b, e) \<in> set MULTIPLIER_CODES. \<not> b dvd 9999999"
    using lookup_deposit_none_iff [OF nl] h td v by (simp add: int_max_str_digits_def)
  then show ?thesis using h by (simp add: list_all_iff)
qed

theorem lookup_deposit_ends_in_zero_witness:
  "lookup_deposit (Some ''E-3800'') \<noteq> None \<and> last ''E-3800'' = CHR ''0''"
proof -
  have nl: "CHR ''\<newline>'' \<notin> set ''E-3800''" by simp
  have h: "lookup_deposit (Some ''E-3800'') = Some (make_info 1900 (mk_entry ''ETYPE'' ''E-Type'' ''common'' ''Rock Deposits'') 3800)"
    by (simp add: lookup_deposit_def DIGITS_END_RE_def re_search_def MULTIPLIER_CODES_def py_simps Let_def)
  show ?thesis using lookup_deposit_ends_in_zero [OF nl h] h by simp
qed

end
