(* ===== verification/State.thy ===== *)
theory State
  imports Complex_Main Resolver
begin

text \<open>
  The process-wide state of \<^verbatim>\<open>src/scan_deposits.py\<close>: the module globals
  \<^verbatim>\<open>CAP_REGION\<close>, \<^verbatim>\<open>label_color\<close> and \<^verbatim>\<open>last_result\<close> (lines 79--92) and
  \<^verbatim>\<open>continuous_mode\<close>, \<^verbatim>\<open>show_border\<close>, \<^verbatim>\<open>overlay_text\<close>,
  \<^verbatim>\<open>last_overlay_time\<close> and the overlay widgets (lines 261--268), as one record.
  The overlay window, its canvas, the red border rectangle and the text item that
  \<^verbatim>\<open>show_overlay\<close> creates are one optional record: \<open>None\<close> while
  \<^verbatim>\<open>overlay_canvas\<close> is still \<^verbatim>\<open>None\<close>. Times are the seconds of
  \<^verbatim>\<open>time.time()\<close>, as real numbers.
\<close>

record region =
  rg_left :: int
  rg_top :: int
  rg_width :: int
  rg_height :: int

text \<open>A rectangle as \<open>(x0, y0, x1, y1)\<close>, a window geometry as
  \<open>(width, height, left, top)\<close>.\<close>

type_synonym rect = "int \<times> int \<times> int \<times> int"

record overlay_win =
  ow_geometry :: rect         \<comment> \<open>\<^verbatim>\<open>root_overlay.geometry(...)\<close>\<close>
  ow_rect :: rect             \<comment> \<open>coordinates of the item \<^verbatim>\<open>rect_id\<close>\<close>
  ow_border_visible :: bool   \<comment> \<open>state of the items tagged \<^verbatim>\<open>"border"\<close>\<close>
  ow_text :: string           \<comment> \<open>text of the item \<^verbatim>\<open>overlay_text_id\<close>\<close>
  ow_fill :: string           \<comment> \<open>fill colour of that item\<close>

text \<open>\<^verbatim>\<open>last_result\<close>: its first value carries a \<^verbatim>\<open>"confidence"\<close> key that no scan
  writes again.\<close>

record scan_result =
  sr_code :: "string option"
  sr_code_raw :: "string option"
  sr_info :: "deposit_info option"
  sr_confidence :: "real option"
  sr_raw_text :: string

record gui =
  cap_region :: region
  label_color :: string
  last_result :: scan_result
  continuous_mode :: bool
  show_border :: bool
  overlay_text :: string
  last_overlay_time :: real
  overlay :: "overlay_win option"

definition init_gui :: gui where
  "init_gui =
     \<lparr>cap_region = \<lparr>rg_left = 1260, rg_top = 310, rg_width = 160, rg_height = 30\<rparr>,
      label_color = ''yellow'',
      last_result = \<lparr>sr_code = None, sr_code_raw = None, sr_info = None,
                     sr_confidence = Some 0, sr_raw_text = []\<rparr>,
      continuous_mode = False,
      show_border = True,
      overlay_text = [],
      last_overlay_time = 0,
      overlay = None\<rparr>"

end
