(* ===== verification/Overlay.thy ===== *)
theory Overlay
  imports State
begin

text \<open>
  The overlay of \<^verbatim>\<open>src/scan_deposits.py\<close>: the label set by
  \<^verbatim>\<open>update_overlay_label\<close> (lines 279--286) and cleared by the 500 ms timer
  \<^verbatim>\<open>start_label_timeout\<close> (lines 289--296) once more than ten seconds passed, the
  border toggle \<^verbatim>\<open>toggle_border\<close> (271--276), \<^verbatim>\<open>choose_label_color\<close>
  (301--307), and the window geometry of \<^verbatim>\<open>show_overlay\<close> (310--344),
  \<^verbatim>\<open>update_overlay_region\<close> (348--361) and the sliders of \<^verbatim>\<open>launch_gui\<close>
  (365--370). Each operation takes the state and returns the new one; the current time
  and the user's input are arguments.
\<close>

section \<open>The label\<close>

definition label_of :: "deposit_info \<Rightarrow> string" where
  \<comment> \<open>\<^verbatim>\<open>f"{info['name']} x{info['deposits']}"\<close>: the key \<^verbatim>\<open>deposits\<close> is always present\<close>
  "label_of info = di_name info @ '' x'' @ py_str_int (di_deposits info)"

definition update_overlay_label :: "deposit_info option \<Rightarrow> real \<Rightarrow> gui \<Rightarrow> gui" where
  "update_overlay_label info now s =
     (case info of
        None \<Rightarrow> s
      | Some d \<Rightarrow>
          let txt = label_of d
          in s\<lparr>overlay_text := txt, last_overlay_time := now,
               overlay := map_option (\<lambda>w. w\<lparr>ow_text := txt, ow_fill := label_color s\<rparr>) (overlay s)\<rparr>)"

definition label_timeout_tick :: "real \<Rightarrow> gui \<Rightarrow> gui" where
  \<comment> \<open>one run of the body of \<^verbatim>\<open>start_label_timeout\<close>; \<^verbatim>\<open>root.after(500, ...)\<close>
      schedules the next run\<close>
  "label_timeout_tick now s =
     (if overlay s \<noteq> None \<and> last_overlay_time s \<noteq> 0 \<and> now - last_overlay_time s > 10
      then s\<lparr>overlay := map_option (\<lambda>w. w\<lparr>ow_text := []\<rparr>) (overlay s), last_overlay_time := 0\<rparr>
      else s)"

fun label_ticks :: "real list \<Rightarrow> gui \<Rightarrow> gui" where
  \<comment> \<open>the timer firing at the given times, in order\<close>
  "label_ticks [] s = s"
| "label_ticks (t # ts) s = label_ticks ts (label_timeout_tick t s)"

definition label_shown :: "gui \<Rightarrow> string" where
  \<comment> \<open>what the overlay displays: the text item's text, nothing without an overlay\<close>
  "label_shown s = (case overlay s of None \<Rightarrow> [] | Some w \<Rightarrow> ow_text w)"

section \<open>Border, colour and geometry\<close>

definition toggle_border :: "gui \<Rightarrow> gui" where
  "toggle_border s =
     (let b = \<not> show_border s
      in s\<lparr>show_border := b, overlay := map_option (\<lambda>w. w\<lparr>ow_border_visible := b\<rparr>) (overlay s)\<rparr>)"

definition choose_label_color :: "string option \<Rightarrow> gui \<Rightarrow> gui" where
  \<comment> \<open>the colour chooser's answer: \<open>None\<close> when the dialog is cancelled\<close>
  "choose_label_color color s =
     (case color of
        None \<Rightarrow> s
      | Some c \<Rightarrow> s\<lparr>label_color := c, overlay := map_option (\<lambda>w. w\<lparr>ow_fill := c\<rparr>) (overlay s)\<rparr>)"

definition overlay_geometry :: "region \<Rightarrow> rect \<times> rect" where
  \<comment> \<open>the window geometry and the border rectangle computed from \<^verbatim>\<open>CAP_REGION\<close>\<close>
  "overlay_geometry r =
     (let cap_w = rg_width r; cap_h = rg_height r;
          padding_x = (100::int); padding_y = (40::int);
          overlay_width = cap_w + padding_x; overlay_height = cap_h + padding_y;
          left = rg_left r - padding_x div 2; top = rg_top r - padding_y
      in ((overlay_width, overlay_height, left, top),
          (padding_x div 2, padding_y, padding_x div 2 + cap_w, padding_y + cap_h)))"

definition show_overlay :: "gui \<Rightarrow> gui" where
  "show_overlay s =
     (let (geo, rc) = overlay_geometry (cap_region s)
      in s\<lparr>overlay := Some \<lparr>ow_geometry = geo, ow_rect = rc, ow_border_visible = True,
                             ow_text = [], ow_fill = label_color s\<rparr>\<rparr>)"

definition update_overlay_region :: "gui \<Rightarrow> gui" where
  "update_overlay_region s =
     (case overlay s of
        None \<Rightarrow> s
      | Some w \<Rightarrow>
          let (geo, rc) = overlay_geometry (cap_region s)
          in s\<lparr>overlay := Some (w\<lparr>ow_geometry := geo, ow_rect := rc\<rparr>)\<rparr>)"

definition update_region_from_sliders :: "int \<Rightarrow> int \<Rightarrow> int \<Rightarrow> int \<Rightarrow> gui \<Rightarrow> gui" where
  "update_region_from_sliders l t w h s =
     s\<lparr>cap_region := \<lparr>rg_left = l, rg_top = t, rg_width = w, rg_height = h\<rparr>\<rparr>"

definition border_on_screen :: "overlay_win \<Rightarrow> rect" where
  \<comment> \<open>the border rectangle in screen coordinates\<close>
  "border_on_screen w =
     (case (ow_geometry w, ow_rect w) of
        ((_, _, x, y), (x0, y0, x1, y1)) \<Rightarrow> (x + x0, y + y0, x + x1, y + y1))"

definition region_rect :: "region \<Rightarrow> rect" where
  "region_rect r = (rg_left r, rg_top r, rg_left r + rg_width r, rg_top r + rg_height r)"

section \<open>The label invariant\<close>

text \<open>While an overlay exists its text item is drawn in the current label colour and shows
  either nothing or \<^verbatim>\<open>overlay_text\<close> with a pending timestamp.\<close>

definition overlay_inv :: "gui \<Rightarrow> bool" where
  "overlay_inv s \<longleftrightarrow>
     (case overlay s of
        None \<Rightarrow> True
      | Some w \<Rightarrow> ow_fill w = label_color s \<and>
                  (ow_text w = [] \<or> (ow_text w = overlay_text s \<and> last_overlay_time s \<noteq> 0)))"

section \<open>The label lifecycle\<close>

lemma tick_cleared: "last_overlay_time s = 0 \<Longrightarrow> label_timeout_tick now s = s"
  by (simp add: label_timeout_tick_def)

lemma tick_early: "now - last_overlay_time s \<le> 10 \<Longrightarrow> label_timeout_tick now s = s"
  by (simp add: label_timeout_tick_def)

lemma tick_late:
  "overlay s \<noteq> None \<Longrightarrow> last_overlay_time s \<noteq> 0 \<Longrightarrow> now - last_overlay_time s > 10 \<Longrightarrow>
   label_shown (label_timeout_tick now s) = [] \<and> last_overlay_time (label_timeout_tick now s) = 0 \<and>
   overlay (label_timeout_tick now s) \<noteq> None"
  by (auto simp: label_timeout_tick_def label_shown_def)

lemma label_ticks_cleared: "last_overlay_time s = 0 \<Longrightarrow> label_ticks ts s = s"
  by (induction ts) (auto simp: tick_cleared)

lemma label_ticks_early: "\<forall>t \<in> set ts. t - last_overlay_time s \<le> 10 \<Longrightarrow> label_ticks ts s = s"
  by (induction ts) (auto simp: tick_early)

lemma label_ticks_from:
  assumes "overlay s \<noteq> None" "last_overlay_time s \<noteq> 0" "label_shown s = txt"
  shows "label_shown (label_ticks ts s) = (if \<exists>t \<in> set ts. t - last_overlay_time s > 10 then [] else txt)"
  using assms
proof (induction ts arbitrary: s)
  case Nil
  then show ?case by simp
next
  case (Cons t ts)
  show ?case
  proof (cases "t - last_overlay_time s > 10")
    case True
    with Cons.prems tick_late [of s t] have c: "label_shown (label_timeout_tick t s) = []"
      "last_overlay_time (label_timeout_tick t s) = 0" by auto
    then show ?thesis using True by (simp add: label_ticks_cleared)
  next
    case False
    then have "label_timeout_tick t s = s" by (simp add: tick_early)
    with Cons.IH [OF Cons.prems] False show ?thesis by auto
  qed
qed

lemma update_label_Some:
  "overlay s \<noteq> None \<Longrightarrow>
   label_shown (update_overlay_label (Some d) now s) = label_of d \<and>
   last_overlay_time (update_overlay_label (Some d) now s) = now \<and>
   overlay (update_overlay_label (Some d) now s) \<noteq> None"
  by (auto simp: update_overlay_label_def label_shown_def Let_def)

text \<open>C7: after a resolution is shown at time \<open>now\<close>, the label is still shown after any
  sequence of timer checks none of which came more than ten seconds later, and is gone
  after one that did.\<close>

theorem label_lifecycle:
  assumes "overlay s \<noteq> None" "now \<noteq> 0"
  shows "label_shown (label_ticks ts (update_overlay_label (Some d) now s)) =
         (if \<exists>t \<in> set ts. t - now > 10 then [] else label_of d)"
  using label_ticks_from [of "update_overlay_label (Some d) now s" "label_of d" ts]
    update_label_Some [OF assms(1), of d now] assms(2) by simp

text \<open>With the 500 ms cadence the check at exactly ten seconds does not clear the label
  (the comparison is strict), so a label set at time 1000 is still shown at 1010.1; it is
  cleared by the check at 1010.5.\<close>

theorem label_lifecycle_witness:
  "label_shown (label_ticks (map (\<lambda>k. 1000 + real k / 2) [1..<21])
     (update_overlay_label (Some (make_info 1700 (mk_entry ''CTYPE'' ''C-Type'' ''common'' ''Rock Deposits'') 3400))
        1000 (show_overlay init_gui))) = ''C-Type x2''"
proof -
  have "overlay (show_overlay init_gui) \<noteq> None" by (simp add: show_overlay_def split_beta)
  moreover have "\<not> (\<exists>t \<in> set (map (\<lambda>k. 1000 + real k / 2) [1..<21]). t - 1000 > (10::real))"
    by auto
  moreover have "label_of (make_info 1700 (mk_entry ''CTYPE'' ''C-Type'' ''common'' ''Rock Deposits'') 3400) = ''C-Type x2''"
    by (simp add: label_of_def make_info_def mk_entry_def py_simps Let_def nat_digits.simps)
  ultimately show ?thesis using label_lifecycle [of "show_overlay init_gui" 1000] by simp
qed

section \<open>Invariant and geometry\<close>

lemma overlay_inv_init: "overlay_inv init_gui"
  by (simp add: overlay_inv_def init_gui_def)

lemma overlay_inv_update: "overlay_inv s \<Longrightarrow> now \<noteq> 0 \<Longrightarrow> overlay_inv (update_overlay_label info now s)"
  by (auto simp: overlay_inv_def update_overlay_label_def Let_def split: option.splits)

lemma overlay_inv_tick: "overlay_inv s \<Longrightarrow> overlay_inv (label_timeout_tick now s)"
  by (auto simp: overlay_inv_def label_timeout_tick_def split: option.splits)

lemma overlay_inv_toggle_border: "overlay_inv s \<Longrightarrow> overlay_inv (toggle_border s)"
  by (auto simp: overlay_inv_def toggle_border_def Let_def split: option.splits)

lemma overlay_inv_color: "overlay_inv s \<Longrightarrow> overlay_inv (choose_label_color c s)"
  by (auto simp: overlay_inv_def choose_label_color_def split: option.splits)

lemma overlay_inv_show: "overlay_inv (show_overlay s)"
  by (simp add: overlay_inv_def show_overlay_def split_beta)

lemma overlay_inv_region: "overlay_inv s \<Longrightarrow> overlay_inv (update_overlay_region s)"
  by (auto simp: overlay_inv_def update_overlay_region_def split_beta split: option.splits)

lemma overlay_inv_sliders: "overlay_inv s \<Longrightarrow> overlay_inv (update_region_from_sliders l t w h s)"
  by (auto simp: overlay_inv_def update_region_from_sliders_def split: option.splits)

lemma geometry_frames:
  "border_on_screen \<lparr>ow_geometry = fst (overlay_geometry r), ow_rect = snd (overlay_geometry r),
      ow_border_visible = b, ow_text = x, ow_fill = f\<rparr> = region_rect r"
  by (simp add: border_on_screen_def overlay_geometry_def region_rect_def Let_def)

lemma overlay_ops_frame [simp]:
  "last_result (update_overlay_region s) = last_result s"
  "continuous_mode (update_overlay_region s) = continuous_mode s"
  "last_result (choose_label_color c s) = last_result s"
  "continuous_mode (choose_label_color c s) = continuous_mode s"
  "last_result (toggle_border s) = last_result s"
  "continuous_mode (toggle_border s) = continuous_mode s"
  "last_result (update_region_from_sliders l t w h s) = last_result s"
  "continuous_mode (update_region_from_sliders l t w h s) = continuous_mode s"
  "last_result (label_timeout_tick now s) = last_result s"
  "continuous_mode (label_timeout_tick now s) = continuous_mode s"
  "last_result (show_overlay s) = last_result s"
  "continuous_mode (show_overlay s) = continuous_mode s"
  "continuous_mode (update_overlay_label info now s) = continuous_mode s"
  by (simp_all add: update_overlay_region_def choose_label_color_def toggle_border_def
      update_region_from_sliders_def label_timeout_tick_def show_overlay_def update_overlay_label_def
      Let_def split_beta split: option.splits)

text \<open>C8: after \<^verbatim>\<open>update_overlay_region\<close> the red border lies exactly on the
  capture region in screen coordinates and inside the overlay window, and the label is
  kept.\<close>

theorem update_overlay_region_frames:
  assumes "overlay s \<noteq> None"
  shows "\<exists>w. overlay (update_overlay_region s) = Some w \<and>
    border_on_screen w = region_rect (cap_region s) \<and>
    (case (ow_geometry w, ow_rect w) of ((ww, wh, _, _), (x0, y0, x1, y1)) \<Rightarrow>
       0 \<le> x0 \<and> 0 \<le> y0 \<and> x1 \<le> ww \<and> y1 \<le> wh) \<and>
    ow_text w = label_shown s"
  using assms
  by (auto simp: update_overlay_region_def overlay_geometry_def border_on_screen_def region_rect_def
      label_shown_def Let_def)
theorem update_overlay_region_frames_witness:
  "\<exists>w. overlay (update_overlay_region (update_region_from_sliders 100 200 300 40 (show_overlay init_gui))) = Some w \<and>
     border_on_screen w = (100, 200, 400, 240)"
proof -
  let ?s = "update_region_from_sliders 100 200 300 40 (show_overlay init_gui)"
  have "overlay ?s \<noteq> None"
    by (simp add: update_region_from_sliders_def show_overlay_def split_beta)
  moreover have "region_rect (cap_region ?s) = (100, 200, 400, 240)"
    by (simp add: update_region_from_sliders_def region_rect_def)
  ultimately show ?thesis using update_overlay_region_frames [of ?s] by auto
qed

end
