(* ===== verification/Scan.thy ===== *)
theory Scan
  imports Overlay
begin

text \<open>
  One scan of \<^verbatim>\<open>src/scan_deposits.py\<close>: \<^verbatim>\<open>capture_once\<close> (lines 427--446) grabs
  \<^verbatim>\<open>CAP_REGION\<close>, asks the vision model for the text (\<^verbatim>\<open>ocr_with_ollama\<close>,
  lines 196--212), normalises it, resolves it, overwrites \<^verbatim>\<open>last_result\<close> and updates
  the label. The screen grab and the model are the outside world: a scan takes their
  outcome as an argument. \<^verbatim>\<open>ocr_with_ollama\<close> catches every exception of the model
  call and returns the empty string, but an exception of the grab or of the image
  conversion and PNG encoding before the \<^verbatim>\<open>try\<close> leaves \<^verbatim>\<open>capture_once\<close>
  unhandled: that outcome is the error value \<open>CaptureError\<close>, and nothing is written.
  The \<^verbatim>\<open>/status\<close> route (lines 476--478) reads the state.
\<close>

datatype ocr_reply =
    OcrRaised            \<comment> \<open>\<^verbatim>\<open>ollama.chat\<close> or the reply lookup raised\<close>
  | OcrReply string      \<comment> \<open>\<^verbatim>\<open>response["message"]["content"]\<close>\<close>

datatype capture =
    CaptureRaised        \<comment> \<open>\<^verbatim>\<open>sct.grab\<close>, \<^verbatim>\<open>Image.frombytes\<close> or \<^verbatim>\<open>pil_img.save\<close> raised\<close>
  | Captured ocr_reply   \<comment> \<open>an image was taken; what the model made of it\<close>

datatype scan_error = CaptureError

definition ocr_with_ollama :: "ocr_reply \<Rightarrow> string" where
  "ocr_with_ollama r = (case r of OcrRaised \<Rightarrow> [] | OcrReply content \<Rightarrow> py_strip content)"

record chat_message =
  om_role :: string
  om_content :: string
  om_images :: "string list"      \<comment> \<open>the PNG bytes of each image\<close>

record chat_request =
  oq_model :: string
  oq_messages :: "chat_message list"

definition OLLAMA_MODEL :: string where
  "OLLAMA_MODEL = ''qwen2.5vl:3b''"

definition ocr_request :: "string \<Rightarrow> string \<Rightarrow> chat_request" where
  \<comment> \<open>the arguments of \<^verbatim>\<open>ollama.chat\<close> for the model and the PNG bytes of the image\<close>
  "ocr_request model img_bytes =
     \<lparr>oq_model = model,
      oq_messages = [\<lparr>om_role = ''user'',
                      om_content = ''Extract the numeric code shown in this image. Only return the code, no extra words.'',
                      om_images = [img_bytes]\<rparr>]\<rparr>"

definition ocr_call :: "(chat_request \<Rightarrow> ocr_reply) \<Rightarrow> string \<Rightarrow> string" where
  \<comment> \<open>\<^verbatim>\<open>ocr_with_ollama(pil_img)\<close> with the default \<^verbatim>\<open>model=OLLAMA_MODEL\<close>, for a model
      that answers a request with \<open>chat\<close>\<close>
  "ocr_call chat img_bytes = ocr_with_ollama (chat (ocr_request OLLAMA_MODEL img_bytes))"

definition scan_record :: "string \<Rightarrow> scan_result" where
  \<comment> \<open>the dictionary assigned to \<^verbatim>\<open>last_result\<close>\<close>
  "scan_record raw_text =
     (let (code, raw) = extract_code_from_text raw_text
      in \<lparr>sr_code = code, sr_code_raw = raw, sr_info = lookup_deposit code,
          sr_confidence = None, sr_raw_text = raw_text\<rparr>)"

definition capture_once :: "capture \<Rightarrow> real \<Rightarrow> gui \<Rightarrow> scan_error + gui" where
  "capture_once cap now s =
     (case cap of
        CaptureRaised \<Rightarrow> Inl CaptureError
      | Captured reply \<Rightarrow>
          let raw_text = ocr_with_ollama reply;
              r = scan_record raw_text;
              s' = s\<lparr>last_result := r\<rparr>
          in Inr (update_overlay_label (sr_info r) now s'))"

definition status :: "gui \<Rightarrow> region \<times> string \<times> scan_result" where
  \<comment> \<open>\<^verbatim>\<open>{"region": CAP_REGION, "label_color": label_color, "last": last_result}\<close>\<close>
  "status s = (cap_region s, label_color s, last_result s)"

lemmas scan_eval = capture_once_def ocr_with_ollama_def scan_record_def extract_eval findall.simps
  lookup_deposit_def DIGITS_END_RE_def MULTIPLIER_CODES_def mk_entry_def make_info_def
  update_overlay_label_def label_of_def nat_digits.simps label_shown_def

section \<open>Properties of capture_once\<close>

lemma capture_once_Captured:
  "capture_once (Captured reply) now s =
   Inr (update_overlay_label (sr_info (scan_record (ocr_with_ollama reply))) now
          (s\<lparr>last_result := scan_record (ocr_with_ollama reply)\<rparr>))"
  by (simp add: capture_once_def Let_def)

lemma capture_once_Inr:
  "capture_once cap now s = Inr s' \<Longrightarrow>
   \<exists>reply. cap = Captured reply \<and>
     s' = update_overlay_label (sr_info (scan_record (ocr_with_ollama reply))) now
            (s\<lparr>last_result := scan_record (ocr_with_ollama reply)\<rparr>)"
  by (auto simp: capture_once_def Let_def split: capture.splits)

lemma update_label_last_result: "last_result (update_overlay_label info now s) = last_result s"
  by (simp add: update_overlay_label_def Let_def split: option.splits)

text \<open>C9: a scan that completes took an image, and \<^verbatim>\<open>last_result\<close> records the
  model's stripped answer; when a code was found it has the normalised shape and the
  recorded deposit is the specification's resolver on the code's trailing digits, and
  when none was found no deposit is recorded. This is the data flow of the
  specification: recognised text, normalised code, resolved deposit, last result.\<close>

theorem capture_once_pipeline:
  assumes "capture_once cap now s = Inr s'"
  shows "\<exists>reply. cap = Captured reply \<and> sr_raw_text (last_result s') = ocr_with_ollama reply \<and>
           (case sr_code (last_result s') of
              None \<Rightarrow> sr_info (last_result s') = None
            | Some c \<Rightarrow> normalized_code c \<and>
                sr_info (last_result s') = resolve_spec (digits_value (trailing_digits c)))"
proof -
  from capture_once_Inr [OF assms] obtain reply where c: "cap = Captured reply"
    and r: "last_result s' = scan_record (ocr_with_ollama reply)"
    by (auto simp: update_label_last_result)
  show ?thesis
  proof (cases "fst (extract_code_from_text (ocr_with_ollama reply))")
    case None
    then show ?thesis using c r by (simp add: scan_record_def split_beta lookup_deposit_def)
  next
    case (Some code)
    have n: "normalized_code code" using Some by (rule extract_code_shape)
    then show ?thesis using c r Some normalized_code_lookup [OF n] by (simp add: scan_record_def split_beta)
  qed
qed

text \<open>C10: a scan whose code does not resolve leaves the overlay, its text and its
  timestamp as they were: an unresolved scan does not clear or refresh the label.\<close>

theorem capture_once_unresolved_frame:
  assumes "capture_once cap now s = Inr s'" "sr_info (last_result s') = None"
  shows "overlay s' = overlay s \<and> overlay_text s' = overlay_text s \<and>
         last_overlay_time s' = last_overlay_time s \<and> label_shown s' = label_shown s"
  using assms
  by (auto dest!: capture_once_Inr simp: update_label_last_result update_overlay_label_def label_shown_def
      Let_def split: option.splits)

text \<open>C11: a scan that resolves a deposit shows \<open>"name xN"\<close> on the overlay and
  restarts the ten-second timeout at the scan's time.\<close>

theorem capture_once_resolved_shows:
  assumes "capture_once cap now s = Inr s'" "sr_info (last_result s') = Some d" "overlay s \<noteq> None"
  shows "label_shown s' = label_of d \<and> last_overlay_time s' = now \<and> overlay_text s' = label_of d"
  using assms
  by (auto dest!: capture_once_Inr simp: update_label_last_result update_overlay_label_def
      label_shown_def Let_def split: option.splits)

text \<open>C12: when the model call raises, the scan records an empty text with no code, no
  raw code and no deposit, and the overlay is unchanged.\<close>

theorem capture_once_ocr_failure:
  "capture_once (Captured OcrRaised) now s =
     Inr (s\<lparr>last_result := \<lparr>sr_code = None, sr_code_raw = None, sr_info = None,
                              sr_confidence = None, sr_raw_text = []\<rparr>\<rparr>)"
  by (simp add: capture_once_def ocr_with_ollama_def scan_record_def extract_code_from_text_def
      lookup_deposit_def update_overlay_label_def)

lemma capture_once_raised: "capture_once CaptureRaised now s = Inl CaptureError"
  by (simp add: capture_once_def)

section \<open>Frame of a scan\<close>

lemma capture_once_frame:
  "capture_once cap now s = Inr g \<Longrightarrow>
   continuous_mode g = continuous_mode s \<and> cap_region g = cap_region s \<and> label_color g = label_color s"
  by (auto dest!: capture_once_Inr simp: update_overlay_label_def Let_def split: option.splits)

section \<open>Witnesses\<close>

theorem capture_once_pipeline_witness:
  "\<exists>s'. capture_once (Captured (OcrReply '' E-3800 '')) 1000 (show_overlay init_gui) = Inr s' \<and>
        sr_raw_text (last_result s') = ''E-3800'' \<and> sr_code (last_result s') = Some ''E-3800'' \<and>
        normalized_code ''E-3800'' \<and> sr_info (last_result s') = resolve_spec 3800"
proof -
  obtain s' where e: "capture_once (Captured (OcrReply '' E-3800 '')) 1000 (show_overlay init_gui) = Inr s'"
    using capture_once_Captured by blast
  have c: "sr_code (last_result s') = Some ''E-3800''"
    using e [symmetric] by (simp add: scan_eval update_label_last_result Let_def)
  have o: "ocr_with_ollama (OcrReply '' E-3800 '') = ''E-3800''" by (simp add: ocr_with_ollama_def py_simps)
  have t: "digits_value (trailing_digits ''E-3800'') = 3800" by (simp add: trailing_digits_def py_simps Let_def)
  from capture_once_pipeline [OF e] c o t show ?thesis using e by auto
qed
theorem capture_once_unresolved_frame_witness:
  "\<exists>s'. capture_once (Captured (OcrReply ''no code'')) 1000 (show_overlay init_gui) = Inr s' \<and>
        sr_info (last_result s') = None \<and> label_shown s' = label_shown (show_overlay init_gui)"
proof -
  obtain s' where e: "capture_once (Captured (OcrReply ''no code'')) 1000 (show_overlay init_gui) = Inr s'"
    using capture_once_Captured by blast
  have n: "sr_info (last_result s') = None"
    using e [symmetric] by (simp add: scan_eval update_label_last_result Let_def)
  show ?thesis using e n capture_once_unresolved_frame [OF e n] by blast
qed

theorem capture_once_resolved_shows_witness:
  "\<exists>s'. capture_once (Captured (OcrReply ''3400'')) 1000 (show_overlay init_gui) = Inr s' \<and>
        label_shown s' = ''C-Type x2''"
proof -
  obtain s' where e: "capture_once (Captured (OcrReply ''3400'')) 1000 (show_overlay init_gui) = Inr s'"
    using capture_once_Captured by blast
  have d: "sr_info (last_result s') = Some (make_info 1700 (mk_entry ''CTYPE'' ''C-Type'' ''common'' ''Rock Deposits'') 3400)"
    using e [symmetric] by (simp add: scan_eval update_label_last_result Let_def)
  have o: "overlay (show_overlay init_gui) \<noteq> None" by (simp add: show_overlay_def split_beta)
  have "label_of (make_info 1700 (mk_entry ''CTYPE'' ''C-Type'' ''common'' ''Rock Deposits'') 3400) = ''C-Type x2''"
    by (simp add: label_of_def make_info_def mk_entry_def py_simps Let_def nat_digits.simps)
  then show ?thesis using e capture_once_resolved_shows [OF e d o] by auto
qed
end
