(* ===== verification/Continuous.thy ===== *)
theory Continuous
  imports Scan "HOL-Library.Multiset"
begin

text \<open>
  The threads of \<^verbatim>\<open>src/scan_deposits.py\<close> that act on the shared state: the
  continuous-scan drivers started by \<^verbatim>\<open>toggle_continuous\<close> (lines 449--455), each
  running \<^verbatim>\<open>continuous_scan_loop\<close> (lines 458--462); the Tk main thread, which
  runs the buttons of \<^verbatim>\<open>launch_gui\<close> (lines 411--416), \<^verbatim>\<open>show_overlay\<close> and the
  500 ms label timer; and the hotkey thread (lines 481--488), which runs the same
  callbacks. A system state is the shared \<open>gui\<close> record, the multiset of running
  drivers with their program points, and the clock. One step is one atomic action of one
  thread; which thread moves, the time and the outcome of each grab are not determined,
  so the steps are an inductive relation. A driver whose grab raises ends (the
  exception leaves \<^verbatim>\<open>continuous_scan_loop\<close>); the flag \<open>raises\<close> says whether such
  steps are allowed.
\<close>

datatype dpc =
    AtCheck              \<comment> \<open>about to test \<^verbatim>\<open>while continuous_mode\<close>\<close>
  | Sleeping real        \<comment> \<open>in \<^verbatim>\<open>time.sleep(2)\<close> until the given time\<close>

record sys =
  sg :: gui
  drivers :: "dpc multiset"
  clock :: real

datatype ui_event =
    SingleScan | LoopToggle | UpdateOverlay | SetLabelColor "string option" | ToggleBorder
  | Sliders int int int int

definition hotkey_action :: "string \<Rightarrow> ui_event option" where
  \<comment> \<open>\<^verbatim>\<open>keyboard.add_hotkey\<close> registrations\<close>
  "hotkey_action k =
     (if k = ''7'' then Some SingleScan
      else if k = ''ctrl+7'' then Some LoopToggle
      else if k = ''8'' then Some ToggleBorder
      else None)"

definition toggle_continuous :: "sys \<Rightarrow> sys" where
  "toggle_continuous s =
     (let m = \<not> continuous_mode (sg s)
      in s\<lparr>sg := (sg s)\<lparr>continuous_mode := m\<rparr>,
           drivers := (if m then add_mset AtCheck (drivers s) else drivers s)\<rparr>)"

definition single_scan :: "capture \<Rightarrow> sys \<Rightarrow> sys" where
  \<comment> \<open>\<^verbatim>\<open>capture_once\<close> as a Tk or hotkey callback: an exception is reported by the
      toolkit and the state is left as it was\<close>
  "single_scan cap s =
     (case capture_once cap (clock s) (sg s) of Inl _ \<Rightarrow> s | Inr g \<Rightarrow> s\<lparr>sg := g\<rparr>)"

fun ui_handle :: "capture \<Rightarrow> ui_event \<Rightarrow> sys \<Rightarrow> sys" where
  "ui_handle cap SingleScan s = single_scan cap s"
| "ui_handle cap LoopToggle s = toggle_continuous s"
| "ui_handle cap UpdateOverlay s = s\<lparr>sg := update_overlay_region (sg s)\<rparr>"
| "ui_handle cap (SetLabelColor c) s = s\<lparr>sg := choose_label_color c (sg s)\<rparr>"
| "ui_handle cap ToggleBorder s = s\<lparr>sg := toggle_border (sg s)\<rparr>"
| "ui_handle cap (Sliders l t w h) s = s\<lparr>sg := update_region_from_sliders l t w h (sg s)\<rparr>"

inductive cs_step :: "bool \<Rightarrow> sys \<Rightarrow> sys \<Rightarrow> bool" where
  ui: "cs_step raises s (ui_handle cap e s)"
| show_ov: "overlay (sg s) = None \<Longrightarrow> cs_step raises s (s\<lparr>sg := show_overlay (sg s)\<rparr>)"
| timer: "cs_step raises s (s\<lparr>sg := label_timeout_tick (clock s) (sg s)\<rparr>)"
| time: "clock s < t \<Longrightarrow> cs_step raises s (s\<lparr>clock := t\<rparr>)"
| loop_exit: "AtCheck \<in># drivers s \<Longrightarrow> \<not> continuous_mode (sg s) \<Longrightarrow>
    cs_step raises s (s\<lparr>drivers := drivers s - {#AtCheck#}\<rparr>)"
| loop_scan: "AtCheck \<in># drivers s \<Longrightarrow> continuous_mode (sg s) \<Longrightarrow>
    capture_once cap (clock s) (sg s) = Inr g \<Longrightarrow>
    cs_step raises s (s\<lparr>sg := g, drivers := add_mset (Sleeping (clock s + 2)) (drivers s - {#AtCheck#})\<rparr>)"
| loop_raise: "raises \<Longrightarrow> AtCheck \<in># drivers s \<Longrightarrow> continuous_mode (sg s) \<Longrightarrow>
    capture_once cap (clock s) (sg s) = Inl err \<Longrightarrow>
    cs_step raises s (s\<lparr>drivers := drivers s - {#AtCheck#}\<rparr>)"
| wake: "Sleeping t \<in># drivers s \<Longrightarrow> t \<le> clock s \<Longrightarrow>
    cs_step raises s (s\<lparr>drivers := add_mset AtCheck (drivers s - {#Sleeping t#})\<rparr>)"

definition sys_init :: "real \<Rightarrow> sys" where
  "sys_init c = \<lparr>sg = init_gui, drivers = {#}, clock = c\<rparr>"

inductive reach :: "bool \<Rightarrow> sys \<Rightarrow> bool" where
  start: "0 < c \<Longrightarrow> reach raises (sys_init c)"
| step: "reach raises s \<Longrightarrow> cs_step raises s t \<Longrightarrow> reach raises t"

definition drivers_inv :: "sys \<Rightarrow> bool" where
  "drivers_inv s \<longleftrightarrow> (continuous_mode (sg s) \<longrightarrow> drivers s \<noteq> {#})"

section \<open>Invariants of the system\<close>

lemma drivers_inv_step: "cs_step False s t \<Longrightarrow> drivers_inv s \<Longrightarrow> drivers_inv t"
proof (induction "False" s t rule: cs_step.induct)
  case (ui s cap e)
  then show ?case
  proof (cases e)
    case SingleScan
    then show ?thesis using ui
      by (auto simp: drivers_inv_def single_scan_def dest: capture_once_frame split: sum.splits)
  qed (auto simp: drivers_inv_def toggle_continuous_def Let_def)
next
  case (loop_scan s cap g)
  then show ?case using capture_once_frame [of cap "clock s" "sg s" g] by (simp add: drivers_inv_def)
next
  case (loop_raise s cap err)
  then show ?case by simp
qed (auto simp: drivers_inv_def)

lemma reach_drivers_inv: "reach False s \<Longrightarrow> drivers_inv s"
proof (induction "False" s rule: reach.induct)
  case (start c)
  then show ?case by (simp add: drivers_inv_def sys_init_def init_gui_def)
next
  case (step s t)
  then show ?case by (blast intro: drivers_inv_step)
qed

text \<open>C13: when no grab raises, continuous mode is never on without a running driver:
  the flag and the drivers stay in step.\<close>

theorem continuous_has_driver: "reach False s \<Longrightarrow> continuous_mode (sg s) \<Longrightarrow> drivers s \<noteq> {#}"
  using reach_drivers_inv by (simp add: drivers_inv_def)

section \<open>Behaviours of the loop\<close>

text \<open>C14: when a grab raises inside \<^verbatim>\<open>continuous_scan_loop\<close>, the driver ends but
  \<^verbatim>\<open>continuous_mode\<close> stays on: a state is reachable where the mode is on and no
  driver runs, so the loop has stopped silently and the next toggle turns the mode off.\<close>

theorem silent_stop_reachable:
  "\<exists>s. reach True s \<and> continuous_mode (sg s) \<and> drivers s = {#}"
proof -
  let ?s0 = "sys_init 1"
  let ?s1 = "toggle_continuous ?s0"
  have r0: "reach True ?s0" by (rule reach.start) simp
  have r1: "reach True ?s1"
    using reach.step [OF r0 cs_step.ui [where cap = CaptureRaised and e = LoopToggle]] by simp
  have on: "continuous_mode (sg ?s1)" "drivers ?s1 = {#AtCheck#}"
    by (simp_all add: toggle_continuous_def sys_init_def init_gui_def)
  have "cs_step True ?s1 (?s1\<lparr>drivers := drivers ?s1 - {#AtCheck#}\<rparr>)"
    by (rule cs_step.loop_raise [where cap = CaptureRaised and err = CaptureError])
       (simp_all add: on capture_once_raised)
  with r1 have "reach True (?s1\<lparr>drivers := drivers ?s1 - {#AtCheck#}\<rparr>)" by (rule reach.step)
  then show ?thesis using on by - (rule exI [where x = "?s1\<lparr>drivers := drivers ?s1 - {#AtCheck#}\<rparr>"], simp)
qed

lemma one_more_driver:
  assumes r: "reach False s" and on: "continuous_mode (sg s)" and a: "AtCheck \<in># drivers s"
  shows "\<exists>t. reach False t \<and> continuous_mode (sg t) \<and> AtCheck \<in># drivers t \<and>
             size (drivers t) = Suc (size (drivers s))"
proof -
  obtain g where g: "capture_once (Captured OcrRaised) (clock s) (sg s) = Inr g"
    using capture_once_Captured by blast
  let ?s1 = "s\<lparr>sg := g, drivers := add_mset (Sleeping (clock s + 2)) (drivers s - {#AtCheck#})\<rparr>"
  have r1: "reach False ?s1" by (rule reach.step [OF r cs_step.loop_scan [OF a on g]])
  have on1: "continuous_mode (sg ?s1)" using capture_once_frame [OF g] on by simp
  have sz1: "size (drivers ?s1) = size (drivers s)" using a by (auto dest!: multi_member_split)
  let ?s2 = "ui_handle CaptureRaised LoopToggle ?s1"
  have r2: "reach False ?s2" by (rule reach.step [OF r1 cs_step.ui])
  have s2: "\<not> continuous_mode (sg ?s2)" "drivers ?s2 = drivers ?s1"
    using on1 by (simp_all add: toggle_continuous_def Let_def)
  let ?s3 = "ui_handle CaptureRaised LoopToggle ?s2"
  have r3: "reach False ?s3" by (rule reach.step [OF r2 cs_step.ui])
  have "continuous_mode (sg ?s3)" "drivers ?s3 = add_mset AtCheck (drivers ?s1)"
    using s2 by (simp_all add: toggle_continuous_def Let_def)
  with r3 sz1 show ?thesis by (intro exI [where x = ?s3]) simp
qed

text \<open>C15: toggling the mode off and on again while a driver sleeps starts another
  driver without stopping the first: for every \<open>n\<close> a state is reachable, without any
  grab raising, in which continuous mode is on and \<open>n + 1\<close> drivers run.\<close>

theorem drivers_unbounded: "\<exists>s. reach False s \<and> continuous_mode (sg s) \<and> size (drivers s) = Suc n"
proof -
  have "\<exists>s. reach False s \<and> continuous_mode (sg s) \<and> AtCheck \<in># drivers s \<and> size (drivers s) = Suc n"
  proof (induction n)
    case 0
    let ?s = "ui_handle CaptureRaised LoopToggle (sys_init 1)"
    have "reach False ?s" by (rule reach.step [OF reach.start cs_step.ui]) simp
    moreover have "continuous_mode (sg ?s) \<and> drivers ?s = {#AtCheck#}"
      by (simp add: toggle_continuous_def sys_init_def init_gui_def)
    ultimately show ?case by - (rule exI [where x = ?s], simp)
  next
    case (Suc n)
    then obtain s where "reach False s" "continuous_mode (sg s)" "AtCheck \<in># drivers s"
      "size (drivers s) = Suc n" by blast
    with one_more_driver show ?case by fastforce
  qed
  then show ?thesis by blast
qed
lemma driver_exits:
  assumes off: "\<not> continuous_mode (sg s)" and d: "x \<in># drivers s"
  shows "\<exists>t. (cs_step raises)\<^sup>*\<^sup>* s t \<and> drivers t = drivers s - {#x#} \<and> sg t = sg s"
proof (cases x)
  case AtCheck
  have "cs_step raises s (s\<lparr>drivers := drivers s - {#AtCheck#}\<rparr>)"
    using d off AtCheck by (intro cs_step.loop_exit) simp_all
  then show ?thesis using AtCheck by (intro exI [where x = "s\<lparr>drivers := drivers s - {#AtCheck#}\<rparr>"]) auto
next
  case (Sleeping w)
  let ?c = "max (clock s + 1) w"
  let ?s1 = "s\<lparr>clock := ?c\<rparr>"
  let ?s2 = "?s1\<lparr>drivers := add_mset AtCheck (drivers ?s1 - {#Sleeping w#})\<rparr>"
  let ?s3 = "?s2\<lparr>drivers := drivers ?s2 - {#AtCheck#}\<rparr>"
  have 1: "cs_step raises s ?s1" by (rule cs_step.time) simp
  have 2: "cs_step raises ?s1 ?s2" using d Sleeping by (intro cs_step.wake) simp_all
  have 3: "cs_step raises ?s2 ?s3" using off by (intro cs_step.loop_exit) simp_all
  have "(cs_step raises)\<^sup>*\<^sup>* s ?s3" using 1 2 3 by (meson rtranclp.rtrancl_into_rtrancl rtranclp.rtrancl_refl)
  then show ?thesis using Sleeping by (intro exI [where x = ?s3]) simp
qed

text \<open>C24: \<^verbatim>\<open>continuous_scan_loop\<close> terminates once the mode is off: from any state
  with \<^verbatim>\<open>continuous_mode\<close> false, every running loop can finish its sleep, see the
  flag and return, with no further scan and the shared state unchanged.\<close>

theorem loop_exits_when_off:
  "\<not> continuous_mode (sg s) \<Longrightarrow> \<exists>t. (cs_step raises)\<^sup>*\<^sup>* s t \<and> drivers t = {#} \<and> sg t = sg s"
proof (induction "size (drivers s)" arbitrary: s)
  case 0
  then show ?case by auto
next
  case (Suc n)
  then obtain x where x: "x \<in># drivers s" by (metis multiset_nonemptyE size_empty nat.distinct(1))
  from driver_exits [OF Suc.prems x] obtain t where
    t: "(cs_step raises)\<^sup>*\<^sup>* s t" "drivers t = drivers s - {#x#}" "sg t = sg s" by blast
  have "n = size (drivers t)" using Suc.hyps(2) t(2) x by (simp add: size_Diff_singleton)
  from Suc.hyps(1) [OF this] Suc.prems t(3) obtain u where
    u: "(cs_step raises)\<^sup>*\<^sup>* t u" "drivers u = {#}" "sg u = sg t" by auto
  have "(cs_step raises)\<^sup>*\<^sup>* s u" using t(1) u(1) by (rule rtranclp_trans)
  then show ?case using u t(3) by auto
qed

section \<open>Witnesses\<close>

theorem continuous_has_driver_witness:
  "reach False (toggle_continuous (sys_init 1)) \<and> continuous_mode (sg (toggle_continuous (sys_init 1))) \<and>
   drivers (toggle_continuous (sys_init 1)) \<noteq> {#}"
proof -
  have r: "reach False (toggle_continuous (sys_init 1))"
    using reach.step [OF reach.start [of 1 False] cs_step.ui [where cap = CaptureRaised and e = LoopToggle]]
    by simp
  have on: "continuous_mode (sg (toggle_continuous (sys_init 1)))"
    by (simp add: toggle_continuous_def sys_init_def init_gui_def)
  show ?thesis using r on continuous_has_driver [OF r on] by simp
qed

theorem loop_exits_when_off_witness:
  "\<exists>t. (cs_step False)\<^sup>*\<^sup>* (sys_init 1\<lparr>drivers := {#AtCheck, Sleeping 3#}\<rparr>) t \<and> drivers t = {#} \<and>
       sg t = sg (sys_init 1)"
proof -
  have "\<not> continuous_mode (sg (sys_init 1\<lparr>drivers := {#AtCheck, Sleeping 3#}\<rparr>))"
    by (simp add: sys_init_def init_gui_def)
  from loop_exits_when_off [OF this] show ?thesis by simp
qed
end
