(* ===== verification/Tables.thy ===== *)
theory Tables
  imports Complex_Main Prelude
begin

text \<open>
  The Deposit Table Builder of \<^verbatim>\<open>src/scan_deposits.py\<close>: the static tiers
  \<^verbatim>\<open>ORE_TIERS\<close> and the map \<^verbatim>\<open>ORE_VALUE_MAP\<close> built from them at import time
  (lines 156--165), and \<^verbatim>\<open>build_deposit_tables\<close> with the two region tables of
  \<^verbatim>\<open>DEPOSIT_TABLES\<close> (lines 169--194). The dataset is the value \<^verbatim>\<open>json.load\<close>
  returns: a \<open>json\<close> value whose objects are insertion-ordered dictionaries. Every
  attribute, type, value or overflow error the loop can raise on a malformed dataset is a
  value \<open>Inl\<close> of \<open>build_error\<close>. \<^verbatim>\<open>json.load\<close> reads an integer literal as a
  Python \<^verbatim>\<open>int\<close> (\<open>JInt\<close>, unbounded) and any other number as a \<^verbatim>\<open>float\<close>
  (\<open>JNum\<close>, its value as an exact real). Beyond the binary64 range both follow the
  code: \<^verbatim>\<open>:.0f\<close> converts an \<^verbatim>\<open>int\<close> to \<^verbatim>\<open>float\<close> and raises
  \<^verbatim>\<open>OverflowError\<close>, and \<^verbatim>\<open>x*100\<close> on a \<^verbatim>\<open>float\<close> gives an infinity. Within the
  range, the rounding of \<^verbatim>\<open>x*100\<close> in binary floating point is not modelled:
  \<^verbatim>\<open>:.0f\<close> rounds the exact product half to even.
\<close>

section \<open>Data\<close>

datatype json =
    JNull | JBool bool
  | JInt int             \<comment> \<open>an integer literal: a Python \<^verbatim>\<open>int\<close>\<close>
  | JNum real            \<comment> \<open>any other number literal: a finite \<^verbatim>\<open>float\<close>\<close>
  | JNaN                 \<comment> \<open>\<^verbatim>\<open>NaN\<close>, accepted by \<^verbatim>\<open>json.load\<close>\<close>
  | JInf bool            \<comment> \<open>\<^verbatim>\<open>Infinity\<close> (True) or \<^verbatim>\<open>-Infinity\<close>\<close>
  | JStr string | JArr "json list" | JObj "(string, json) pydict"

datatype build_error = AttributeError | TypeError | ValueError | OverflowError

record ore_row =
  or_name :: string
  or_prob :: string
  or_min :: string
  or_max :: string
  or_med :: string
  or_tier :: string
  or_color :: string

section \<open>Value tiers\<close>

definition ORE_TIERS :: "(string, string list \<times> string) pydict" where
  "ORE_TIERS =
     [(''HIGHEST'', ([''QUANTANIUM'', ''STILERON'', ''RICCITE''], ''#E88AFF'')),
      (''HIGH'', ([''TARANITE'', ''BEXALITE'', ''GOLD''], ''#63E64C'')),
      (''MEDIUM'', ([''LARANITE'', ''BORASE'', ''BERYL'', ''AGRICIUM'', ''HEPHAESTANITE''], ''#E6E14C'')),
      (''LOW'', ([''TUNGSTEN'', ''TITANIUM'', ''SILICON'', ''IRON'', ''QUARTZ'', ''CORUNDUM'', ''COPPER'',
                 ''TIN'', ''ALUMINUM'', ''ICE''], ''#E69E4C''))]"

definition add_tier :: "(string, string \<times> string) pydict \<Rightarrow> string \<times> string list \<times> string \<Rightarrow>
    (string, string \<times> string) pydict" where
  \<comment> \<open>the inner loop \<^verbatim>\<open>for ore in data["ores"]\<close>\<close>
  "add_tier m td = (case td of (tier, ores, color) \<Rightarrow>
     foldl (\<lambda>m' ore. dict_set m' (py_upper ore) (tier, color)) m ores)"

definition ORE_VALUE_MAP :: "(string, string \<times> string) pydict" where
  "ORE_VALUE_MAP = foldl add_tier [] ORE_TIERS"

definition ore_value_info :: "string \<Rightarrow> string \<times> string" where
  \<comment> \<open>\<^verbatim>\<open>ORE_VALUE_MAP.get(name_up, {"tier": "OTHER", "color": "#888"})\<close>\<close>
  "ore_value_info ore_name = dict_get_default ORE_VALUE_MAP (py_upper ore_name) (''OTHER'', ''#888'')"

section \<open>Formatting\<close>

definition round_half_even :: "real \<Rightarrow> int" where
  "round_half_even x =
     (let f = \<lfloor>x\<rfloor>; d = x - of_int f
      in if d < 1/2 then f else if 1/2 < d then f + 1 else if even f then f else f + 1)"

definition fmt_0f :: "real \<Rightarrow> string" where
  \<comment> \<open>\<^verbatim>\<open>f"{x:.0f}"\<close> on a finite number: the sign is kept when the rounded value is 0\<close>
  "fmt_0f x = (if x < 0 then ''-'' else []) @ nat_digits (nat (round_half_even \<bar>x\<bar>))"

definition FLOAT_OVERFLOW :: real where
  \<comment> \<open>the least magnitude that binary64 round-to-nearest-even sends to infinity: halfway
      between the largest float \<open>(2 - 2\<^sup>-\<^sup>5\<^sup>2) * 2\<^sup>1\<^sup>0\<^sup>2\<^sup>3\<close> and \<open>2\<^sup>1\<^sup>0\<^sup>2\<^sup>4\<close>\<close>
  "FLOAT_OVERFLOW = 2 ^ 1024 - 2 ^ 970"

fun pct_field :: "json \<Rightarrow> build_error + string" where
  \<comment> \<open>\<^verbatim>\<open>f"{v*100:.0f}%"\<close>\<close>
  "pct_field (JInt n) =
     (if FLOAT_OVERFLOW \<le> \<bar>of_int (n * 100)\<bar> then Inl OverflowError   \<comment> \<open>\<^verbatim>\<open>int too large to convert to float\<close>\<close>
      else Inr (fmt_0f (of_int (n * 100)) @ ''%''))"
| "pct_field (JNum r) =
     (if FLOAT_OVERFLOW \<le> \<bar>r * 100\<bar> then Inr ((if 0 < r then [] else ''-'') @ ''inf%'')
      else Inr (fmt_0f (r * 100) @ ''%''))"
| "pct_field (JBool b) = Inr (fmt_0f (if b then 100 else 0) @ ''%'')"
| "pct_field JNaN = Inr ''nan%''"
| "pct_field (JInf pos) = Inr ((if pos then [] else ''-'') @ ''inf%'')"
| "pct_field (JStr s) = Inl ValueError"      \<comment> \<open>\<^verbatim>\<open>str * 100\<close> is a string; \<^verbatim>\<open>:.0f\<close> refuses it\<close>
| "pct_field (JArr xs) = Inl TypeError"      \<comment> \<open>\<^verbatim>\<open>list.__format__\<close> refuses \<^verbatim>\<open>.0f\<close>\<close>
| "pct_field JNull = Inl TypeError"          \<comment> \<open>\<^verbatim>\<open>None * 100\<close>\<close>
| "pct_field (JObj d) = Inl TypeError"       \<comment> \<open>\<^verbatim>\<open>dict * 100\<close>\<close>

definition ore_pct :: "(string, json) pydict \<Rightarrow> string \<Rightarrow> build_error + string" where
  \<comment> \<open>\<^verbatim>\<open>f"{ore_data.get(k, 0)*100:.0f}%"\<close>\<close>
  "ore_pct od k = pct_field (dict_get_default od k (JInt 0))"

section \<open>Building the tables\<close>

fun build_row :: "string \<Rightarrow> json \<Rightarrow> build_error + ore_row" where
  "build_row ore_name (JObj od) =
     (case ore_pct od ''prob'' of Inl e \<Rightarrow> Inl e | Inr p \<Rightarrow>
      case ore_pct od ''minPct'' of Inl e \<Rightarrow> Inl e | Inr mn \<Rightarrow>
      case ore_pct od ''maxPct'' of Inl e \<Rightarrow> Inl e | Inr mx \<Rightarrow>
      case ore_pct od ''medPct'' of Inl e \<Rightarrow> Inl e | Inr md \<Rightarrow>
      case ore_value_info ore_name of (tier, color) \<Rightarrow>
        Inr \<lparr>or_name = py_title ore_name, or_prob = p, or_min = mn, or_max = mx, or_med = md,
             or_tier = tier, or_color = color\<rparr>)"
| "build_row ore_name _ = Inl AttributeError"   \<comment> \<open>\<^verbatim>\<open>ore_data.get\<close> on a non-object\<close>

definition tier_order :: "string list" where
  "tier_order = [''HIGHEST'', ''HIGH'', ''MEDIUM'', ''LOW'', ''OTHER'']"

fun py_index :: "'a list \<Rightarrow> 'a \<Rightarrow> nat option" where
  \<comment> \<open>\<^verbatim>\<open>xs.index(x)\<close>; \<open>None\<close> is its \<^verbatim>\<open>ValueError\<close>\<close>
  "py_index [] x = None"
| "py_index (y # ys) x = (if y = x then Some 0 else map_option Suc (py_index ys x))"

definition tier_rank :: "ore_row \<Rightarrow> nat" where
  "tier_rank r = the (py_index tier_order (or_tier r))"

definition tier_key :: "string \<Rightarrow> nat" where
  "tier_key t = (case py_index tier_order t of Some i \<Rightarrow> i | None \<Rightarrow> length tier_order)"

definition table_sort :: "ore_row list \<Rightarrow> build_error + ore_row list" where
  \<comment> \<open>\<^verbatim>\<open>table.sort(key=lambda x: tier_order.index(x["tier"]))\<close>: the keys are computed
      first, and the sort is stable\<close>
  "table_sort rows =
     (if list_all (\<lambda>r. py_index tier_order (or_tier r) \<noteq> None) rows
      then Inr (sort_key tier_rank rows) else Inl ValueError)"

fun build_table :: "json \<Rightarrow> build_error + ore_row list" where
  \<comment> \<open>the body of the outer loop for one deposit type\<close>
  "build_table (JObj details) =
     (case dict_get_default details ''ores'' (JObj []) of
        JObj ores \<Rightarrow>
          (case py_map_all (\<lambda>(n, od). build_row n od) ores of
             Inl e \<Rightarrow> Inl e
           | Inr rows \<Rightarrow> table_sort rows)
      | _ \<Rightarrow> Inl AttributeError)"                  \<comment> \<open>\<^verbatim>\<open>ores.items()\<close> on a non-object\<close>
| "build_table _ = Inl AttributeError"         \<comment> \<open>\<^verbatim>\<open>details.get\<close> on a non-object\<close>

fun build_tables_loop :: "(string, json) pydict \<Rightarrow> (string, ore_row list) pydict \<Rightarrow>
    build_error + (string, ore_row list) pydict" where
  "build_tables_loop [] acc = Inr acc"
| "build_tables_loop ((deposit_name, details) # rest) acc =
     (case build_table details of
        Inl e \<Rightarrow> Inl e
      | Inr table \<Rightarrow> build_tables_loop rest (dict_set acc (py_upper deposit_name) table))"

fun build_deposit_tables :: "json \<Rightarrow> build_error + (string, ore_row list) pydict" where
  "build_deposit_tables (JObj rock_data) = build_tables_loop rock_data []"
| "build_deposit_tables _ = Inl AttributeError"   \<comment> \<open>\<^verbatim>\<open>rock_data.items()\<close>\<close>

definition DEPOSIT_TABLES :: "json \<Rightarrow> build_error + (string, (string, ore_row list) pydict) pydict" where
  "DEPOSIT_TABLES rock =
     (case rock of
        JObj rd \<Rightarrow>
          (case build_deposit_tables (dict_get_default rd ''STANTON'' (JObj [])) of
             Inl e \<Rightarrow> Inl e
           | Inr stanton \<Rightarrow>
               (case build_deposit_tables (dict_get_default rd ''PYRO'' (JObj [])) of
                  Inl e \<Rightarrow> Inl e
                | Inr pyro \<Rightarrow> Inr [(''STANTON'', stanton), (''PYRO'', pyro)]))
      | _ \<Rightarrow> Inl AttributeError)"

section \<open>Well-formed datasets\<close>

fun pct_ok :: "json \<Rightarrow> bool" where
  "pct_ok (JInt n) = (\<bar>of_int (n * 100)\<bar> < FLOAT_OVERFLOW)"
| "pct_ok (JNum r) = True"
| "pct_ok (JBool b) = True"
| "pct_ok JNaN = True"
| "pct_ok (JInf pos) = True"
| "pct_ok _ = False"

fun ore_data_ok :: "json \<Rightarrow> bool" where
  "ore_data_ok (JObj od) =
     list_all (\<lambda>k. pct_ok (dict_get_default od k (JInt 0))) [''prob'', ''minPct'', ''maxPct'', ''medPct'']"
| "ore_data_ok _ = False"

fun details_ok :: "json \<Rightarrow> bool" where
  "details_ok (JObj details) =
     (case dict_get_default details ''ores'' (JObj []) of
        JObj ores \<Rightarrow> list_all (\<lambda>(n, od). ore_data_ok od) ores
      | _ \<Rightarrow> False)"
| "details_ok _ = False"

fun rock_ok :: "json \<Rightarrow> bool" where
  "rock_ok (JObj rock_data) = list_all (\<lambda>(n, d). details_ok d) rock_data"
| "rock_ok _ = False"

section \<open>Tier lookup\<close>

lemma ORE_VALUE_MAP_eq: "ORE_VALUE_MAP =
  [(''QUANTANIUM'', (''HIGHEST'', ''#E88AFF'')), (''STILERON'', (''HIGHEST'', ''#E88AFF'')), (''RICCITE'', (''HIGHEST'', ''#E88AFF'')),
   (''TARANITE'', (''HIGH'', ''#63E64C'')), (''BEXALITE'', (''HIGH'', ''#63E64C'')), (''GOLD'', (''HIGH'', ''#63E64C'')),
   (''LARANITE'', (''MEDIUM'', ''#E6E14C'')), (''BORASE'', (''MEDIUM'', ''#E6E14C'')), (''BERYL'', (''MEDIUM'', ''#E6E14C'')),
   (''AGRICIUM'', (''MEDIUM'', ''#E6E14C'')), (''HEPHAESTANITE'', (''MEDIUM'', ''#E6E14C'')),
   (''TUNGSTEN'', (''LOW'', ''#E69E4C'')), (''TITANIUM'', (''LOW'', ''#E69E4C'')), (''SILICON'', (''LOW'', ''#E69E4C'')),
   (''IRON'', (''LOW'', ''#E69E4C'')), (''QUARTZ'', (''LOW'', ''#E69E4C'')), (''CORUNDUM'', (''LOW'', ''#E69E4C'')),
   (''COPPER'', (''LOW'', ''#E69E4C'')), (''TIN'', (''LOW'', ''#E69E4C'')), (''ALUMINUM'', (''LOW'', ''#E69E4C'')),
   (''ICE'', (''LOW'', ''#E69E4C''))]"
  by (simp add: ORE_VALUE_MAP_def ORE_TIERS_def add_tier_def py_simps)

lemma ore_value_info_tier: "fst (ore_value_info n) \<in> set tier_order"
proof (cases "dict_get ORE_VALUE_MAP (py_upper n)")
  case (Some v)
  then have "(py_upper n, v) \<in> set ORE_VALUE_MAP" by (rule dict_get_Some_in)
  then show ?thesis using Some unfolding ore_value_info_def dict_get_default_def ORE_VALUE_MAP_eq
    by (auto simp: tier_order_def)
qed (simp add: ore_value_info_def dict_get_default_def tier_order_def)

lemma py_index_Some_iff: "(\<exists>i. py_index xs x = Some i) \<longleftrightarrow> x \<in> set xs"
  by (induction xs) auto

lemma py_index_nth: "py_index xs x = Some i \<Longrightarrow> i < length xs \<and> xs ! i = x"
  by (induction xs arbitrary: i) (auto split: if_splits)

lemma sort_key_filter_stable:
  "(\<And>x. x \<in> set xs \<Longrightarrow> P x \<longleftrightarrow> f x = k) \<Longrightarrow> filter P (sort_key f xs) = filter P xs"
proof -
  assume P: "\<And>x. x \<in> set xs \<Longrightarrow> P x \<longleftrightarrow> f x = k"
  have "filter P (sort_key f xs) = filter (\<lambda>x. f x = k) (sort_key f xs)"
    using P by (intro filter_cong) simp_all
  also have "\<dots> = filter (\<lambda>x. f x = k) xs" by (rule sort_key_stable)
  also have "\<dots> = filter P xs" using P by (intro filter_cong) simp_all
  finally show ?thesis .
qed

lemma tier_order_distinct: "distinct tier_order"
  by (simp add: tier_order_def)

lemma tier_rank_eq_iff:
  assumes "or_tier r \<in> set tier_order"
  shows "or_tier r = t \<longleftrightarrow> tier_rank r = tier_key t"
proof -
  obtain i where i: "py_index tier_order (or_tier r) = Some i"
    using assms py_index_Some_iff [of tier_order "or_tier r"] by auto
  have ri: "tier_rank r = i" using i by (simp add: tier_rank_def)
  have il: "i < length tier_order" and ix: "tier_order ! i = or_tier r"
    using py_index_nth [OF i] by auto
  show ?thesis
  proof (cases "py_index tier_order t")
    case None
    then have "t \<notin> set tier_order" using py_index_Some_iff [of tier_order t] by simp
    then have "or_tier r \<noteq> t" using assms by auto
    moreover have "tier_key t \<noteq> i" using None il by (simp add: tier_key_def)
    ultimately show ?thesis using ri by simp
  next
    case (Some j)
    have jl: "j < length tier_order" and jx: "tier_order ! j = t" using py_index_nth [OF Some] by auto
    have "tier_order ! i = tier_order ! j \<longleftrightarrow> i = j"
      using il jl tier_order_distinct by (simp add: nth_eq_iff_index_eq)
    then show ?thesis using ri ix jx Some by (simp add: tier_key_def)
  qed
qed

lemma build_row_tier: "build_row n od = Inr r \<Longrightarrow> or_tier r = fst (ore_value_info n)"
proof (cases od)
  case (JObj d)
  assume "build_row n od = Inr r"
  then show ?thesis using JObj
    by (simp split: sum.splits prod.splits add: ore_value_info_def del: ore_pct_def) (auto simp: ore_value_info_def)
qed simp_all

lemma built_rows_tiers:
  assumes "py_map_all (\<lambda>(n, od). build_row n od) ores = Inr rows" and "r \<in> set rows"
  shows "or_tier r \<in> set tier_order"
proof -
  have "list_all2 (\<lambda>x y. (case x of (n, od) \<Rightarrow> build_row n od) = Inr y) ores rows"
    using assms(1) by (simp add: py_map_all_Inr_iff)
  from list_all2_in_set2 [OF this assms(2)] obtain x where "(case x of (n, od) \<Rightarrow> build_row n od) = Inr r"
    by blast
  then have "or_tier r = fst (ore_value_info (fst x))" by (cases x) (simp only: prod.case build_row_tier fst_conv)
  then show ?thesis by (simp add: ore_value_info_tier)
qed

lemma table_sort_built:
  "py_map_all (\<lambda>(n, od). build_row n od) ores = Inr rows \<Longrightarrow> table_sort rows = Inr (sort_key tier_rank rows)"
  using built_rows_tiers [of ores rows] by (auto simp: table_sort_def list_all_iff py_index_Some_iff)

lemma build_table_JObj:
  "build_table (JObj details) = Inr tab \<Longrightarrow>
   \<exists>ores rows. dict_get_default details ''ores'' (JObj []) = JObj ores \<and>
     py_map_all (\<lambda>(n, od). build_row n od) ores = Inr rows \<and> tab = sort_key tier_rank rows"
proof (cases "dict_get_default details ''ores'' (JObj [])")
  case (JObj ores)
  assume b: "build_table (JObj details) = Inr tab"
  show ?thesis
  proof (cases "py_map_all (\<lambda>(n, od). build_row n od) ores")
    case (Inl e)
    then show ?thesis using b JObj by simp
  next
    case (Inr rows)
    then show ?thesis using b JObj by (simp add: table_sort_built)
  qed
qed simp_all

text \<open>C16: a table built for one deposit type is sorted by tier precedence (HIGHEST, HIGH,
  MEDIUM, LOW, OTHER), and the rows of any one tier are those of the ores of that tier,
  in the dataset's order: the sort is stable.\<close>

theorem build_table_sorted_stable:
  assumes "build_table (JObj details) = Inr tab" and "dict_get_default details ''ores'' (JObj []) = JObj ores"
  shows "sorted (map tier_rank tab) \<and>
    (\<forall>t. py_map_all (\<lambda>(n, od). build_row n od) (filter (\<lambda>(n, od). fst (ore_value_info n) = t) ores) =
         Inr (filter (\<lambda>r. or_tier r = t) tab))"
proof -
  obtain rows where rows: "py_map_all (\<lambda>(n, od). build_row n od) ores = Inr rows"
    and tab: "tab = sort_key tier_rank rows"
    using build_table_JObj [OF assms(1)] assms(2) by auto
  have "filter (\<lambda>r. or_tier r = t) tab = filter (\<lambda>r. or_tier r = t) rows" for t
    unfolding tab by (rule sort_key_filter_stable) (simp add: tier_rank_eq_iff built_rows_tiers [OF rows])
  moreover have "py_map_all (\<lambda>(n, od). build_row n od) (filter (\<lambda>(n, od). fst (ore_value_info n) = t) ores) =
         Inr (filter (\<lambda>r. or_tier r = t) rows)" for t
    by (rule py_map_all_filter [OF rows]) (auto dest: build_row_tier)
  ultimately show ?thesis using tab by simp
qed

lemma pct_field_fails: "(\<exists>e. pct_field v = Inl e) \<longleftrightarrow> \<not> pct_ok v"
  by (cases v) auto

lemma ore_pct_Inr_iff: "(\<exists>s. ore_pct d k = Inr s) \<longleftrightarrow> pct_ok (dict_get_default d k (JInt 0))"
  unfolding ore_pct_def sum_Inr_iff_not_Inl pct_field_fails by simp

lemma build_row_fails: "(\<exists>e. build_row n od = Inl e) \<longleftrightarrow> \<not> ore_data_ok od"
proof (cases od)
  case (JObj d)
  have "(\<exists>e. build_row n (JObj d) = Inl e) \<longleftrightarrow>
        \<not> ((\<exists>s. ore_pct d ''prob'' = Inr s) \<and> (\<exists>s. ore_pct d ''minPct'' = Inr s) \<and>
           (\<exists>s. ore_pct d ''maxPct'' = Inr s) \<and> (\<exists>s. ore_pct d ''medPct'' = Inr s))"
    unfolding build_row.simps sum_case_Inl_iff by (auto simp: split_beta sum_Inr_iff_not_Inl)
  then show ?thesis using JObj by (simp add: ore_pct_Inr_iff del: dict_get_default_def)
qed simp_all

lemma built_rows_ok:
  "(\<exists>rows. py_map_all (\<lambda>(n, od). build_row n od) ores = Inr rows) \<longleftrightarrow>
   list_all (\<lambda>(n, od). ore_data_ok od) ores"
proof -
  have "(\<exists>x \<in> set ores. \<exists>e. (case x of (n, od) \<Rightarrow> build_row n od) = Inl e) \<longleftrightarrow>
        (\<exists>x \<in> set ores. \<not> (case x of (n, od) \<Rightarrow> ore_data_ok od))"
    by (intro bex_cong refl) (simp add: split_beta build_row_fails)
  then show ?thesis by (simp add: sum_Inr_iff_not_Inl py_map_all_Inl_iff list_all_iff del: build_row.simps)
qed

lemma build_table_fails: "(\<exists>e. build_table d = Inl e) \<longleftrightarrow> \<not> details_ok d"
proof (cases d)
  case (JObj details)
  show ?thesis
  proof (cases "dict_get_default details ''ores'' (JObj [])")
    case (JObj ores)
    show ?thesis
    proof (cases "py_map_all (\<lambda>(n, od). build_row n od) ores")
      case (Inl e)
      then have "\<not> list_all (\<lambda>(n, od). ore_data_ok od) ores"
        using built_rows_ok [of ores] by auto
      then show ?thesis using Inl JObj \<open>d = JObj details\<close> by (simp del: dict_get_default_def)
    next
      case (Inr rows)
      then have "list_all (\<lambda>(n, od). ore_data_ok od) ores" using built_rows_ok [of ores] by auto
      then show ?thesis using Inr JObj \<open>d = JObj details\<close> by (simp add: table_sort_built del: dict_get_default_def)
    qed
  qed (use \<open>d = JObj details\<close> in \<open>simp_all del: dict_get_default_def\<close>)
qed simp_all

lemma build_tables_loop_fails:
  "(\<exists>e. build_tables_loop rd acc = Inl e) \<longleftrightarrow> \<not> list_all (\<lambda>(n, d). details_ok d) rd"
proof (induction rd arbitrary: acc)
  case (Cons x rd)
  obtain n d where x: "x = (n, d)" by fastforce
  show ?case
  proof (cases "build_table d")
    case (Inl e)
    then show ?thesis using x build_table_fails [of d] by auto
  next
    case (Inr t)
    then show ?thesis using x Cons.IH build_table_fails [of d] by auto
  qed
qed simp

lemma build_tables_loop_get:
  "build_tables_loop rd acc = Inr res \<Longrightarrow>
   dict_get res k = (case find (\<lambda>(n, d). py_upper n = k) (rev rd) of
                       None \<Rightarrow> dict_get acc k
                     | Some (n, d) \<Rightarrow> Some (projr (build_table d)))"
proof (induction rd arbitrary: acc)
  case (Cons x rd)
  obtain n d where x: "x = (n, d)" by fastforce
  obtain t where t: "build_table d = Inr t" and r: "build_tables_loop rd (dict_set acc (py_upper n) t) = Inr res"
    using Cons.prems x by (auto split: sum.splits)
  show ?case using Cons.IH [OF r] t x
    by (auto simp: find_append dict_get_set split: option.splits)
qed simp

lemma round_half_even_int [simp]: "round_half_even (of_int z) = z"
  by (simp add: round_half_even_def)



lemma build_deposit_tables_fails: "(\<exists>e. build_deposit_tables j = Inl e) \<longleftrightarrow> \<not> rock_ok j"
  by (cases j) (simp_all add: build_tables_loop_fails)

text \<open>C17: building \<^verbatim>\<open>DEPOSIT_TABLES\<close> raises exactly when the dataset is not an
  object, or one of its STANTON and PYRO entries has a deposit that is not an object, whose
  \<^verbatim>\<open>ores\<close> is not an object, or an ore whose data is not an object or has a
  percentage field that is not a number or a boolean, or is an integer whose hundredfold
  is beyond the range of a float.\<close>

theorem DEPOSIT_TABLES_fails_iff:
  "(\<exists>e. DEPOSIT_TABLES j = Inl e) \<longleftrightarrow>
   \<not> (case j of
        JObj rd \<Rightarrow> rock_ok (dict_get_default rd ''STANTON'' (JObj [])) \<and> rock_ok (dict_get_default rd ''PYRO'' (JObj []))
      | _ \<Rightarrow> False)"
proof (cases j)
  case (JObj rd)
  show ?thesis
    using build_deposit_tables_fails [of "dict_get_default rd ''STANTON'' (JObj [])"]
      build_deposit_tables_fails [of "dict_get_default rd ''PYRO'' (JObj [])"] JObj
    by (auto simp: DEPOSIT_TABLES_def sum_Inr_iff_not_Inl split: sum.splits simp del: dict_get_default_def)
qed (simp_all add: DEPOSIT_TABLES_def)

text \<open>C18: the table of a deposit name in the result is the table built from the last
  deposit of the dataset whose uppercased name it is: deposit names that differ only in
  case overwrite each other.\<close>

theorem build_deposit_tables_last_wins:
  "build_deposit_tables (JObj rd) = Inr res \<Longrightarrow>
   dict_get res k = map_option (\<lambda>(n, d). projr (build_table d)) (find (\<lambda>(n, d). py_upper n = k) (rev rd))"
  by (auto dest: build_tables_loop_get [where k = k] split: option.splits)


lemmas tables_eval = ore_value_info_def ORE_VALUE_MAP_eq table_sort_def tier_rank_def tier_order_def
  ore_pct_def fmt_0f_def round_half_even_def py_simps nat_digits.simps FLOAT_OVERFLOW_def

section \<open>Witnesses\<close>

theorem build_table_sorted_stable_witness:
  "\<exists>tab. build_table (JObj [(''ores'', JObj [(''iron'', JObj [(''prob'', JNum (1/2))]), (''gold'', JObj []),
           (''Quantanium'', JObj [(''prob'', JNum 1), (''medPct'', JNum (17/40))])])]) = Inr tab \<and>
         map or_name tab = [''Quantanium'', ''Gold'', ''Iron''] \<and> map or_med tab = [''42%'', ''0%'', ''0%''] \<and>
         sorted (map tier_rank tab)"
proof -
  obtain tab where b: "build_table (JObj [(''ores'', JObj [(''iron'', JObj [(''prob'', JNum (1/2))]), (''gold'', JObj []),
           (''Quantanium'', JObj [(''prob'', JNum 1), (''medPct'', JNum (17/40))])])]) = Inr tab"
    and m: "map or_name tab = [''Quantanium'', ''Gold'', ''Iron''] \<and> map or_med tab = [''42%'', ''0%'', ''0%'']"
    by (simp add: tables_eval)
  have o: "dict_get_default [(''ores'', JObj [(''iron'', JObj [(''prob'', JNum (1/2))]), (''gold'', JObj []),
           (''Quantanium'', JObj [(''prob'', JNum 1), (''medPct'', JNum (17/40))])])] ''ores'' (JObj []) =
           JObj [(''iron'', JObj [(''prob'', JNum (1/2))]), (''gold'', JObj []),
           (''Quantanium'', JObj [(''prob'', JNum 1), (''medPct'', JNum (17/40))])]"
    by (simp add: py_simps)
  have s: "sorted (map tier_rank tab)" using build_table_sorted_stable [OF b o] by (rule conjunct1)
  show ?thesis by (rule exI [where x = tab]) (simp only: b m s simp_thms)
qed

theorem build_deposit_tables_last_wins_witness:
  "\<exists>res. build_deposit_tables (JObj [(''Gems'', JObj []), (''GEMS'', JObj [(''ores'', JObj [(''gold'', JObj [])])])]) = Inr res \<and>
         dict_keys res = [''GEMS''] \<and>
         dict_get res ''GEMS'' = Some (projr (build_table (JObj [(''ores'', JObj [(''gold'', JObj [])])])))"
proof -
  obtain res where b: "build_deposit_tables (JObj [(''Gems'', JObj []), (''GEMS'', JObj [(''ores'', JObj [(''gold'', JObj [])])])]) = Inr res"
    and k: "dict_keys res = [''GEMS'']"
    by (simp add: tables_eval)
  have "dict_get res ''GEMS'' = Some (projr (build_table (JObj [(''ores'', JObj [(''gold'', JObj [])])])))"
    using build_deposit_tables_last_wins [OF b, of "''GEMS''"] by (simp add: py_simps)
  then show ?thesis using b k by blast
qed


end
