(* ===== verification/Config.thy ===== *)
theory Config
  imports State Tables
begin

text \<open>
  Configuration persistence of \<^verbatim>\<open>src/scan_deposits.py\<close>: \<^verbatim>\<open>load_config\<close> and
  \<^verbatim>\<open>save_config\<close> (lines 96--117) on \<^verbatim>\<open>CONFIG_FILE\<close>. The globals they touch,
  \<^verbatim>\<open>CAP_REGION\<close> and \<^verbatim>\<open>label_color\<close>, hold whatever \<^verbatim>\<open>json.load\<close> returned, so
  here they are \<open>json\<close> values. The file is what \<^verbatim>\<open>json.dump\<close> wrote or what reading it
  gives: missing, unreadable (\<^verbatim>\<open>OSError\<close>), not decodable as text
  (\<^verbatim>\<open>UnicodeDecodeError\<close>), not JSON (\<^verbatim>\<open>JSONDecodeError\<close>), or a JSON value;
  \<^verbatim>\<open>json.load\<close> after \<^verbatim>\<open>json.dump\<close> gives the value back. Writing fails with
  \<^verbatim>\<open>OSError\<close> when the file is not writable. An exception that \<^verbatim>\<open>load_config\<close>
  does not catch is a value \<open>Inl\<close> of \<open>cfg_error\<close>.
\<close>

datatype cfg_file =
    NoFile               \<comment> \<open>\<^verbatim>\<open>os.path.exists(CONFIG_FILE)\<close> is false\<close>
  | Unreadable           \<comment> \<open>\<^verbatim>\<open>open\<close> raises \<^verbatim>\<open>OSError\<close>\<close>
  | Undecodable          \<comment> \<open>reading raises \<^verbatim>\<open>UnicodeDecodeError\<close>\<close>
  | BadJson              \<comment> \<open>\<^verbatim>\<open>json.load\<close> raises \<^verbatim>\<open>JSONDecodeError\<close>\<close>
  | FileJson json

record cfg_fs =
  fs_file :: cfg_file
  fs_writable :: bool

record cfg =
  cfg_region :: json     \<comment> \<open>\<^verbatim>\<open>CAP_REGION\<close>\<close>
  cfg_color :: json      \<comment> \<open>\<^verbatim>\<open>label_color\<close>\<close>

datatype cfg_error = CfgOSError | CfgUnicodeDecodeError | CfgAttributeError

definition region_json :: "region \<Rightarrow> json" where
  \<comment> \<open>a \<^verbatim>\<open>CAP_REGION\<close> dictionary of four integers\<close>
  "region_json r =
     JObj [(''left'', JInt (rg_left r)), (''top'', JInt (rg_top r)),
           (''width'', JInt (rg_width r)), (''height'', JInt (rg_height r))]"

definition cfg_of_gui :: "gui \<Rightarrow> cfg" where
  "cfg_of_gui s = \<lparr>cfg_region = region_json (cap_region s), cfg_color = JStr (label_color s)\<rparr>"

definition save_config :: "cfg \<Rightarrow> cfg_fs \<Rightarrow> cfg_error + cfg_fs" where
  "save_config c fs =
     (if fs_writable fs
      then Inr (fs\<lparr>fs_file := FileJson (JObj [(''CAP_REGION'', cfg_region c), (''label_color'', cfg_color c)])\<rparr>)
      else Inl CfgOSError)"

definition load_config :: "cfg \<Rightarrow> cfg_fs \<Rightarrow> cfg_error + cfg \<times> cfg_fs" where
  "load_config c fs =
     (let reset = (case save_config c fs of Inl e \<Rightarrow> Inl e | Inr fs' \<Rightarrow> Inr (c, fs'))
      in case fs_file fs of
           NoFile \<Rightarrow> reset
         | Unreadable \<Rightarrow> reset
         | BadJson \<Rightarrow> reset
         | Undecodable \<Rightarrow> Inl CfgUnicodeDecodeError
         | FileJson (JObj d) \<Rightarrow>
             Inr (\<lparr>cfg_region = dict_get_default d ''CAP_REGION'' (cfg_region c),
                   cfg_color = dict_get_default d ''label_color'' (cfg_color c)\<rparr>, fs)
         | FileJson _ \<Rightarrow> Inl CfgAttributeError)"

section \<open>Properties\<close>

lemma save_config_Inr: "save_config c fs = Inr fs' \<longleftrightarrow>
   fs_writable fs \<and> fs' = fs\<lparr>fs_file := FileJson (JObj [(''CAP_REGION'', cfg_region c), (''label_color'', cfg_color c)])\<rparr>"
  by (auto simp: save_config_def)

lemma load_config_stored:
  "fs_file fs = FileJson (JObj [(''CAP_REGION'', r), (''label_color'', col)]) \<Longrightarrow>
   load_config c fs = Inr (\<lparr>cfg_region = r, cfg_color = col\<rparr>, fs)"
  by (simp add: load_config_def dict_get_default_def)

text \<open>C21: settings saved by \<^verbatim>\<open>save_config\<close> are what the next \<^verbatim>\<open>load_config\<close>
  restores, whatever the globals held before, and loading leaves the file as it is.\<close>

theorem save_load_roundtrip: "save_config c fs = Inr fs' \<Longrightarrow> load_config c' fs' = Inr (c, fs')"
  by (auto simp: save_config_Inr load_config_def dict_get_default_def)


text \<open>C23: a missing, unreadable or non-JSON configuration file keeps the current
  settings and is replaced by a file holding them.\<close>

theorem load_config_recovers:
  assumes "fs_file fs \<in> {NoFile, Unreadable, BadJson}" and "fs_writable fs"
  shows "load_config c fs =
    Inr (c, fs\<lparr>fs_file := FileJson (JObj [(''CAP_REGION'', cfg_region c), (''label_color'', cfg_color c)])\<rparr>)"
  using assms by (auto simp: load_config_def save_config_def)

section \<open>Witnesses\<close>

theorem save_load_roundtrip_witness:
  "load_config \<lparr>cfg_region = JNull, cfg_color = JNull\<rparr>
     \<lparr>fs_file = FileJson (JObj [(''CAP_REGION'', region_json (cap_region init_gui)), (''label_color'', JStr ''yellow'')]),
      fs_writable = True\<rparr> =
   Inr (cfg_of_gui init_gui,
        \<lparr>fs_file = FileJson (JObj [(''CAP_REGION'', region_json (cap_region init_gui)), (''label_color'', JStr ''yellow'')]),
         fs_writable = True\<rparr>)"
proof -
  have "save_config (cfg_of_gui init_gui) \<lparr>fs_file = NoFile, fs_writable = True\<rparr> =
        Inr \<lparr>fs_file = FileJson (JObj [(''CAP_REGION'', region_json (cap_region init_gui)), (''label_color'', JStr ''yellow'')]),
             fs_writable = True\<rparr>"
    by (simp add: save_config_def cfg_of_gui_def init_gui_def)
  then show ?thesis by (rule save_load_roundtrip)
qed


theorem load_config_recovers_witness:
  "load_config (cfg_of_gui init_gui) \<lparr>fs_file = BadJson, fs_writable = True\<rparr> =
   Inr (cfg_of_gui init_gui,
        \<lparr>fs_file = FileJson (JObj [(''CAP_REGION'', region_json (cap_region init_gui)), (''label_color'', JStr ''yellow'')]),
         fs_writable = True\<rparr>)"
  using load_config_recovers [of "\<lparr>fs_file = BadJson, fs_writable = True\<rparr>" "cfg_of_gui init_gui"]
  by (simp add: cfg_of_gui_def init_gui_def)

end
