(* ===== verification/Installer.thy ===== *)
theory Installer
  imports Config "HOL-Library.Sublist"
begin

text \<open>
  The installer checks of \<^verbatim>\<open>src/scan_deposits.py\<close>, \<^verbatim>\<open>ensure_ollama_installed\<close> and
  \<^verbatim>\<open>ensure_model_installed\<close> (lines 23--72), and the start of the program: the
  import-time build of \<^verbatim>\<open>DEPOSIT_TABLES\<close> (lines 128--193) and the main block
  (lines 494--503) up to \<^verbatim>\<open>load_config\<close>. What the outside world answers (whether
  \<^verbatim>\<open>ollama\<close> is on the path, whether a window and standard input are available, what
  the \<^verbatim>\<open>ollama\<close> commands print or whether they fail) is a record \<open>inst_env\<close>. A
  run returns the external actions it performed, in order, and either the value \<open>Inr ()\<close>
  or how the process stops: \<^verbatim>\<open>sys.exit(0)\<close>, \<^verbatim>\<open>sys.exit(msg)\<close>, or an exception no
  handler catches. Printed messages are not recorded.
\<close>

section \<open>Python's substring test\<close>

fun py_contains :: "string \<Rightarrow> string \<Rightarrow> bool" where
  \<comment> \<open>\<^verbatim>\<open>pat in s\<close> on strings\<close>
  "py_contains pat [] = (pat = [])"
| "py_contains pat (c # cs) = (take (length pat) (c # cs) = pat \<or> py_contains pat cs)"

section \<open>The installer checks\<close>

record inst_env =
  ie_which :: bool                 \<comment> \<open>\<^verbatim>\<open>shutil.which("ollama")\<close> finds it\<close>
  ie_display :: bool               \<comment> \<open>\<^verbatim>\<open>messagebox.showinfo\<close> can open its window\<close>
  ie_stdin :: bool                 \<comment> \<open>\<^verbatim>\<open>input()\<close> reads a line rather than raising \<^verbatim>\<open>EOFError\<close>\<close>
  ie_version :: "string option"    \<comment> \<open>output of \<^verbatim>\<open>ollama --version\<close>; \<open>None\<close> when it raises\<close>
  ie_list :: "string option"       \<comment> \<open>stdout of \<^verbatim>\<open>ollama list\<close>; \<open>None\<close> when \<^verbatim>\<open>subprocess.run\<close> raises\<close>
  ie_pull :: bool                  \<comment> \<open>\<^verbatim>\<open>ollama pull\<close> exits with status 0\<close>

datatype inst_action =
    ShowInfo                       \<comment> \<open>the \<^verbatim>\<open>"Ollama Required"\<close> message box\<close>
  | OpenBrowser                    \<comment> \<open>\<^verbatim>\<open>webbrowser.open("https://ollama.com/")\<close>; its errors are caught\<close>
  | ReadLine                       \<comment> \<open>\<^verbatim>\<open>input(...)\<close>\<close>
  | Run "string list"              \<comment> \<open>a \<^verbatim>\<open>subprocess\<close> command\<close>

datatype inst_exit =
    SysExit0                       \<comment> \<open>\<^verbatim>\<open>sys.exit(0)\<close>\<close>
  | SysExitMsg string              \<comment> \<open>\<^verbatim>\<open>sys.exit(msg)\<close>: status 1 and the message\<close>
  | Uncaught string                \<comment> \<open>an exception no handler catches\<close>

definition ensure_ollama_installed :: "inst_env \<Rightarrow> inst_action list \<times> (inst_exit + unit)" where
  "ensure_ollama_installed env =
     (if \<not> ie_which env then
        (if \<not> ie_display env then ([ShowInfo], Inl (Uncaught ''TclError''))
         else if \<not> ie_stdin env then ([ShowInfo, OpenBrowser, ReadLine], Inl (Uncaught ''EOFError''))
         else ([ShowInfo, OpenBrowser, ReadLine], Inl SysExit0))
      else
        (case ie_version env of
           None \<Rightarrow> ([Run [''ollama'', ''--version'']], Inl (SysExitMsg ''Please install Ollama and rerun this program.''))
         | Some v \<Rightarrow> ([Run [''ollama'', ''--version'']], Inr ())))"

definition ensure_model_installed :: "string \<Rightarrow> inst_env \<Rightarrow> inst_action list \<times> (inst_exit + unit)" where
  "ensure_model_installed model env =
     (case ie_list env of
        None \<Rightarrow> ([Run [''ollama'', ''list'']], Inl (SysExitMsg ''Failed to ensure Ollama model.''))
      | Some out \<Rightarrow>
          if \<not> py_contains model out then
            ([Run [''ollama'', ''list''], Run [''ollama'', ''pull'', model]],
             if ie_pull env then Inr () else Inl (SysExitMsg ''Failed to ensure Ollama model.''))
          else ([Run [''ollama'', ''list'']], Inr ()))"

section \<open>Start of the program\<close>

datatype startup_error =
    TablesError build_error        \<comment> \<open>building \<^verbatim>\<open>DEPOSIT_TABLES\<close> at import time raised\<close>
  | InstallExit inst_exit          \<comment> \<open>an installer check stopped the process\<close>
  | ConfigError cfg_error          \<comment> \<open>\<^verbatim>\<open>load_config\<close> raised\<close>

definition startup :: "json \<Rightarrow> inst_env \<Rightarrow> cfg_fs \<Rightarrow>
    inst_action list \<times> (startup_error + cfg \<times> cfg_fs)" where
  \<comment> \<open>module import, then \<^verbatim>\<open>ensure_ollama_installed()\<close>,
      \<^verbatim>\<open>ensure_model_installed("qwen2.5vl:3b")\<close> and \<^verbatim>\<open>load_config()\<close>\<close>
  "startup rock env fs =
     (case DEPOSIT_TABLES rock of
        Inl e \<Rightarrow> ([], Inl (TablesError e))
      | Inr tables \<Rightarrow>
          (case ensure_ollama_installed env of
             (a1, Inl x) \<Rightarrow> (a1, Inl (InstallExit x))
           | (a1, Inr u) \<Rightarrow>
               (case ensure_model_installed ''qwen2.5vl:3b'' env of
                  (a2, Inl x) \<Rightarrow> (a1 @ a2, Inl (InstallExit x))
                | (a2, Inr u') \<Rightarrow>
                    (a1 @ a2, (case load_config (cfg_of_gui init_gui) fs of
                                 Inl e \<Rightarrow> Inl (ConfigError e)
                               | Inr r \<Rightarrow> Inr r)))))"

section \<open>Properties\<close>

lemma py_contains_sublist_aux: "py_contains p s \<longleftrightarrow> sublist p s"
proof (induction s)
  case (Cons c cs)
  have "take (length p) (c # cs) = p \<longleftrightarrow> prefix p (c # cs)"
    by (metis prefix_def append_take_drop_id prefix_length_le take_all_iff take_is_prefix append_eq_conv_conj)
  then show ?case using Cons.IH by (simp only: py_contains.simps sublist_Cons_right)
qed simp

text \<open>C25: once \<^verbatim>\<open>ollama list\<close> has run, \<^verbatim>\<open>ensure_model_installed\<close> runs
  \<^verbatim>\<open>ollama pull\<close> for the model exactly when the model's name does not occur anywhere
  in the listing.\<close>

theorem ensure_model_pulls_iff:
  assumes "ie_list env = Some out"
  shows "Run [''ollama'', ''pull'', model] \<in> set (fst (ensure_model_installed model env)) \<longleftrightarrow> \<not> sublist model out"
  using assms by (simp add: ensure_model_installed_def py_contains_sublist_aux)

text \<open>Because the test is a substring test, a listing that holds only another tag of
  the model, such as \<^verbatim>\<open>qwen2.5vl:3b-q8_0\<close>, counts as the model being installed:
  nothing is pulled and start-up goes on.\<close>

lemma model_variant_counts_as_installed:
  "ensure_model_installed ''qwen2.5vl:3b''
     \<lparr>ie_which = True, ie_display = True, ie_stdin = True, ie_version = Some ''ollama version 0.6.2'',
      ie_list = Some ''NAME ID SIZE qwen2.5vl:3b-q8_0 5ced39dfa4ba 4.4GB'', ie_pull = True\<rparr> =
   ([Run [''ollama'', ''list'']], Inr ())"
  by (simp add: ensure_model_installed_def)

text \<open>C26: start-up reaches the GUI exactly when the deposit tables build, \<^verbatim>\<open>ollama\<close>
  is found and answers \<^verbatim>\<open>--version\<close>, \<^verbatim>\<open>ollama list\<close> runs and either lists the
  model or the pull succeeds, and \<^verbatim>\<open>load_config\<close> does not raise.\<close>

theorem startup_ok_iff:
  "(\<exists>r. snd (startup rock env fs) = Inr r) \<longleftrightarrow>
   (\<exists>t. DEPOSIT_TABLES rock = Inr t) \<and> ie_which env \<and> ie_version env \<noteq> None \<and>
   (\<exists>out. ie_list env = Some out \<and> (sublist ''qwen2.5vl:3b'' out \<or> ie_pull env)) \<and>
   (\<exists>r. load_config (cfg_of_gui init_gui) fs = Inr r)"
  by (auto simp: startup_def ensure_ollama_installed_def ensure_model_installed_def py_contains_sublist_aux
      split: sum.splits option.splits if_splits)

lemma startup_Inr: "snd (startup rock env fs) = Inr r \<Longrightarrow> load_config (cfg_of_gui init_gui) fs = Inr r"
  by (auto simp: startup_def split: sum.splits prod.splits)

section \<open>Witnesses\<close>

theorem ensure_model_pulls_iff_witness:
  "Run [''ollama'', ''pull'', ''qwen2.5vl:3b''] \<in>
     set (fst (ensure_model_installed ''qwen2.5vl:3b''
       \<lparr>ie_which = True, ie_display = True, ie_stdin = True, ie_version = Some ''0.6.2'',
        ie_list = Some ''NAME ID SIZE llava:7b 8dd30f6b0cb1 4.7GB'', ie_pull = True\<rparr>))"
proof -
  have "\<not> sublist ''qwen2.5vl:3b'' ''NAME ID SIZE llava:7b 8dd30f6b0cb1 4.7GB''"
    by (simp add: sublist_code)
  then show ?thesis
    using ensure_model_pulls_iff [of "\<lparr>ie_which = True, ie_display = True, ie_stdin = True,
        ie_version = Some ''0.6.2'', ie_list = Some ''NAME ID SIZE llava:7b 8dd30f6b0cb1 4.7GB'', ie_pull = True\<rparr>"
        "''NAME ID SIZE llava:7b 8dd30f6b0cb1 4.7GB''" "''qwen2.5vl:3b''"]
    by simp
qed

end
