(* ===== verification/Session.thy ===== *)
theory Session
  imports Continuous Installer
begin

text \<open>
  A session of \<^verbatim>\<open>src/scan_deposits.py\<close> after start-up: the threads of the
  \<open>Continuous\<close> theory on the shared state, together with the configuration file and
  whether the Tk main window still runs its \<^verbatim>\<open>mainloop\<close>. The control window of
  \<^verbatim>\<open>launch_gui\<close> (lines 364--424) adds two callbacks that touch the file: the
  \<^verbatim>\<open>Save Config\<close> button and \<^verbatim>\<open>on_close\<close> (lines 372--380), which saves the
  configuration and then destroys the windows. An exception in a Tk callback is reported
  by the toolkit and leaves the state as it was. Once \<^verbatim>\<open>root.destroy()\<close> ends the
  main loop, the main thread returns and the daemon threads end with the process, so a
  closed session takes no more steps.
\<close>

record session =
  ss_sys :: sys
  ss_fs :: cfg_fs
  ss_open :: bool

definition save_button :: "session \<Rightarrow> session" where
  \<comment> \<open>\<^verbatim>\<open>tk.Button(..., text="Save Config", command=save_config)\<close>\<close>
  "save_button ss =
     (case save_config (cfg_of_gui (sg (ss_sys ss))) (ss_fs ss) of
        Inl e \<Rightarrow> ss
      | Inr fs' \<Rightarrow> ss\<lparr>ss_fs := fs'\<rparr>)"

definition on_close :: "session \<Rightarrow> session" where
  \<comment> \<open>\<^verbatim>\<open>save_config()\<close> first; the overlay's \<^verbatim>\<open>destroy\<close> is guarded by a bare
      \<^verbatim>\<open>except\<close>; \<^verbatim>\<open>root.destroy()\<close> ends the main loop\<close>
  "on_close ss =
     (case save_config (cfg_of_gui (sg (ss_sys ss))) (ss_fs ss) of
        Inl e \<Rightarrow> ss
      | Inr fs' \<Rightarrow> ss\<lparr>ss_fs := fs', ss_open := False\<rparr>)"

inductive sess_step :: "bool \<Rightarrow> session \<Rightarrow> session \<Rightarrow> bool" where
  threads: "ss_open ss \<Longrightarrow> cs_step raises (ss_sys ss) t \<Longrightarrow> sess_step raises ss (ss\<lparr>ss_sys := t\<rparr>)"
| save: "ss_open ss \<Longrightarrow> sess_step raises ss (save_button ss)"
| close: "ss_open ss \<Longrightarrow> sess_step raises ss (on_close ss)"

section \<open>Properties\<close>

lemma save_config_fs_writable: "save_config c fs = Inr fs' \<Longrightarrow> fs_writable fs' = fs_writable fs"
  by (auto simp: save_config_def split: if_splits)

lemma sess_step_unwritable:
  "sess_step raises ss t \<Longrightarrow> \<not> fs_writable (ss_fs ss) \<Longrightarrow> ss_open t \<and> ss_fs t = ss_fs ss"
  by (induction rule: sess_step.induct) (auto simp: save_button_def on_close_def save_config_def)

text \<open>C27: when the configuration file cannot be written, \<^verbatim>\<open>on_close\<close> raises in
  \<^verbatim>\<open>save_config\<close> before \<^verbatim>\<open>root.destroy()\<close>: whatever the threads, buttons and
  hotkeys do, the main window never closes and the file is never changed.\<close>

theorem unwritable_config_never_closes:
  "(sess_step raises)\<^sup>*\<^sup>* ss t \<Longrightarrow> ss_open ss \<Longrightarrow> \<not> fs_writable (ss_fs ss) \<Longrightarrow>
   ss_open t \<and> ss_fs t = ss_fs ss"
  by (induction rule: rtranclp_induct) (auto dest: sess_step_unwritable)

lemma on_close_saves:
  "ss_open ss \<Longrightarrow> \<not> ss_open (on_close ss) \<Longrightarrow>
   ss_fs (on_close ss) = (ss_fs ss)\<lparr>fs_file := FileJson (JObj [(''CAP_REGION'', region_json (cap_region (sg (ss_sys ss)))),
                                                                (''label_color'', JStr (label_color (sg (ss_sys ss))))])\<rparr>"
  by (auto simp: on_close_def save_config_def cfg_of_gui_def split: if_splits)

text \<open>C28: closing the window writes the session's region and label colour, and the
  next start-up that reaches the GUI loads exactly those settings and leaves the file as
  it is.\<close>

theorem close_then_startup_restores:
  assumes "ss_open ss" and "\<not> ss_open (on_close ss)"
    and "snd (startup rock env (ss_fs (on_close ss))) = Inr (c, fs)"
  shows "c = cfg_of_gui (sg (ss_sys ss)) \<and> fs = ss_fs (on_close ss)"
proof -
  have "load_config (cfg_of_gui init_gui) (ss_fs (on_close ss)) = Inr (c, fs)"
    using assms(3) by (rule startup_Inr)
  moreover have "load_config (cfg_of_gui init_gui) (ss_fs (on_close ss)) =
      Inr (cfg_of_gui (sg (ss_sys ss)), ss_fs (on_close ss))"
    using on_close_saves [OF assms(1,2)] by (simp add: load_config_stored cfg_of_gui_def)
  ultimately show ?thesis by simp
qed

section \<open>Witnesses\<close>

theorem close_then_startup_restores_witness:
  "snd (startup (JObj [])
     \<lparr>ie_which = True, ie_display = True, ie_stdin = True, ie_version = Some ''0.6.2'',
      ie_list = Some ''qwen2.5vl:3b 5ced39dfa4ba 3.2GB'', ie_pull = True\<rparr>
     (ss_fs (on_close \<lparr>ss_sys = sys_init 1, ss_fs = \<lparr>fs_file = BadJson, fs_writable = True\<rparr>, ss_open = True\<rparr>))) =
   Inr (cfg_of_gui init_gui,
        ss_fs (on_close \<lparr>ss_sys = sys_init 1, ss_fs = \<lparr>fs_file = BadJson, fs_writable = True\<rparr>, ss_open = True\<rparr>))"
proof -
  let ?ss = "\<lparr>ss_sys = sys_init 1, ss_fs = \<lparr>fs_file = BadJson, fs_writable = True\<rparr>, ss_open = True\<rparr>"
  have o: "ss_open ?ss" by simp
  have c: "\<not> ss_open (on_close ?ss)" by (simp add: on_close_def save_config_def)
  obtain r where r: "snd (startup (JObj [])
     \<lparr>ie_which = True, ie_display = True, ie_stdin = True, ie_version = Some ''0.6.2'',
      ie_list = Some ''qwen2.5vl:3b 5ced39dfa4ba 3.2GB'', ie_pull = True\<rparr> (ss_fs (on_close ?ss))) = Inr r"
    by (simp add: startup_def DEPOSIT_TABLES_def ensure_ollama_installed_def ensure_model_installed_def
        on_close_def save_config_def load_config_def dict_get_default_def)
  obtain c' fs' where "r = (c', fs')" by fastforce
  with close_then_startup_restores [OF o c] r show ?thesis by (simp add: sys_init_def)
qed

theorem unwritable_config_never_closes_witness:
  "(sess_step False)\<^sup>*\<^sup>* \<lparr>ss_sys = sys_init 1, ss_fs = \<lparr>fs_file = NoFile, fs_writable = False\<rparr>, ss_open = True\<rparr>
     (on_close \<lparr>ss_sys = sys_init 1, ss_fs = \<lparr>fs_file = NoFile, fs_writable = False\<rparr>, ss_open = True\<rparr>) \<and>
   ss_open (on_close \<lparr>ss_sys = sys_init 1, ss_fs = \<lparr>fs_file = NoFile, fs_writable = False\<rparr>, ss_open = True\<rparr>)"
proof -
  let ?ss = "\<lparr>ss_sys = sys_init 1, ss_fs = \<lparr>fs_file = NoFile, fs_writable = False\<rparr>, ss_open = True\<rparr>"
  have s: "(sess_step False)\<^sup>*\<^sup>* ?ss (on_close ?ss)" by (rule r_into_rtranclp, rule sess_step.close) simp
  moreover have "ss_open ?ss" "\<not> fs_writable (ss_fs ?ss)" by simp_all
  ultimately show ?thesis using unwritable_config_never_closes by blast
qed
end
