(* ===== verification/Interleave.thy ===== *)
theory Interleave
  imports Continuous
begin

text \<open>
  The scan of \<^verbatim>\<open>capture_once\<close> (lines 427--446 of \<^verbatim>\<open>src/scan_deposits.py\<close>) and
  the label code it calls, \<^verbatim>\<open>update_overlay_label\<close> (lines 279--286), statement by
  statement, interleaved with the two Tk callbacks that touch the label:
  \<^verbatim>\<open>choose_label_color\<close> (lines 301--307) and the timer \<^verbatim>\<open>start_label_timeout\<close>
  (lines 289--296). Scans run on the Tk thread, the hotkey thread and the continuous
  loops; nothing locks the shared globals. Each scan in flight is at a program point
  \<open>scan_pc\<close>:
  \<^item> \<open>AtLabel info\<close>: \<^verbatim>\<open>last_result\<close> is written (line 443); next is the test
    \<^verbatim>\<open>if info\<close> and the assignment to \<^verbatim>\<open>overlay_text\<close> (lines 281--282);
  \<^item> \<open>AtTime\<close>: next is \<^verbatim>\<open>last_overlay_time = time.time()\<close> (line 283);
  \<^item> \<open>AtDraw\<close>: next is the test of line 284 and the evaluation of the arguments
    \<^verbatim>\<open>text=overlay_text, fill=label_color\<close>, which read the globals at that moment;
  \<^item> \<open>AtCall txt col\<close>: the arguments are evaluated; next is the Tk call
    \<^verbatim>\<open>itemconfig\<close>, which Tk runs on its own thread when it gets to it.
  The timer is between its \<^verbatim>\<open>itemconfig(text="")\<close> (line 293) and
  \<^verbatim>\<open>last_overlay_time = 0\<close> (line 294) when \<open>il_timer\<close> is set. The colour callback
  is one step. Every step is a piece of code that can run without another thread
  running in between, so each trace of \<open>il_step\<close> is a possible run of the program.
  The theorems below say that certain states are reachable, and such a statement stays
  true when the interleaving is made finer still.
\<close>

datatype scan_pc =
    AtLabel "deposit_info option"
  | AtTime
  | AtDraw
  | AtCall string string

record ilsys =
  il_gui :: gui
  il_pending :: "scan_pc multiset"
  il_timer :: bool
  il_clock :: real

inductive il_step :: "ilsys \<Rightarrow> ilsys \<Rightarrow> bool" where
  scan_write: "il_step s (s\<lparr>il_gui := (il_gui s)\<lparr>last_result := scan_record (ocr_with_ollama reply)\<rparr>,
                       il_pending := add_mset (AtLabel (sr_info (scan_record (ocr_with_ollama reply)))) (il_pending s)\<rparr>)"
| scan_skip: "AtLabel None \<in># il_pending s \<Longrightarrow> il_step s (s\<lparr>il_pending := il_pending s - {#AtLabel None#}\<rparr>)"
| scan_text: "AtLabel (Some d) \<in># il_pending s \<Longrightarrow>
    il_step s (s\<lparr>il_gui := (il_gui s)\<lparr>overlay_text := label_of d\<rparr>,
                 il_pending := add_mset AtTime (il_pending s - {#AtLabel (Some d)#})\<rparr>)"
| scan_time: "AtTime \<in># il_pending s \<Longrightarrow>
    il_step s (s\<lparr>il_gui := (il_gui s)\<lparr>last_overlay_time := il_clock s\<rparr>,
                 il_pending := add_mset AtDraw (il_pending s - {#AtTime#})\<rparr>)"
| scan_read: "AtDraw \<in># il_pending s \<Longrightarrow>
    il_step s (s\<lparr>il_pending := (if overlay (il_gui s) = None then {#} else
                   {#AtCall (overlay_text (il_gui s)) (label_color (il_gui s))#}) + (il_pending s - {#AtDraw#})\<rparr>)"
| scan_call: "AtCall txt col \<in># il_pending s \<Longrightarrow>
    il_step s (s\<lparr>il_gui := (il_gui s)\<lparr>overlay := map_option (\<lambda>w. w\<lparr>ow_text := txt, ow_fill := col\<rparr>) (overlay (il_gui s))\<rparr>,
                 il_pending := il_pending s - {#AtCall txt col#}\<rparr>)"
| color: "il_step s (s\<lparr>il_gui := choose_label_color c (il_gui s)\<rparr>)"
| timer_clear: "\<not> il_timer s \<Longrightarrow> overlay (il_gui s) \<noteq> None \<Longrightarrow> last_overlay_time (il_gui s) \<noteq> 0 \<Longrightarrow>
    il_clock s - last_overlay_time (il_gui s) > 10 \<Longrightarrow>
    il_step s (s\<lparr>il_gui := (il_gui s)\<lparr>overlay := map_option (\<lambda>w. w\<lparr>ow_text := []\<rparr>) (overlay (il_gui s))\<rparr>,
                 il_timer := True\<rparr>)"
| timer_reset: "il_timer s \<Longrightarrow> il_step s (s\<lparr>il_gui := (il_gui s)\<lparr>last_overlay_time := 0\<rparr>, il_timer := False\<rparr>)"
| clock_tick: "il_clock s < t \<Longrightarrow> il_step s (s\<lparr>il_clock := t\<rparr>)"

section \<open>Properties\<close>

lemma il_label_run:
  assumes "AtLabel info \<in># il_pending s"
  shows "il_step\<^sup>*\<^sup>* s (s\<lparr>il_gui := update_overlay_label info (il_clock s) (il_gui s),
                        il_pending := il_pending s - {#AtLabel info#}\<rparr>)"
proof (cases info)
  case None
  then show ?thesis using il_step.scan_skip [of s] assms by (simp add: update_overlay_label_def)
next
  case (Some d)
  let ?g1 = "(il_gui s)\<lparr>overlay_text := label_of d\<rparr>"
  let ?P = "il_pending s - {#AtLabel (Some d)#}"
  let ?s1 = "s\<lparr>il_gui := ?g1, il_pending := add_mset AtTime ?P\<rparr>"
  let ?s2 = "?s1\<lparr>il_gui := ?g1\<lparr>last_overlay_time := il_clock s\<rparr>, il_pending := add_mset AtDraw ?P\<rparr>"
  let ?rd = "if overlay (il_gui s) = None then {#} else {#AtCall (label_of d) (label_color (il_gui s))#}"
  let ?s3 = "?s2\<lparr>il_pending := ?rd + ?P\<rparr>"
  have 1: "il_step s ?s1" using assms Some by (intro il_step.scan_text) simp
  have 2: "il_step ?s1 ?s2" using il_step.scan_time [of ?s1] by simp
  have 3: "il_step ?s2 ?s3" using il_step.scan_read [of ?s2] by (simp cong: if_cong)
  have r3: "il_step\<^sup>*\<^sup>* s ?s3" using 1 2 3 by (meson converse_rtranclp_into_rtranclp r_into_rtranclp)
  show ?thesis
  proof (cases "overlay (il_gui s)")
    case None
    then have "update_overlay_label (Some d) (il_clock s) (il_gui s) =
               (il_gui s)\<lparr>overlay_text := label_of d, last_overlay_time := il_clock s\<rparr>"
      by (cases "il_gui s") (simp add: update_overlay_label_def)
    with r3 None Some show ?thesis by simp
  next
    case (Some w)
    let ?s4 = "?s3\<lparr>il_gui := (il_gui ?s3)\<lparr>overlay := map_option (\<lambda>w. w\<lparr>ow_text := label_of d, ow_fill := label_color (il_gui s)\<rparr>)
                 (overlay (il_gui ?s3))\<rparr>, il_pending := il_pending ?s3 - {#AtCall (label_of d) (label_color (il_gui s))#}\<rparr>"
    have 4: "il_step ?s3 ?s4" using Some il_step.scan_call [of "label_of d" "label_color (il_gui s)" ?s3] by simp
    have "il_step\<^sup>*\<^sup>* s ?s4" using r3 4 by (rule rtranclp.rtrancl_into_rtrancl)
    with Some \<open>info = Some d\<close> show ?thesis by (simp add: update_overlay_label_def Let_def)
  qed
qed

text \<open>A scan that runs without interruption from its write of \<^verbatim>\<open>last_result\<close> to the
  end of its label update reaches the state \<^verbatim>\<open>capture_once\<close> returns, and leaves the
  other scans in flight as they were.\<close>

lemma il_refines_capture_once:
  assumes "capture_once cap now g = Inr g'"
  shows "il_step\<^sup>*\<^sup>* \<lparr>il_gui = g, il_pending = P, il_timer = b, il_clock = now\<rparr>
                    \<lparr>il_gui = g', il_pending = P, il_timer = b, il_clock = now\<rparr>"
proof -
  obtain reply where g': "g' = update_overlay_label (sr_info (scan_record (ocr_with_ollama reply))) now
                (g\<lparr>last_result := scan_record (ocr_with_ollama reply)\<rparr>)"
    using capture_once_Inr [OF assms] by blast
  let ?i = "sr_info (scan_record (ocr_with_ollama reply))"
  let ?s1 = "\<lparr>il_gui = g\<lparr>last_result := scan_record (ocr_with_ollama reply)\<rparr>, il_pending = add_mset (AtLabel ?i) P,
              il_timer = b, il_clock = now\<rparr>"
  have 1: "il_step \<lparr>il_gui = g, il_pending = P, il_timer = b, il_clock = now\<rparr> ?s1"
    using il_step.scan_write [of "\<lparr>il_gui = g, il_pending = P, il_timer = b, il_clock = now\<rparr>" reply] by simp
  have "il_step\<^sup>*\<^sup>* ?s1 (?s1\<lparr>il_gui := update_overlay_label ?i (il_clock ?s1) (il_gui ?s1),
                        il_pending := il_pending ?s1 - {#AtLabel ?i#}\<rparr>)"
    by (rule il_label_run) simp
  with 1 show ?thesis using g' by (simp add: converse_rtranclp_into_rtranclp)
qed

lemma update_label_overlay: "overlay g \<noteq> None \<Longrightarrow> overlay (update_overlay_label info now g) \<noteq> None"
  by (simp add: update_overlay_label_def Let_def split: option.splits)

text \<open>C29: two scans that overlap break the agreement between \<^verbatim>\<open>last_result\<close>
  and the overlay: when scan A writes \<^verbatim>\<open>last_result\<close>, scan B writes it after, B
  updates the label and A updates it last, the state settles with B's record in
  \<^verbatim>\<open>last_result\<close> (what \<^verbatim>\<open>/status\<close> serves) and A's deposit on the overlay.\<close>

theorem overlapping_scans_disagree:
  assumes "sr_info (scan_record (ocr_with_ollama ra)) = Some dA" and "overlay (il_gui s) \<noteq> None"
  shows "\<exists>t. il_step\<^sup>*\<^sup>* s t \<and> il_pending t = il_pending s \<and>
             last_result (il_gui t) = scan_record (ocr_with_ollama rb) \<and> label_shown (il_gui t) = label_of dA"
proof -
  let ?a = "scan_record (ocr_with_ollama ra)" and ?b = "scan_record (ocr_with_ollama rb)"
  let ?s1 = "s\<lparr>il_gui := (il_gui s)\<lparr>last_result := ?a\<rparr>, il_pending := add_mset (AtLabel (sr_info ?a)) (il_pending s)\<rparr>"
  let ?s2 = "?s1\<lparr>il_gui := (il_gui ?s1)\<lparr>last_result := ?b\<rparr>, il_pending := add_mset (AtLabel (sr_info ?b)) (il_pending ?s1)\<rparr>"
  let ?s3 = "?s2\<lparr>il_gui := update_overlay_label (sr_info ?b) (il_clock ?s2) (il_gui ?s2),
                  il_pending := il_pending ?s2 - {#AtLabel (sr_info ?b)#}\<rparr>"
  let ?s4 = "?s3\<lparr>il_gui := update_overlay_label (sr_info ?a) (il_clock ?s3) (il_gui ?s3),
                  il_pending := il_pending ?s3 - {#AtLabel (sr_info ?a)#}\<rparr>"
  have 1: "il_step s ?s1" by (rule il_step.scan_write)
  have 2: "il_step ?s1 ?s2" by (rule il_step.scan_write)
  have 3: "il_step\<^sup>*\<^sup>* ?s2 ?s3" by (rule il_label_run) simp
  have 4: "il_step\<^sup>*\<^sup>* ?s3 ?s4" by (rule il_label_run) simp
  have r: "il_step\<^sup>*\<^sup>* s ?s4"
    using 1 2 3 4 by (meson converse_rtranclp_into_rtranclp rtranclp_trans)
  have o: "overlay (il_gui ?s3) \<noteq> None" using assms(2) by (simp add: update_label_overlay)
  have "label_shown (il_gui ?s4) = label_of dA"
    using update_label_Some [OF o] assms(1) by simp
  moreover have "last_result (il_gui ?s4) = ?b" by (simp add: update_label_last_result)
  moreover have "il_pending ?s4 = il_pending s" by simp
  ultimately show ?thesis using r by blast
qed

text \<open>C30: a colour chosen while a scan is drawing its label is lost: when the scan has
  evaluated \<^verbatim>\<open>fill=label_color\<close> and \<^verbatim>\<open>choose_label_color\<close> runs before the
  scan's \<^verbatim>\<open>itemconfig\<close>, the label is drawn in the old colour while
  \<^verbatim>\<open>label_color\<close> holds the new one, and it stays so until the next resolved scan.\<close>

theorem stale_color_after_race:
  assumes "sr_info (scan_record (ocr_with_ollama r)) = Some d" and "overlay (il_gui s) = Some w"
  shows "\<exists>t. il_step\<^sup>*\<^sup>* s t \<and> il_pending t = il_pending s \<and> label_color (il_gui t) = c \<and>
             label_shown (il_gui t) = label_of d \<and>
             map_option ow_fill (overlay (il_gui t)) = Some (label_color (il_gui s))"
proof -
  let ?r = "scan_record (ocr_with_ollama r)" and ?old = "label_color (il_gui s)"
  let ?g1 = "(il_gui s)\<lparr>last_result := ?r\<rparr>"
  let ?s1 = "s\<lparr>il_gui := ?g1, il_pending := add_mset (AtLabel (Some d)) (il_pending s)\<rparr>"
  let ?s2 = "?s1\<lparr>il_gui := ?g1\<lparr>overlay_text := label_of d\<rparr>, il_pending := add_mset AtTime (il_pending s)\<rparr>"
  let ?g3 = "?g1\<lparr>overlay_text := label_of d, last_overlay_time := il_clock s\<rparr>"
  let ?s3 = "?s2\<lparr>il_gui := ?g3, il_pending := add_mset AtDraw (il_pending s)\<rparr>"
  let ?s4 = "?s3\<lparr>il_pending := add_mset (AtCall (label_of d) ?old) (il_pending s)\<rparr>"
  let ?s5 = "?s4\<lparr>il_gui := choose_label_color (Some c) ?g3\<rparr>"
  let ?s6 = "?s5\<lparr>il_gui := (il_gui ?s5)\<lparr>overlay := map_option (\<lambda>w. w\<lparr>ow_text := label_of d, ow_fill := ?old\<rparr>)
                  (overlay (il_gui ?s5))\<rparr>, il_pending := il_pending s\<rparr>"
  have 1: "il_step s ?s1" using il_step.scan_write [of s r] assms(1) by simp
  have 2: "il_step ?s1 ?s2" using il_step.scan_text [of d ?s1] by simp
  have 3: "il_step ?s2 ?s3" using il_step.scan_time [of ?s2] by simp
  have 4: "il_step ?s3 ?s4" using il_step.scan_read [of ?s3] assms(2) by simp
  have 5: "il_step ?s4 ?s5" using il_step.color [of ?s4 "Some c"] by simp
  have 6: "il_step ?s5 ?s6" using il_step.scan_call [of "label_of d" ?old ?s5] by simp
  have "il_step\<^sup>*\<^sup>* s ?s6"
    using 1 2 3 4 5 6 by (meson converse_rtranclp_into_rtranclp r_into_rtranclp)
  moreover have "label_color (il_gui ?s6) = c \<and> label_shown (il_gui ?s6) = label_of d \<and>
      map_option ow_fill (overlay (il_gui ?s6)) = Some ?old"
    using assms(2) by (simp add: choose_label_color_def label_shown_def)
  moreover have "il_pending ?s6 = il_pending s" by simp
  ultimately show ?thesis by blast
qed

text \<open>C31: a label can stay on the overlay for good: when the timer has blanked the
  text item (line 293) and a scan sets \<^verbatim>\<open>last_overlay_time\<close> before the timer resets
  it to \<open>0\<close> (line 294), the scan's label is drawn with a timestamp of \<open>0\<close>, and no
  later run of the timer clears it.\<close>

theorem label_stuck_after_timer_race:
  assumes "sr_info (scan_record (ocr_with_ollama r)) = Some d" and "overlay (il_gui s) = Some w"
    and "last_overlay_time (il_gui s) \<noteq> 0" and "10 < il_clock s - last_overlay_time (il_gui s)"
    and "\<not> il_timer s"
  shows "\<exists>t. il_step\<^sup>*\<^sup>* s t \<and> il_pending t = il_pending s \<and> \<not> il_timer t \<and>
             (\<forall>ts. label_shown (label_ticks ts (il_gui t)) = label_of d)"
proof -
  let ?r = "scan_record (ocr_with_ollama r)"
  let ?g1 = "(il_gui s)\<lparr>overlay := map_option (\<lambda>w. w\<lparr>ow_text := []\<rparr>) (overlay (il_gui s))\<rparr>"
  let ?s1 = "s\<lparr>il_gui := ?g1, il_timer := True\<rparr>"
  let ?g2 = "?g1\<lparr>last_result := ?r\<rparr>"
  let ?s2 = "?s1\<lparr>il_gui := ?g2, il_pending := add_mset (AtLabel (Some d)) (il_pending s)\<rparr>"
  let ?g3 = "?g2\<lparr>overlay_text := label_of d\<rparr>"
  let ?s3 = "?s2\<lparr>il_gui := ?g3, il_pending := add_mset AtTime (il_pending s)\<rparr>"
  let ?g4 = "?g3\<lparr>last_overlay_time := il_clock s\<rparr>"
  let ?s4 = "?s3\<lparr>il_gui := ?g4, il_pending := add_mset AtDraw (il_pending s)\<rparr>"
  let ?s5 = "?s4\<lparr>il_pending := add_mset (AtCall (label_of d) (label_color (il_gui s))) (il_pending s)\<rparr>"
  let ?g6 = "?g4\<lparr>last_overlay_time := 0\<rparr>"
  let ?s6 = "?s5\<lparr>il_gui := ?g6, il_timer := False\<rparr>"
  let ?g7 = "?g6\<lparr>overlay := map_option (\<lambda>w. w\<lparr>ow_text := label_of d, ow_fill := label_color (il_gui s)\<rparr>) (overlay ?g6)\<rparr>"
  let ?s7 = "?s6\<lparr>il_gui := ?g7, il_pending := il_pending s\<rparr>"
  have 1: "il_step s ?s1" using il_step.timer_clear [of s] assms(2-5) by simp
  have 2: "il_step ?s1 ?s2" using il_step.scan_write [of ?s1 r] assms(1) by simp
  have 3: "il_step ?s2 ?s3" using il_step.scan_text [of d ?s2] by simp
  have 4: "il_step ?s3 ?s4" using il_step.scan_time [of ?s3] by simp
  have 5: "il_step ?s4 ?s5" using il_step.scan_read [of ?s4] assms(2) by simp
  have 6: "il_step ?s5 ?s6" using il_step.timer_reset [of ?s5] by simp
  have 7: "il_step ?s6 ?s7" using il_step.scan_call [of "label_of d" "label_color (il_gui s)" ?s6] by simp
  have "il_step\<^sup>*\<^sup>* s ?s7"
    using 1 2 3 4 5 6 7 by (meson converse_rtranclp_into_rtranclp r_into_rtranclp)
  moreover have "label_ticks ts ?g7 = ?g7" for ts by (rule label_ticks_cleared) simp
  moreover have "label_shown ?g7 = label_of d" using assms(2) by (simp add: label_shown_def)
  ultimately show ?thesis by auto
qed

section \<open>Witnesses\<close>

lemma scan_3400: "sr_info (scan_record (ocr_with_ollama (OcrReply ''3400''))) =
    Some (make_info 1700 (mk_entry ''CTYPE'' ''C-Type'' ''common'' ''Rock Deposits'') 3400)"
  by (simp add: scan_eval Let_def)

lemma scan_3800: "sr_info (scan_record (ocr_with_ollama (OcrReply ''3800''))) =
    Some (make_info 1900 (mk_entry ''ETYPE'' ''E-Type'' ''common'' ''Rock Deposits'') 3800)"
  by (simp add: scan_eval Let_def)

lemma label_3400: "label_of (make_info 1700 (mk_entry ''CTYPE'' ''C-Type'' ''common'' ''Rock Deposits'') 3400) = ''C-Type x2''"
  by (simp add: label_of_def make_info_def mk_entry_def py_simps Let_def nat_digits.simps)

lemma label_3800: "label_of (make_info 1900 (mk_entry ''ETYPE'' ''E-Type'' ''common'' ''Rock Deposits'') 3800) = ''E-Type x2''"
  by (simp add: label_of_def make_info_def mk_entry_def py_simps Let_def nat_digits.simps)

lemma show_overlay_init: "\<exists>w. overlay (show_overlay init_gui) = Some w"
  by (simp add: show_overlay_def split_beta)

theorem overlapping_scans_disagree_witness:
  "\<exists>t. il_step\<^sup>*\<^sup>* \<lparr>il_gui = show_overlay init_gui, il_pending = {#}, il_timer = False, il_clock = 1000\<rparr> t \<and>
       il_pending t = {#} \<and> label_shown (il_gui t) = ''C-Type x2'' \<and>
       sr_info (last_result (il_gui t)) = Some (make_info 1900 (mk_entry ''ETYPE'' ''E-Type'' ''common'' ''Rock Deposits'') 3800)"
proof -
  have o: "overlay (il_gui \<lparr>il_gui = show_overlay init_gui, il_pending = {#}, il_timer = False, il_clock = 1000::real\<rparr>) \<noteq> None"
    using show_overlay_init by auto
  show ?thesis
    using overlapping_scans_disagree [OF scan_3400 o, of "OcrReply ''3800''"] scan_3800 label_3400 by auto
qed

theorem stale_color_after_race_witness:
  "\<exists>t. il_step\<^sup>*\<^sup>* \<lparr>il_gui = show_overlay init_gui, il_pending = {#}, il_timer = False, il_clock = 1000\<rparr> t \<and>
       il_pending t = {#} \<and> label_color (il_gui t) = ''#ff0000'' \<and> label_shown (il_gui t) = ''C-Type x2'' \<and>
       map_option ow_fill (overlay (il_gui t)) = Some ''yellow''"
proof -
  obtain w where w: "overlay (il_gui \<lparr>il_gui = show_overlay init_gui, il_pending = {#}, il_timer = False, il_clock = 1000::real\<rparr>) = Some w"
    using show_overlay_init by auto
  have y: "label_color (show_overlay init_gui) = ''yellow''" by (simp add: show_overlay_def init_gui_def split_beta)
  show ?thesis
    using stale_color_after_race [OF scan_3400 w, of "''#ff0000''"] label_3400 y by auto
qed

theorem label_stuck_after_timer_race_witness:
  "\<exists>t. il_step\<^sup>*\<^sup>* \<lparr>il_gui = update_overlay_label (sr_info (scan_record (ocr_with_ollama (OcrReply ''3400'')))) 980
                               (show_overlay init_gui),
                    il_pending = {#}, il_timer = False, il_clock = 1000\<rparr> t \<and>
       il_pending t = {#} \<and> \<not> il_timer t \<and> (\<forall>ts. label_shown (label_ticks ts (il_gui t)) = ''E-Type x2'')"
proof -
  let ?g = "update_overlay_label (sr_info (scan_record (ocr_with_ollama (OcrReply ''3400'')))) 980 (show_overlay init_gui)"
  let ?s = "\<lparr>il_gui = ?g, il_pending = {#}, il_timer = False, il_clock = 1000::real\<rparr>"
  obtain w0 where w0: "overlay (show_overlay init_gui) = Some w0" using show_overlay_init by auto
  have lt: "last_overlay_time ?g = 980" using scan_3400 by (simp add: update_overlay_label_def Let_def)
  obtain w where w: "overlay (il_gui ?s) = Some w"
    using w0 scan_3400 by (simp add: update_overlay_label_def Let_def)
  have l: "last_overlay_time (il_gui ?s) \<noteq> 0" "10 < il_clock ?s - last_overlay_time (il_gui ?s)" "\<not> il_timer ?s"
    using lt by simp_all
  show ?thesis
    using label_stuck_after_timer_race [OF scan_3800 w l] label_3800 by auto
qed
end
