(* ===== verification/Spec2Isabelle.thy ===== *)
theory Spec2Isabelle
  imports Continuous Tables Config Installer Session Interleave
begin

text \<open>
  A verification development of \<^verbatim>\<open>src/scan_deposits.py\<close> (FrozenButton's
  Scanning-Tool), a helper for a space-trading game. It grabs a small screen region,
  asks a local vision model (\<^verbatim>\<open>ollama\<close>) for the text it shows, extracts a deposit
  code, resolves the code against a table of base codes, and shows
  \<^verbatim>\<open>"name xN"\<close> in a transparent overlay that clears itself after ten seconds. A
  continuous mode repeats the scan every two seconds on a background thread; buttons,
  hotkeys and a local web page drive and observe the same module-level state.

  \<^bold>\<open>Theories and the code they model.\<close>
  \<^item> \<open>Prelude\<close>: the Python built-ins the program uses, on strings as character lists
    read as Latin-1 code points (\<^verbatim>\<open>str.upper\<close>, \<^verbatim>\<open>str.title\<close>,
    \<^verbatim>\<open>str.strip\<close>, \<^verbatim>\<open>str.replace\<close>, \<^verbatim>\<open>str.isdigit\<close>, \<^verbatim>\<open>int()\<close> and
    \<^verbatim>\<open>str()\<close> on decimal strings), insertion-ordered dictionaries as association
    lists (\<open>dict_get\<close>, \<open>dict_set\<close>), and \<open>py_map_all\<close>, a loop that appends one
    result per element and stops at the first exception (\<open>Inl\<close>). Case mappings are
    those of ASCII letters.
  \<^item> \<open>PyRegex\<close>: the part of Python's \<^verbatim>\<open>re\<close> the program uses. A pattern is an
    \<open>rx\<close> term; \<open>lm\<close> lists the prefix matches in backtracking order, so
    \<open>re_match\<close>, \<open>re_search\<close> and \<open>findall\<close> return what CPython returns.
    \<open>rx_lang\<close> is the language of a pattern, and the lemmas relate the two.
  \<^item> \<open>Normalizer\<close>: \<^verbatim>\<open>CODE_RE\<close> (lines 85--89) and
    \<^verbatim>\<open>extract_code_from_text\<close> (lines 215--232).
  \<^item> \<open>Resolver\<close>: \<^verbatim>\<open>MULTIPLIER_CODES\<close> (lines 133--152) and
    \<^verbatim>\<open>lookup_deposit\<close> (lines 235--257). \<open>resolve_spec\<close> is the specification's
    resolver (first base code in table order dividing the number), and
    \<open>lookup_deposit\<close> is proved to refine it.
  \<^item> \<open>State\<close>: the module globals (lines 79--80, 91--92, 261--268) as the record
    \<open>gui\<close>.
  \<^item> \<open>Overlay\<close>: \<^verbatim>\<open>update_overlay_label\<close>, \<^verbatim>\<open>start_label_timeout\<close> (one
    timer run is \<open>label_timeout_tick\<close>, a sequence of runs \<open>label_ticks\<close>),
    \<^verbatim>\<open>toggle_border\<close>, \<^verbatim>\<open>choose_label_color\<close>, \<^verbatim>\<open>show_overlay\<close>,
    \<^verbatim>\<open>update_overlay_region\<close> and the slider callback (lines 271--370).
  \<^item> \<open>Scan\<close>: \<^verbatim>\<open>ocr_with_ollama\<close> and \<^verbatim>\<open>capture_once\<close> (lines 196--212,
    427--446). The grab and the model reply are an argument of type \<open>capture\<close>; an
    exception of the grab is the value \<open>Inl CaptureError\<close>. \<open>ocr_request\<close> is
    the request \<^verbatim>\<open>ollama.chat\<close> receives (\<^verbatim>\<open>OLLAMA_MODEL\<close>, the prompt, the
    PNG bytes), and \<open>ocr_call\<close> the whole wrapper for a model given as a function from
    requests to replies; the model itself is an input.
  \<^item> \<open>Continuous\<close>: \<^verbatim>\<open>toggle_continuous\<close>, \<^verbatim>\<open>continuous_scan_loop\<close>, the
    Tk buttons and the hotkeys (lines 411--416, 449--462, 481--488). The threads
    interleave: \<open>cs_step\<close> is one atomic action of one thread on the shared state,
    the running loops are a multiset of program points, and \<open>reach\<close> is the set of
    reachable states. Each \<^verbatim>\<open>capture_once\<close> is one atomic step.
  \<^item> \<open>Tables\<close>: \<^verbatim>\<open>ORE_TIERS\<close>, \<^verbatim>\<open>ORE_VALUE_MAP\<close>,
    \<^verbatim>\<open>build_deposit_tables\<close> and \<^verbatim>\<open>DEPOSIT_TABLES\<close> (lines 155--193) over the
    value \<^verbatim>\<open>json.load\<close> returns, every exception of a malformed dataset an \<open>Inl\<close>.
  \<^item> \<open>Config\<close>: \<^verbatim>\<open>load_config\<close> and \<^verbatim>\<open>save_config\<close> (lines 96--117). The
    two globals are JSON values, as \<^verbatim>\<open>json.load\<close> leaves them. The file is missing,
    unreadable, undecodable, not JSON, or a JSON value, and writing may fail.
  \<^item> \<open>Installer\<close>: \<^verbatim>\<open>ensure_ollama_installed\<close> and
    \<^verbatim>\<open>ensure_model_installed\<close> (lines 23--72) over a record of what the environment
    answers, returning the external actions in order and how the process stops; and
    \<open>startup\<close>, the import-time table build followed by the main block up to
    \<^verbatim>\<open>load_config\<close> (lines 495--500).
  \<^item> \<open>Session\<close>: the running program after start-up, that is the threads of
    \<open>Continuous\<close> plus the configuration file and the Tk main loop. It adds the
    \<^verbatim>\<open>Save Config\<close> button and \<^verbatim>\<open>on_close\<close> (lines 372--383, 416).
  \<^item> \<open>Interleave\<close>: the end of \<^verbatim>\<open>capture_once\<close> and \<^verbatim>\<open>update_overlay_label\<close>
    statement by statement (lines 443--444, 279--286), interleaved with
    \<^verbatim>\<open>choose_label_color\<close> and the two statements of the label timer (lines
    289--307). Each scan in flight has a program point (\<open>scan_pc\<close>); the point
    \<open>AtCall\<close> holds the arguments the scan evaluated before its Tk call.
  \<^item> This theory holds the properties that span components.

  \<^bold>\<open>What the lemmas show.\<close>
  \<^item> Normalizer: every code extracted has the shape letter, dash, digits. No code is
    found exactly when no substring matches the pattern.
  \<^item> Resolver: lookup refines the specification's resolver; its first-match,
    \<open>None\<close> and divisibility behaviour; deposits of zero for an all-zero code; a code
    that two base codes divide.
  \<^item> Overlay and Scan: the label lifecycle under any sequence of timer checks; the
    border geometry; a scan records the model's answer, a normalised code and the
    specification's resolution of that code; an unresolved scan leaves the label alone;
    a failed model call gives an empty scan.
  \<^item> Continuous: by rule induction over the reachable states, without exceptions
    continuous mode is never on without a loop. An exception of the grab
    stops the loop silently, and toggling can start any number of loops. Once the
    mode is off, every loop can finish without another scan (termination).
  \<^item> Tables: a table is sorted by tier and stable; building fails exactly on malformed
    data, an integer percentage beyond the float range included; the last of two
    case-variant deposit names wins; percentages within the float range are rounded to
    the nearest whole percent.
  \<^item> Config: saving then loading restores the saved settings; loading raises exactly
    on undecodable files, on JSON that is not an object, and on a failed rewrite; a
    missing or corrupt file keeps the current settings and is rewritten.
  \<^item> Installer: the model is pulled exactly when its name does not occur as a
    substring of the output of \<^verbatim>\<open>ollama list\<close>, so another tag of it counts as
    installed; start-up reaches the GUI exactly when every stage succeeds.
  \<^item> Session: an unwritable configuration file keeps the window from closing;
    closing and starting again restores the region and colour.
  \<^item> Interleave: an uninterrupted scan reaches the state \<^verbatim>\<open>capture_once\<close> returns.
    Three reachable races: two overlapping scans leave \<^verbatim>\<open>last_result\<close> describing
    one scan and the label the other; a colour chosen while a scan draws is lost, so
    the overlay's invariant of the \<open>Overlay\<close> theory (label drawn in the current colour)
    fails; a scan landing between the timer's two statements leaves a label that no
    later timer run clears.

  \<^bold>\<open>Bounds and fuel.\<close> No fuel is used. The regex matcher and \<open>findall\<close> terminate by
  the length of the remaining text. The timer and the loop threads are unbounded
  sequences of steps: the properties quantify over every list of timer times and every
  reachable state. \<^verbatim>\<open>int()\<close> refuses strings of more than 4300 digits, CPython's
  default, and the resolver models that limit.

  \<^bold>\<open>Not modelled.\<close>
  \<^item> The messages the installer checks print, and what the external commands do
    beyond their output and success.
  \<^item> The bytes of the configuration file: \<^verbatim>\<open>json.load\<close> after
    \<^verbatim>\<open>json.dump\<close> is taken to give the value back. The effect of a loaded
    \<^verbatim>\<open>CAP_REGION\<close> of the wrong shape on later scans is not modelled, because
    \<open>gui\<close> holds a region of four integers.
  \<^item> \<^verbatim>\<open>resource_path\<close> and the reading of the rock-type file are I/O.
  \<^item> The widget layout of \<^verbatim>\<open>launch_gui\<close> and the Flask index page are
    presentation only: they are modelled only through the callbacks they invoke and the
    state \<^verbatim>\<open>/status\<close> reads.
  \<^item> A session holds the typed \<open>gui\<close> record. A configuration whose region is not
    four integers, or whose colour is not a string, is loaded by \<open>startup\<close>, but its
    effect on later scans is not modelled.
  \<^item> The pixels of the grab and the text the model returns are inputs, not modelled.
  \<^item> Binary floating point is modelled only at the edge of its range: times and JSON
    floats are exact reals, an integer percentage too large for a float raises
    \<^verbatim>\<open>OverflowError\<close> and a float product beyond the range prints \<^verbatim>\<open>inf%\<close>
    (the bound \<open>2\<^sup>1\<^sup>0\<^sup>2\<^sup>4 - 2\<^sup>9\<^sup>7\<^sup>0\<close>); rounding inside the range is not modelled.
  \<^item> In \<open>Continuous\<close> and \<open>Session\<close> a scan is one atomic step, so no invariant of
    the overlay is claimed there: \<open>Interleave\<close> shows it fails once scans interleave
    with the colour callback. \<open>Interleave\<close> has the scans, the colour callback, the
    timer and the clock, but not the toggling and loop threads. Its steps are blocks of
    code run without interruption; its theorems are reachability statements, which
    remain true for any finer interleaving.
\<close>

section \<open>Properties across components\<close>

lemma scan_record_3400:
  "sr_code (scan_record (ocr_with_ollama (OcrReply ''Code: 3400 detected''))) = Some ''3400'' \<and>
   sr_info (scan_record (ocr_with_ollama (OcrReply ''Code: 3400 detected''))) =
     Some (make_info 1700 (mk_entry ''CTYPE'' ''C-Type'' ''common'' ''Rock Deposits'') 3400)"
  by (simp add: scan_eval Let_def)

lemma label_of_3400:
  "label_of (make_info 1700 (mk_entry ''CTYPE'' ''C-Type'' ''common'' ''Rock Deposits'') 3400) = ''C-Type x2''"
  by (simp add: label_of_def make_info_def mk_entry_def py_simps Let_def nat_digits.simps)

text \<open>C20: the specification's example end to end: a scan whose model reply is
  \<^verbatim>\<open>Code: 3400 detected\<close> records the code \<^verbatim>\<open>3400\<close> and shows
  \<^verbatim>\<open>C-Type x2\<close>, which survives every timer check up to ten seconds after the scan and
  is gone after the first check later than that.\<close>

theorem spec_example_scan_and_timeout:
  assumes "overlay s \<noteq> None" "now \<noteq> 0"
  shows "\<exists>s'. capture_once (Captured (OcrReply ''Code: 3400 detected'')) now s = Inr s' \<and>
           sr_code (last_result s') = Some ''3400'' \<and>
           label_shown (label_ticks ts s') = (if \<exists>t \<in> set ts. t - now > 10 then [] else ''C-Type x2'')"
proof -
  let ?r = "scan_record (ocr_with_ollama (OcrReply ''Code: 3400 detected''))"
  let ?s' = "update_overlay_label (sr_info ?r) now (s\<lparr>last_result := ?r\<rparr>)"
  have o: "overlay (s\<lparr>last_result := ?r\<rparr>) \<noteq> None" using assms(1) by simp
  have u: "label_shown ?s' = ''C-Type x2'' \<and> last_overlay_time ?s' = now \<and> overlay ?s' \<noteq> None"
    using update_label_Some [OF o] scan_record_3400 label_of_3400 by simp
  have "label_shown (label_ticks ts ?s') = (if \<exists>t \<in> set ts. t - now > 10 then [] else ''C-Type x2'')"
    using label_ticks_from [of ?s' "''C-Type x2''" ts] u assms(2) by simp
  moreover have "sr_code (last_result ?s') = Some ''3400''"
    using scan_record_3400 by (simp add: update_label_last_result)
  ultimately show ?thesis using capture_once_Captured by blast
qed

lemma E3800_not_spec_shape: "\<not> rx_lang SPEC_CODE_RE ''E-3800''"
proof -
  have "\<not> list_all is_digit (drop i ''E-3800'')" if "i \<le> Suc 0" for i
    using that by (auto simp: le_Suc_eq py_simps)
  then show ?thesis by (auto simp: SPEC_CODE_RE_def)
qed

text \<open>The normaliser keeps the dash of a prefixed code: \<^verbatim>\<open>E-3800\<close> is
  returned as \<^verbatim>\<open>E-3800\<close>, not the \<^verbatim>\<open>E3800\<close> of the specification's example, and
  it is not of the shape \<^verbatim>\<open>[A-Z-]?[0-9]+\<close> the specification states; the resolver
  reads only the trailing digits, so both spellings resolve alike.\<close>

lemma spec_shape_divergence:
  "fst (extract_code_from_text ''E-3800'') = Some ''E-3800'' \<and> \<not> rx_lang SPEC_CODE_RE ''E-3800'' \<and>
   lookup_deposit (Some ''E-3800'') = lookup_deposit (Some ''E3800'')"
  using E3800_not_spec_shape by (simp add: extract_eval findall.simps lookup_deposit_def DIGITS_END_RE_def
      MULTIPLIER_CODES_def mk_entry_def make_info_def)

section \<open>Witnesses\<close>

theorem spec_example_scan_and_timeout_witness:
  "\<exists>s'. capture_once (Captured (OcrReply ''Code: 3400 detected'')) 1000 (show_overlay init_gui) = Inr s' \<and>
        sr_code (last_result s') = Some ''3400'' \<and>
        label_shown (label_ticks (map (\<lambda>k. 1000 + real k / 2) [1..<21]) s') = ''C-Type x2'' \<and>
        label_shown (label_ticks (map (\<lambda>k. 1000 + real k / 2) [1..<22]) s') = []"
proof -
  have o: "overlay (show_overlay init_gui) \<noteq> None" by (simp add: show_overlay_def split_beta)
  obtain s' where e: "capture_once (Captured (OcrReply ''Code: 3400 detected'')) 1000 (show_overlay init_gui) = Inr s'"
    using capture_once_Captured by blast
  have a: "label_shown (label_ticks ts s') = (if \<exists>t \<in> set ts. t - 1000 > 10 then [] else ''C-Type x2'')
           \<and> sr_code (last_result s') = Some ''3400''" for ts
    using spec_example_scan_and_timeout [OF o, of 1000 ts] e by auto
  have "\<not> (\<exists>t \<in> set (map (\<lambda>k. 1000 + real k / 2) [1..<21]). t - 1000 > (10::real))" by auto
  moreover have "\<exists>t \<in> set (map (\<lambda>k. 1000 + real k / 2) [1..<22]). t - 1000 > (10::real)"
    by (rule bexI [where x = "1000 + 21 / 2"]) auto
  ultimately show ?thesis using e a [of "map (\<lambda>k. 1000 + real k / 2) [1..<21]"]
    a [of "map (\<lambda>k. 1000 + real k / 2) [1..<22]"] by auto
qed
end
